theory Spec2Isabelle
  imports Main "HOL-Library.Word" "HOL-Library.Sublist" "HOL-Library.AList"
begin

chapter \<open>The model\<close>

section \<open>Domain records (Models)\<close>

text \<open>
  A \<^verbatim>\<open>DateTime\<close> is the number of 100 ns ticks since the Unix epoch, a \<^verbatim>\<open>long\<close>
  a 64-bit word (\<^verbatim>\<open>Interlocked.Increment\<close> wraps), a \<^verbatim>\<open>double\<close> the 64 bits of
  its IEEE 754 encoding (no arithmetic is done on it here), the \<^verbatim>\<open>int limit\<close> of a
  query an integer. A \<^verbatim>\<open>Dictionary<string, T>\<close> is an association list in insertion order;
  \<^verbatim>\<open>dict[k] = v\<close> is \<open>AList.update k v\<close>.
\<close>

type_synonym DateTime = int
type_synonym long = "64 word"
type_synonym double = "64 word"

datatype LogLevel = Debug | Info | Warn | Error | Fatal

datatype MetricType = Counter | Gauge | Histogram | Sum

text \<open>The values a \<^verbatim>\<open>Dictionary<string, object>\<close> of log attributes holds.\<close>

datatype obj =
  OString string
  | OLong long
  | ODouble double
  | OBool bool
  | OList "obj list"
  | ODict "(string \<times> obj) list"

record ResourceInfo =
  res_ServiceName :: string
  res_ServiceVersion :: "string option"
  res_DeploymentEnvironment :: "string option"

record LogEntry =
  log_Id :: long
  log_TraceId :: string
  log_SpanId :: string
  log_Timestamp :: DateTime
  log_Level :: LogLevel
  log_ServiceName :: string
  log_Message :: string
  log_Attributes :: "(string \<times> obj) list"
  log_Resource :: "ResourceInfo option"

record MetricEntry =
  metric_Id :: long
  metric_Name :: string
  metric_Description :: "string option"
  metric_Unit :: "string option"
  metric_Value :: double
  metric_Type :: MetricType
  metric_Timestamp :: DateTime
  metric_ServiceName :: string
  metric_Attributes :: "(string \<times> string) list"

section \<open>InMemoryStore: logs and metrics\<close>

text \<open>
  The queues are lists with the oldest element first (\<^verbatim>\<open>Enqueue\<close> appends,
  \<^verbatim>\<open>TryDequeue\<close> removes the head); the index dictionaries are maps from the key to
  its queue. The model is sequential: one call runs to its end before the next starts.
\<close>

record InMemoryStore =
  logIdCounter :: long
  metricIdCounter :: long
  logs :: "LogEntry list"
  metrics :: "MetricEntry list"
  logsByService :: "string \<rightharpoonup> LogEntry list"
  logsByTraceId :: "string \<rightharpoonup> LogEntry list"
  metricsByName :: "string \<rightharpoonup> MetricEntry list"
  metricsByService :: "string \<rightharpoonup> MetricEntry list"

definition maxLogs :: nat where
  "maxLogs = 100000"

definition maxMetrics :: nat where
  "maxMetrics = 100000"

definition new_store :: InMemoryStore where
  "new_store = \<lparr> logIdCounter = 0, metricIdCounter = 0, logs = [], metrics = [],
     logsByService = Map.empty, logsByTraceId = Map.empty,
     metricsByName = Map.empty, metricsByService = Map.empty \<rparr>"

text \<open>\<^verbatim>\<open>GetOrAddQueue(dict, key).Enqueue(x)\<close>\<close>

definition GetOrAddQueue_Enqueue :: "(string \<rightharpoonup> 'a list) \<Rightarrow> string \<Rightarrow> 'a \<Rightarrow> (string \<rightharpoonup> 'a list)" where
  "GetOrAddQueue_Enqueue dict key x =
     dict(key \<mapsto> (case dict key of None \<Rightarrow> [] | Some q \<Rightarrow> q) @ [x])"

function TrimLogsIfNeeded :: "InMemoryStore \<Rightarrow> InMemoryStore" where
  "TrimLogsIfNeeded s =
     (if length (logs s) > maxLogs then
        (case logs s of
           [] \<Rightarrow> s
         | x # rest \<Rightarrow> TrimLogsIfNeeded (s\<lparr>logs := rest\<rparr>))
      else s)"
  by pat_completeness auto
termination
  by (relation "measure (\<lambda>s. length (logs s))") auto

declare TrimLogsIfNeeded.simps [simp del]

definition AddLog :: "InMemoryStore \<Rightarrow> LogEntry \<Rightarrow> long \<times> InMemoryStore" where
  "AddLog s log =
     (let newId = logIdCounter s + 1;
          logWithId = log\<lparr>log_Id := newId\<rparr>;
          s1 = s\<lparr>logIdCounter := newId, logs := logs s @ [logWithId]\<rparr>;
          s2 = s1\<lparr>logsByService :=
                 GetOrAddQueue_Enqueue (logsByService s1) (log_ServiceName log) logWithId\<rparr>;
          s3 = (if log_TraceId log \<noteq> []
                then s2\<lparr>logsByTraceId :=
                        GetOrAddQueue_Enqueue (logsByTraceId s2) (log_TraceId log) logWithId\<rparr>
                else s2)
      in (newId, TrimLogsIfNeeded s3))"

text \<open>
  \<^verbatim>\<open>!string.IsNullOrEmpty(key) && dict.TryGetValue(key, out queue)\<close>: the queue when
  the test succeeds.
\<close>

definition index_lookup :: "(string \<rightharpoonup> 'a list) \<Rightarrow> string option \<Rightarrow> 'a list option" where
  "index_lookup dict key =
     (case key of None \<Rightarrow> None | Some k \<Rightarrow> if k = [] then None else dict k)"

text \<open>\<^verbatim>\<open>if (f.HasValue) query = query.Where(p f.Value)\<close>\<close>

definition where_opt :: "'f option \<Rightarrow> ('f \<Rightarrow> 'a \<Rightarrow> bool) \<Rightarrow> 'a list \<Rightarrow> 'a list" where
  "where_opt f p query = (case f of None \<Rightarrow> query | Some v \<Rightarrow> filter (p v) query)"

text \<open>
  \<^verbatim>\<open>OrderByDescending\<close> is a stable sort: elements with equal keys keep their order.
  \<^verbatim>\<open>Take(n)\<close> returns nothing for \<open>n \<le> 0\<close>.
\<close>

definition OrderByDescending :: "('a \<Rightarrow> int) \<Rightarrow> 'a list \<Rightarrow> 'a list" where
  "OrderByDescending f xs = sort_key (\<lambda>x. - f x) xs"

definition Take :: "int \<Rightarrow> 'a list \<Rightarrow> 'a list" where
  "Take n xs = take (nat n) xs"

definition QueryLogs ::
  "InMemoryStore \<Rightarrow> string option \<Rightarrow> LogLevel option \<Rightarrow> DateTime option \<Rightarrow> DateTime option
     \<Rightarrow> string option \<Rightarrow> int \<Rightarrow> LogEntry list" where
  "QueryLogs s serviceName level startTime endTime traceId limit =
     (let query0 =
            (case index_lookup (logsByTraceId s) traceId of
               Some traceQueue \<Rightarrow> traceQueue
             | None \<Rightarrow>
                 (case index_lookup (logsByService s) serviceName of
                    Some serviceQueue \<Rightarrow> serviceQueue
                  | None \<Rightarrow> logs s));
          query1 = where_opt level (\<lambda>v l. log_Level l = v) query0;
          query2 = where_opt startTime (\<lambda>v l. log_Timestamp l \<ge> v) query1;
          query3 = where_opt endTime (\<lambda>v l. log_Timestamp l \<le> v) query2
      in Take limit (OrderByDescending log_Timestamp query3))"

function TrimMetricsIfNeeded :: "InMemoryStore \<Rightarrow> InMemoryStore" where
  "TrimMetricsIfNeeded s =
     (if length (metrics s) > maxMetrics then
        (case metrics s of
           [] \<Rightarrow> s
         | x # rest \<Rightarrow> TrimMetricsIfNeeded (s\<lparr>metrics := rest\<rparr>))
      else s)"
  by pat_completeness auto
termination
  by (relation "measure (\<lambda>s. length (metrics s))") auto

declare TrimMetricsIfNeeded.simps [simp del]

definition AddMetric :: "InMemoryStore \<Rightarrow> MetricEntry \<Rightarrow> long \<times> InMemoryStore" where
  "AddMetric s metric =
     (let newId = metricIdCounter s + 1;
          metricWithId = metric\<lparr>metric_Id := newId\<rparr>;
          s1 = s\<lparr>metricIdCounter := newId, metrics := metrics s @ [metricWithId]\<rparr>;
          s2 = s1\<lparr>metricsByName :=
                 GetOrAddQueue_Enqueue (metricsByName s1) (metric_Name metric) metricWithId\<rparr>;
          s3 = s2\<lparr>metricsByService :=
                 GetOrAddQueue_Enqueue (metricsByService s2) (metric_ServiceName metric) metricWithId\<rparr>
      in (newId, TrimMetricsIfNeeded s3))"

definition QueryMetrics ::
  "InMemoryStore \<Rightarrow> string option \<Rightarrow> string option \<Rightarrow> DateTime option \<Rightarrow> DateTime option
     \<Rightarrow> int \<Rightarrow> MetricEntry list" where
  "QueryMetrics s name serviceName startTime endTime limit =
     (let query0 =
            (case index_lookup (metricsByName s) name of
               Some nameQueue \<Rightarrow> nameQueue
             | None \<Rightarrow>
                 (case index_lookup (metricsByService s) serviceName of
                    Some serviceQueue \<Rightarrow> serviceQueue
                  | None \<Rightarrow> metrics s));
          query1 = where_opt startTime (\<lambda>v m. metric_Timestamp m \<ge> v) query0;
          query2 = where_opt endTime (\<lambda>v m. metric_Timestamp m \<le> v) query1
      in Take limit (OrderByDescending metric_Timestamp query2))"

text \<open>A sequence of calls, each on the store the previous one left.\<close>

definition AddLogs :: "InMemoryStore \<Rightarrow> LogEntry list \<Rightarrow> InMemoryStore" where
  "AddLogs s xs = foldl (\<lambda>s x. snd (AddLog s x)) s xs"

definition AddMetrics :: "InMemoryStore \<Rightarrow> MetricEntry list \<Rightarrow> InMemoryStore" where
  "AddMetrics s xs = foldl (\<lambda>s x. snd (AddMetric s x)) s xs"

text \<open>The entries of a sequence of calls as stored: the \<open>i\<close>-th gets the \<open>i\<close>-th next id.\<close>

fun stamp_logs :: "long \<Rightarrow> LogEntry list \<Rightarrow> LogEntry list" where
  "stamp_logs c [] = []"
| "stamp_logs c (x # xs) = x\<lparr>log_Id := c + 1\<rparr> # stamp_logs (c + 1) xs"

fun stamp_metrics :: "long \<Rightarrow> MetricEntry list \<Rightarrow> MetricEntry list" where
  "stamp_metrics c [] = []"
| "stamp_metrics c (x # xs) = x\<lparr>metric_Id := c + 1\<rparr> # stamp_metrics (c + 1) xs"

subsection \<open>Sequences of calls\<close>

datatype StoreOp = OpAddLog LogEntry | OpAddMetric MetricEntry

fun apply_op :: "InMemoryStore \<Rightarrow> StoreOp \<Rightarrow> InMemoryStore" where
  "apply_op s (OpAddLog x) = snd (AddLog s x)"
| "apply_op s (OpAddMetric m) = snd (AddMetric s m)"

definition run_ops :: "InMemoryStore \<Rightarrow> StoreOp list \<Rightarrow> InMemoryStore" where
  "run_ops s ops = foldl apply_op s ops"

fun added_logs :: "StoreOp list \<Rightarrow> LogEntry list" where
  "added_logs [] = []"
| "added_logs (OpAddLog x # ops) = x # added_logs ops"
| "added_logs (OpAddMetric m # ops) = added_logs ops"

fun added_metrics :: "StoreOp list \<Rightarrow> MetricEntry list" where
  "added_metrics [] = []"
| "added_metrics (OpAddLog x # ops) = added_metrics ops"
| "added_metrics (OpAddMetric m # ops) = m # added_metrics ops"

text \<open>Sample records for the concrete instances below.\<close>

definition sample_log :: "string \<Rightarrow> string \<Rightarrow> DateTime \<Rightarrow> LogEntry" where
  "sample_log svc tid t = \<lparr> log_Id = 0, log_TraceId = tid, log_SpanId = [], log_Timestamp = t,
     log_Level = Info, log_ServiceName = svc, log_Message = ''m'', log_Attributes = [],
     log_Resource = None \<rparr>"

definition sample_metric :: "string \<Rightarrow> DateTime \<Rightarrow> MetricEntry" where
  "sample_metric n t = \<lparr> metric_Id = 0, metric_Name = n, metric_Description = None,
     metric_Unit = None, metric_Value = 0, metric_Type = Gauge, metric_Timestamp = t,
     metric_ServiceName = ''svc'', metric_Attributes = [] \<rparr>"

text \<open>
  What an index dictionary built by \<^verbatim>\<open>GetOrAddQueue(dict, key e).Enqueue(e)\<close> over the
  entries \<open>xs\<close> holds at key \<open>k\<close>: no queue when no entry has the key, else the entries
  with that key, oldest first.
\<close>

definition index_of :: "('a \<Rightarrow> string) \<Rightarrow> 'a list \<Rightarrow> string \<rightharpoonup> 'a list" where
  "index_of key xs k = (if filter (\<lambda>e. key e = k) xs = [] then None
                        else Some (filter (\<lambda>e. key e = k) xs))"

text \<open>
  Two concrete call sequences: one log of service \<open>a\<close> followed by 100000 logs of service
  \<open>b\<close>, which evicts the first; and three metric samples under two names.
\<close>

definition evicting_ops :: "StoreOp list" where
  "evicting_ops =
     OpAddLog (sample_log ''a'' ''0af7'' 1) # replicate 100000 (OpAddLog (sample_log ''b'' [] 2))"

definition two_names_ops :: "StoreOp list" where
  "two_names_ops = [OpAddMetric (sample_metric ''cpu'' 1), OpAddMetric (sample_metric ''mem'' 5),
     OpAddMetric (sample_metric ''cpu'' 3)]"

text \<open>Two metric samples, the first under the empty name.\<close>

definition empty_name_ops :: "StoreOp list" where
  "empty_name_ops = [OpAddMetric (sample_metric [] 1), OpAddMetric (sample_metric ''cpu'' 2)]"

section \<open>Exceptions and framework functions\<close>

text \<open>
  An exception is a value: a computation that can throw returns \<open>error + 'a\<close>, with
  \<open>Inl\<close> the exception. \<open>bind\<close> runs the next step unless an exception was thrown.
\<close>

datatype error =
  ArgumentException
  | InvalidOperationException
  | FormatException
  | NullReferenceException

definition bind :: "error + 'a \<Rightarrow> ('a \<Rightarrow> error + 'b) \<Rightarrow> error + 'b" where
  "bind m f = (case m of Inl e \<Rightarrow> Inl e | Inr x \<Rightarrow> f x)"

text \<open>\<^verbatim>\<open>try { ... } catch (Exception) { return null; }\<close>\<close>

definition catch_null :: "error + 'a \<Rightarrow> 'a option" where
  "catch_null m = (case m of Inl e \<Rightarrow> None | Inr x \<Rightarrow> Some x)"

text \<open>\<^verbatim>\<open>s ?? d\<close> on a nullable string.\<close>

definition or_default :: "string option \<Rightarrow> string \<Rightarrow> string" where
  "or_default s d = (case s of None \<Rightarrow> d | Some x \<Rightarrow> x)"

text \<open>
  A parsed JSON document (\<^verbatim>\<open>JsonElement\<close>). A number is either an integer literal
  without fraction or exponent (the literal \<open>-0\<close> is left out), or another number literal,
  given by the \<^verbatim>\<open>double\<close> that \<^verbatim>\<open>GetDouble\<close> reads from it. The properties of an
  object are in document order.
\<close>

datatype jnum = JInt int | JReal double

datatype json =
  JNull
  | JBool bool
  | JNumber jnum
  | JString string
  | JArray "json list"
  | JObject "(string \<times> json) list"

text \<open>
  The functions of the .NET runtime that the adapters call and that are not modelled
  here are parameters of the model: number formatting of doubles, conversions to
  \<^verbatim>\<open>double\<close>, Base64, \<^verbatim>\<open>JsonElement.ToString()\<close> and the message of an exception.
\<close>

record Framework =
  Double_ToString :: "double \<Rightarrow> string"
  Double_ToString_F2 :: "double \<Rightarrow> string"
  Double_Add :: "double \<Rightarrow> double \<Rightarrow> double"
  Int_ToDouble :: "int \<Rightarrow> double"
  Ticks_TotalMilliseconds :: "int \<Rightarrow> double"
  ToBase64String :: "8 word list \<Rightarrow> string"
  Json_ToString :: "json \<Rightarrow> string"
  Exception_Message :: "error \<Rightarrow> string"

text \<open>
  \<^verbatim>\<open>ToString()\<close> of an integer in the invariant culture: decimal digits, with a leading
  minus sign for a negative value. \<^verbatim>\<open>bool.ToString()\<close> is \<open>True\<close> or \<open>False\<close>.
\<close>

definition digit_char :: "nat \<Rightarrow> char" where
  "digit_char d = char_of (48 + d)"

fun digits :: "nat \<Rightarrow> string" where
  "digits n = (if n < 10 then [digit_char n] else digits (n div 10) @ [digit_char (n mod 10)])"

declare digits.simps [simp del]

definition Int_ToString :: "int \<Rightarrow> string" where
  "Int_ToString i = (if i < 0 then CHR ''-'' # digits (nat (- i)) else digits (nat i))"

definition Bool_ToString :: "bool \<Rightarrow> string" where
  "Bool_ToString b = (if b then ''True'' else ''False'')"

text \<open>\<^verbatim>\<open>string.Join(sep, parts)\<close>\<close>

fun Join :: "string \<Rightarrow> string list \<Rightarrow> string" where
  "Join sep [] = []"
| "Join sep [p] = p"
| "Join sep (p # ps) = p @ sep @ Join sep ps"

text \<open>
  \<^verbatim>\<open>ulong.TryParse\<close>, \<^verbatim>\<open>long.TryParse\<close> and \<^verbatim>\<open>int.TryParse\<close> of a string
  (\<^verbatim>\<open>NumberStyles.Integer\<close>, invariant culture): optional white space, an optional sign,
  one or more decimal digits, optional white space, optional trailing NUL characters; the
  value has to fit the type (for \<^verbatim>\<open>ulong\<close> a minus sign is accepted in front of zero only).
  \<open>None\<close> is the result \<^verbatim>\<open>false\<close>.
\<close>

definition IsWhite :: "char \<Rightarrow> bool" where
  "IsWhite c = (c = CHR 0x20 \<or> (9 \<le> (of_char c :: nat) \<and> (of_char c :: nat) \<le> 13))"

definition IsDigit :: "char \<Rightarrow> bool" where
  "IsDigit c = (48 \<le> (of_char c :: nat) \<and> (of_char c :: nat) \<le> 57)"

definition digits_value :: "string \<Rightarrow> int" where
  "digits_value ds = foldl (\<lambda>acc c. 10 * acc + ((of_char c :: int) - 48)) 0 ds"

definition parse_integer :: "string \<Rightarrow> int option" where
  "parse_integer s =
     (let s1 = dropWhile IsWhite s;
          neg = (s1 \<noteq> [] \<and> hd s1 = CHR ''-'');
          s2 = (if s1 \<noteq> [] \<and> (hd s1 = CHR ''-'' \<or> hd s1 = CHR ''+'') then tl s1 else s1);
          ds = takeWhile IsDigit s2;
          rest = dropWhile IsWhite (dropWhile IsDigit s2)
      in if ds = [] \<or> \<not> list_all (\<lambda>c. c = CHR 0x00) rest then None
         else Some (if neg then - digits_value ds else digits_value ds))"

definition UInt64_TryParse :: "string option \<Rightarrow> 64 word option" where
  "UInt64_TryParse s =
     (case s of
        None \<Rightarrow> None
      | Some str \<Rightarrow>
          (case parse_integer str of
             None \<Rightarrow> None
           | Some v \<Rightarrow> if 0 \<le> v \<and> v < 2 ^ 64 then Some (word_of_int v) else None))"

definition Int64_TryParse :: "string option \<Rightarrow> 64 word option" where
  "Int64_TryParse s =
     (case s of
        None \<Rightarrow> None
      | Some str \<Rightarrow>
          (case parse_integer str of
             None \<Rightarrow> None
           | Some v \<Rightarrow> if - (2 ^ 63) \<le> v \<and> v < 2 ^ 63 then Some (word_of_int v) else None))"

definition Int32_TryParse :: "string option \<Rightarrow> 32 word option" where
  "Int32_TryParse s =
     (case s of
        None \<Rightarrow> None
      | Some str \<Rightarrow>
          (case parse_integer str of
             None \<Rightarrow> None
           | Some v \<Rightarrow> if - (2 ^ 31) \<le> v \<and> v < 2 ^ 31 then Some (word_of_int v) else None))"

text \<open>
  \<^verbatim>\<open>DateTimeOffset.FromUnixTimeMilliseconds(ms).UtcDateTime\<close>, in ticks. Its argument
  is always a \<^verbatim>\<open>ulong\<close> divided by 1000000 here, which is inside the range it accepts.
\<close>

definition FromUnixTimeMilliseconds :: "int \<Rightarrow> DateTime" where
  "FromUnixTimeMilliseconds ms = ms * 10000"

text \<open>
  \<^verbatim>\<open>ToDictionary(keySelector, elementSelector)\<close>: the elements are added in order;
  a key that is already present throws \<^verbatim>\<open>ArgumentException\<close>. The element selector
  itself can throw.
\<close>

fun Dictionary_AddAll ::
  "(string \<times> 'v) list \<Rightarrow> (string \<times> (error + 'v)) list \<Rightarrow> error + (string \<times> 'v) list" where
  "Dictionary_AddAll dict [] = Inr dict"
| "Dictionary_AddAll dict ((k, r) # rest) =
     bind r (\<lambda>v.
       if k \<in> fst ` set dict then Inl ArgumentException
       else Dictionary_AddAll (dict @ [(k, v)]) rest)"

definition ToDictionary ::
  "('a \<Rightarrow> string) \<Rightarrow> ('a \<Rightarrow> error + 'v) \<Rightarrow> 'a list \<Rightarrow> error + (string \<times> 'v) list" where
  "ToDictionary keyOf elemOf xs = Dictionary_AddAll [] (map (\<lambda>a. (keyOf a, elemOf a)) xs)"

section \<open>OtlpHelpers\<close>

text \<open>
  \<^verbatim>\<open>Convert.ToHexString\<close> writes two upper-case hexadecimal digits per byte;
  \<^verbatim>\<open>ToLowerInvariant\<close> maps \<open>A\<close>..\<open>Z\<close> to \<open>a\<close>..\<open>z\<close> (strings are ASCII here).
\<close>

definition hex_digit_upper :: "nat \<Rightarrow> char" where
  "hex_digit_upper n = (if n < 10 then char_of (48 + n) else char_of (55 + n))"

definition ToHexString :: "8 word list \<Rightarrow> string" where
  "ToHexString bs =
     concat (map (\<lambda>b. [hex_digit_upper (unat b div 16), hex_digit_upper (unat b mod 16)]) bs)"

definition ToLower_char :: "char \<Rightarrow> char" where
  "ToLower_char c =
     (if 65 \<le> (of_char c :: nat) \<and> (of_char c :: nat) \<le> 90 then char_of ((of_char c :: nat) + 32)
      else c)"

definition ToLowerInvariant :: "string \<Rightarrow> string" where
  "ToLowerInvariant s = map ToLower_char s"

text \<open>A \<^verbatim>\<open>ByteString?\<close> is \<open>None\<close> for \<^verbatim>\<open>null\<close>.\<close>

definition BytesToHex :: "8 word list option \<Rightarrow> string" where
  "BytesToHex bytes =
     (case bytes of
        None \<Rightarrow> []
      | Some bs \<Rightarrow> if bs = [] then [] else ToLowerInvariant (ToHexString bs))"

text \<open>A character of a canonical lower-case hexadecimal string.\<close>

definition is_lower_hex :: "char \<Rightarrow> bool" where
  "is_lower_hex c =
     ((48 \<le> (of_char c :: nat) \<and> (of_char c :: nat) \<le> 57)
      \<or> (97 \<le> (of_char c :: nat) \<and> (of_char c :: nat) \<le> 102))"

text \<open>
  A protobuf \<^verbatim>\<open>AnyValue\<close>; \<open>NoValue\<close> is the case \<^verbatim>\<open>ValueOneofCase.None\<close>. A
  \<^verbatim>\<open>KeyValue\<close> is a pair of the key and the value, \<open>None\<close> when the value is unset.
\<close>

datatype AnyValue =
  StringValue string
  | BoolValue bool
  | IntValue long
  | DoubleValue double
  | ArrayValue "AnyValue list"
  | KvlistValue "(string \<times> AnyValue option) list"
  | BytesValue "8 word list"
  | NoValue

type_synonym KeyValue = "string \<times> AnyValue option"

text \<open>
  \<^verbatim>\<open>GetAnyValueAsString\<close> of a value that is not \<^verbatim>\<open>null\<close>; \<^verbatim>\<open>string.Join\<close> and
  string interpolation write \<^verbatim>\<open>null\<close> as the empty string.
\<close>

fun AnyValueAsString :: "Framework \<Rightarrow> AnyValue \<Rightarrow> string option" where
  "AnyValueAsString fw (StringValue s) = Some s"
| "AnyValueAsString fw (IntValue i) = Some (Int_ToString (sint i))"
| "AnyValueAsString fw (DoubleValue d) = Some (Double_ToString fw d)"
| "AnyValueAsString fw (BoolValue b) = Some (Bool_ToString b)"
| "AnyValueAsString fw (BytesValue bs) = Some (ToBase64String fw bs)"
| "AnyValueAsString fw (ArrayValue vs) =
     Some (Join '', '' (map (\<lambda>v. or_default (AnyValueAsString fw v) []) vs))"
| "AnyValueAsString fw (KvlistValue kvs) =
     Some (Join '', ''
       (map (\<lambda>kv. fst kv @ ''='' @
               (case snd kv of None \<Rightarrow> [] | Some v \<Rightarrow> or_default (AnyValueAsString fw v) []))
          kvs))"
| "AnyValueAsString fw NoValue = None"

definition GetAnyValueAsString :: "Framework \<Rightarrow> AnyValue option \<Rightarrow> string option" where
  "GetAnyValueAsString fw v = (case v of None \<Rightarrow> None | Some x \<Rightarrow> AnyValueAsString fw x)"

text \<open>
  \<^verbatim>\<open>Select(f).ToList()\<close> with an \<open>f\<close> that can throw: the results in order, up to
  the first exception.
\<close>

fun ToList :: "(error + 'b) list \<Rightarrow> error + 'b list" where
  "ToList [] = Inr []"
| "ToList (r # rs) = bind r (\<lambda>y. bind (ToList rs) (\<lambda>ys. Inr (y # ys)))"

function AnyValueAsObject :: "Framework \<Rightarrow> AnyValue \<Rightarrow> error + obj" where
  "AnyValueAsObject fw (StringValue s) = Inr (OString s)"
| "AnyValueAsObject fw (IntValue i) = Inr (OLong i)"
| "AnyValueAsObject fw (DoubleValue d) = Inr (ODouble d)"
| "AnyValueAsObject fw (BoolValue b) = Inr (OBool b)"
| "AnyValueAsObject fw (BytesValue bs) = Inr (OString (ToBase64String fw bs))"
| "AnyValueAsObject fw (ArrayValue vs) =
     bind (ToList (map (AnyValueAsObject fw) vs)) (\<lambda>os. Inr (OList os))"
| "AnyValueAsObject fw (KvlistValue kvs) =
     bind (Dictionary_AddAll []
             (map (\<lambda>kv. (fst kv,
                     case snd kv of None \<Rightarrow> Inr (OString []) | Some v \<Rightarrow> AnyValueAsObject fw v))
                kvs))
       (\<lambda>d. Inr (ODict d))"
| "AnyValueAsObject fw NoValue = Inr (OString [])"
  by pat_completeness auto
termination
proof (relation "measure (\<lambda>(fw, v). size v)")
  fix fw :: Framework and kvs :: "(string \<times> AnyValue option) list" and kv v
  assume "kv \<in> set kvs" "snd kv = Some v"
  then have "size v < size (KvlistValue kvs)"
    by (induction kvs) (auto simp: less_Suc_eq)
  then show "((fw, v), (fw, KvlistValue kvs)) \<in> measure (\<lambda>(fw, v). size v)" by simp
next
  fix fw :: Framework and vs :: "AnyValue list" and x
  assume "x \<in> set vs"
  then have "size x < size (ArrayValue vs)"
    by (induction vs) (auto simp: less_Suc_eq)
  then show "((fw, x), (fw, ArrayValue vs)) \<in> measure (\<lambda>(fw, v). size v)" by simp
qed simp

definition GetAnyValueAsObject :: "Framework \<Rightarrow> AnyValue option \<Rightarrow> error + obj" where
  "GetAnyValueAsObject fw v =
     (case v of None \<Rightarrow> Inr (OString []) | Some x \<Rightarrow> AnyValueAsObject fw x)"

definition ToAttributesDict :: "Framework \<Rightarrow> KeyValue list \<Rightarrow> error + (string \<times> obj) list" where
  "ToAttributesDict fw attributes =
     ToDictionary fst (\<lambda>a. GetAnyValueAsObject fw (snd a)) attributes"

definition ToStringAttributesDict ::
  "Framework \<Rightarrow> KeyValue list \<Rightarrow> error + (string \<times> string) list" where
  "ToStringAttributesDict fw attributes =
     ToDictionary fst (\<lambda>a. Inr (or_default (GetAnyValueAsString fw (snd a)) [])) attributes"

text \<open>
  A protobuf \<^verbatim>\<open>Resource\<close> is the list of its attributes; \<open>None\<close> is \<^verbatim>\<open>null\<close>.
  \<^verbatim>\<open>GetResourceAttribute\<close> dereferences its argument without a test.
\<close>

fun find_attribute :: "Framework \<Rightarrow> KeyValue list \<Rightarrow> string \<Rightarrow> string option" where
  "find_attribute fw [] key = None"
| "find_attribute fw (attr # attrs) key =
     (if fst attr = key then GetAnyValueAsString fw (snd attr) else find_attribute fw attrs key)"

definition GetResourceAttribute ::
  "Framework \<Rightarrow> KeyValue list option \<Rightarrow> string \<Rightarrow> error + string option" where
  "GetResourceAttribute fw resource key =
     (case resource of
        None \<Rightarrow> Inl NullReferenceException
      | Some attrs \<Rightarrow> Inr (find_attribute fw attrs key))"

definition GetServiceName :: "Framework \<Rightarrow> KeyValue list option \<Rightarrow> string" where
  "GetServiceName fw resource =
     (case resource of
        None \<Rightarrow> ''unknown''
      | Some attrs \<Rightarrow> or_default (find_attribute fw attrs ''service.name'') ''unknown'')"

text \<open>\<open>now\<close> is the reading of \<^verbatim>\<open>DateTime.UtcNow\<close> during the call.\<close>

definition NanosToDateTime :: "DateTime \<Rightarrow> 64 word \<Rightarrow> DateTime" where
  "NanosToDateTime now nanos =
     (if nanos = 0 then now else FromUnixTimeMilliseconds (uint nanos div 1000000))"

text \<open>The protobuf enum \<^verbatim>\<open>SeverityNumber\<close> is its \<^verbatim>\<open>int\<close> value, a signed 32-bit word.\<close>

definition MapSeverity :: "32 word \<Rightarrow> LogLevel" where
  "MapSeverity severity =
     (let severityInt = sint severity
      in if severityInt \<ge> 21 then Fatal
         else if severityInt \<ge> 17 then Error
         else if severityInt \<ge> 13 then Warn
         else if severityInt \<ge> 9 then Info
         else if severityInt \<ge> 5 then Debug
         else if severityInt \<ge> 1 then Debug
         else Info)"

definition GetLogMessage :: "Framework \<Rightarrow> AnyValue option \<Rightarrow> string" where
  "GetLogMessage fw body =
     (case body of
        None \<Rightarrow> []
      | Some (StringValue s) \<Rightarrow> s
      | Some (ArrayValue vs) \<Rightarrow>
          Join '' '' (map (\<lambda>v. or_default (AnyValueAsString fw v) []) vs)
      | Some (KvlistValue kvs) \<Rightarrow>
          Join '', '' (map (\<lambda>kv. fst kv @ ''='' @ or_default (GetAnyValueAsString fw (snd kv)) []) kvs)
      | Some v \<Rightarrow> or_default (AnyValueAsString fw v) [])"

section \<open>OtlpLogsGrpcService\<close>

record LogRecord =
  lr_TimeUnixNano :: "64 word"
  lr_ObservedTimeUnixNano :: "64 word"
  lr_SeverityNumber :: "32 word"
  lr_SeverityText :: string
  lr_Body :: "AnyValue option"
  lr_Attributes :: "KeyValue list"
  lr_TraceId :: "8 word list"
  lr_SpanId :: "8 word list"

record InstrumentationScope =
  scope_Name :: string
  scope_Version :: string

record ScopeLogs =
  sl_Scope :: "InstrumentationScope option"
  sl_LogRecords :: "LogRecord list"

record ResourceLogs =
  rl_Resource :: "KeyValue list option"
  rl_ScopeLogs :: "ScopeLogs list"

record PartialSuccess =
  Rejected :: int
  ErrorMessage :: string

definition ConvertLogRecord ::
  "Framework \<Rightarrow> DateTime \<Rightarrow> LogRecord \<Rightarrow> string \<Rightarrow> string option \<Rightarrow> string option
     \<Rightarrow> string \<Rightarrow> string \<Rightarrow> error + LogEntry" where
  "ConvertLogRecord fw now logRecord serviceName serviceVersion deploymentEnv scopeName scopeVersion =
     (let timestamp =
            (if lr_TimeUnixNano logRecord > 0 then NanosToDateTime now (lr_TimeUnixNano logRecord)
             else if lr_ObservedTimeUnixNano logRecord > 0
               then NanosToDateTime now (lr_ObservedTimeUnixNano logRecord)
             else now)
      in bind (ToAttributesDict fw (lr_Attributes logRecord)) (\<lambda>attributes0.
           let attributes1 =
                 (if scopeName \<noteq> []
                  then AList.update ''otel.scope.name'' (OString scopeName) attributes0
                  else attributes0);
               attributes2 =
                 (if scopeVersion \<noteq> []
                  then AList.update ''otel.scope.version'' (OString scopeVersion) attributes1
                  else attributes1);
               attributes3 =
                 (if lr_SeverityText logRecord \<noteq> []
                  then AList.update ''severity_text'' (OString (lr_SeverityText logRecord)) attributes2
                  else attributes2)
           in Inr \<lparr> log_Id = 0,
                    log_TraceId = BytesToHex (Some (lr_TraceId logRecord)),
                    log_SpanId = BytesToHex (Some (lr_SpanId logRecord)),
                    log_Timestamp = timestamp,
                    log_Level = MapSeverity (lr_SeverityNumber logRecord),
                    log_ServiceName = serviceName,
                    log_Message = GetLogMessage fw (lr_Body logRecord),
                    log_Attributes = attributes3,
                    log_Resource = Some \<lparr> res_ServiceName = serviceName,
                      res_ServiceVersion = serviceVersion,
                      res_DeploymentEnvironment = deploymentEnv \<rparr> \<rparr>))"

text \<open>
  The state of one \<^verbatim>\<open>Export\<close> call: the store and the two counters. The call of
  \<^verbatim>\<open>BroadcastAsync\<close> after \<^verbatim>\<open>AddLog\<close> writes to the queues of the subscribed connections
  only (see the section on \<^verbatim>\<open>WebSocketStreamService\<close>) and is left out here.
\<close>

record ExportState =
  es_store :: InMemoryStore
  es_logCount :: int
  es_rejectedLogs :: int

fun export_logRecords ::
  "Framework \<Rightarrow> DateTime \<Rightarrow> string \<Rightarrow> string option \<Rightarrow> string option \<Rightarrow> string \<Rightarrow> string
     \<Rightarrow> LogRecord list \<Rightarrow> ExportState \<Rightarrow> ExportState" where
  "export_logRecords fw now serviceName serviceVersion deploymentEnv scopeName scopeVersion [] st = st"
| "export_logRecords fw now serviceName serviceVersion deploymentEnv scopeName scopeVersion
     (logRecord # rest) st =
     export_logRecords fw now serviceName serviceVersion deploymentEnv scopeName scopeVersion rest
       (case ConvertLogRecord fw now logRecord serviceName serviceVersion deploymentEnv
               scopeName scopeVersion of
          Inr logEntry \<Rightarrow>
            st\<lparr>es_store := snd (AddLog (es_store st) logEntry), es_logCount := es_logCount st + 1\<rparr>
        | Inl ex \<Rightarrow> st\<lparr>es_rejectedLogs := es_rejectedLogs st + 1\<rparr>)"

fun export_scopeLogs ::
  "Framework \<Rightarrow> DateTime \<Rightarrow> string \<Rightarrow> string option \<Rightarrow> string option
     \<Rightarrow> ScopeLogs list \<Rightarrow> ExportState \<Rightarrow> ExportState" where
  "export_scopeLogs fw now serviceName serviceVersion deploymentEnv [] st = st"
| "export_scopeLogs fw now serviceName serviceVersion deploymentEnv (scopeLogs # rest) st =
     (let scopeName = (case sl_Scope scopeLogs of None \<Rightarrow> [] | Some sc \<Rightarrow> scope_Name sc);
          scopeVersion = (case sl_Scope scopeLogs of None \<Rightarrow> [] | Some sc \<Rightarrow> scope_Version sc)
      in export_scopeLogs fw now serviceName serviceVersion deploymentEnv rest
           (export_logRecords fw now serviceName serviceVersion deploymentEnv scopeName scopeVersion
              (sl_LogRecords scopeLogs) st))"

text \<open>
  The outer loop stops at the first exception that is thrown outside the inner
  \<^verbatim>\<open>try\<close>; the state reached so far stays.
\<close>

fun export_resourceLogs ::
  "Framework \<Rightarrow> DateTime \<Rightarrow> ResourceLogs list \<Rightarrow> ExportState \<Rightarrow> error option \<times> ExportState" where
  "export_resourceLogs fw now [] st = (None, st)"
| "export_resourceLogs fw now (resourceLogs # rest) st =
     (let serviceName = GetServiceName fw (rl_Resource resourceLogs)
      in case GetResourceAttribute fw (rl_Resource resourceLogs) ''service.version'' of
           Inl ex \<Rightarrow> (Some ex, st)
         | Inr serviceVersion \<Rightarrow>
             (case GetResourceAttribute fw (rl_Resource resourceLogs) ''deployment.environment'' of
                Inl ex \<Rightarrow> (Some ex, st)
              | Inr deploymentEnv \<Rightarrow>
                  export_resourceLogs fw now rest
                    (export_scopeLogs fw now serviceName serviceVersion deploymentEnv
                       (rl_ScopeLogs resourceLogs) st)))"

definition OtlpLogsGrpcService_Export ::
  "Framework \<Rightarrow> DateTime \<Rightarrow> InMemoryStore \<Rightarrow> ResourceLogs list
     \<Rightarrow> PartialSuccess option \<times> InMemoryStore" where
  "OtlpLogsGrpcService_Export fw now s request =
     (case export_resourceLogs fw now request
             \<lparr> es_store = s, es_logCount = 0, es_rejectedLogs = 0 \<rparr> of
        (Some ex, st) \<Rightarrow>
          (Some \<lparr> Rejected = es_logCount st + es_rejectedLogs st,
                   ErrorMessage = Exception_Message fw ex \<rparr>,
           es_store st)
      | (None, st) \<Rightarrow>
          (if es_rejectedLogs st > 0
           then Some \<lparr> Rejected = es_rejectedLogs st,
                        ErrorMessage = Int_ToString (es_rejectedLogs st)
                          @ '' log records rejected due to processing errors'' \<rparr>
           else None,
           es_store st))"

section \<open>JsonElement and JsonElementExtensions\<close>

text \<open>
  \<^verbatim>\<open>TryGetProperty\<close> throws on an element that is not an object and finds the last
  property of the name; the typed getters throw \<^verbatim>\<open>InvalidOperationException\<close> on an
  element of another kind and \<^verbatim>\<open>FormatException\<close> on a number that does not fit.
  \<^verbatim>\<open>GetString\<close> returns \<^verbatim>\<open>null\<close> on a JSON \<open>null\<close>.
\<close>

definition TryGetProperty :: "json \<Rightarrow> string \<Rightarrow> error + json option" where
  "TryGetProperty element propertyName =
     (case element of
        JObject props \<Rightarrow> Inr (map_of (rev props) propertyName)
      | _ \<Rightarrow> Inl InvalidOperationException)"

definition GetPropertyOrDefault :: "json \<Rightarrow> string \<Rightarrow> json \<Rightarrow> error + json" where
  "GetPropertyOrDefault element propertyName defaultValue =
     bind (TryGetProperty element propertyName) (\<lambda>p.
       Inr (case p of Some property \<Rightarrow> property | None \<Rightarrow> defaultValue))"

definition GetString :: "json \<Rightarrow> error + string option" where
  "GetString element =
     (case element of
        JString s \<Rightarrow> Inr (Some s)
      | JNull \<Rightarrow> Inr None
      | _ \<Rightarrow> Inl InvalidOperationException)"

definition GetInt32 :: "json \<Rightarrow> error + 32 word" where
  "GetInt32 element =
     (case element of
        JNumber (JInt n) \<Rightarrow>
          if - (2 ^ 31) \<le> n \<and> n < 2 ^ 31 then Inr (word_of_int n) else Inl FormatException
      | JNumber (JReal d) \<Rightarrow> Inl FormatException
      | _ \<Rightarrow> Inl InvalidOperationException)"

definition GetInt64 :: "json \<Rightarrow> error + 64 word" where
  "GetInt64 element =
     (case element of
        JNumber (JInt n) \<Rightarrow>
          if - (2 ^ 63) \<le> n \<and> n < 2 ^ 63 then Inr (word_of_int n) else Inl FormatException
      | JNumber (JReal d) \<Rightarrow> Inl FormatException
      | _ \<Rightarrow> Inl InvalidOperationException)"

definition GetUInt64 :: "json \<Rightarrow> error + 64 word" where
  "GetUInt64 element =
     (case element of
        JNumber (JInt n) \<Rightarrow>
          if 0 \<le> n \<and> n < 2 ^ 64 then Inr (word_of_int n) else Inl FormatException
      | JNumber (JReal d) \<Rightarrow> Inl FormatException
      | _ \<Rightarrow> Inl InvalidOperationException)"

definition GetDouble :: "Framework \<Rightarrow> json \<Rightarrow> error + double" where
  "GetDouble fw element =
     (case element of
        JNumber (JInt n) \<Rightarrow> Inr (Int_ToDouble fw n)
      | JNumber (JReal d) \<Rightarrow> Inr d
      | _ \<Rightarrow> Inl InvalidOperationException)"

definition GetBoolean :: "json \<Rightarrow> error + bool" where
  "GetBoolean element =
     (case element of JBool b \<Rightarrow> Inr b | _ \<Rightarrow> Inl InvalidOperationException)"

definition EnumerateArray :: "json \<Rightarrow> error + json list" where
  "EnumerateArray element =
     (case element of JArray items \<Rightarrow> Inr items | _ \<Rightarrow> Inl InvalidOperationException)"

definition is_String :: "json \<Rightarrow> bool" where
  "is_String element = (case element of JString s \<Rightarrow> True | _ \<Rightarrow> False)"

definition is_Number :: "json \<Rightarrow> bool" where
  "is_Number element = (case element of JNumber n \<Rightarrow> True | _ \<Rightarrow> False)"

text \<open>\<^verbatim>\<open>element.GetPropertyOrDefault(name, "d").GetString() ?? d'\<close>\<close>

definition GetStringProperty :: "json \<Rightarrow> string \<Rightarrow> string \<Rightarrow> string \<Rightarrow> error + string" where
  "GetStringProperty element propertyName d d' =
     bind (GetPropertyOrDefault element propertyName (JString d)) (\<lambda>p.
       bind (GetString p) (\<lambda>s. Inr (or_default s d')))"

section \<open>InMemoryStore: the OTLP JSON import\<close>

definition GetAnyValueString :: "Framework \<Rightarrow> json \<Rightarrow> error + string" where
  "GetAnyValueString fw val =
     bind (TryGetProperty val ''stringValue'') (\<lambda>sv.
       case sv of
         Some sv \<Rightarrow> bind (GetString sv) (\<lambda>s. Inr (or_default s []))
       | None \<Rightarrow>
     bind (TryGetProperty val ''intValue'') (\<lambda>iv.
       case iv of
         Some iv \<Rightarrow>
           (if is_String iv then bind (GetString iv) (\<lambda>s. Inr (or_default s []))
            else bind (GetInt64 iv) (\<lambda>i. Inr (Int_ToString (sint i))))
       | None \<Rightarrow>
     bind (TryGetProperty val ''doubleValue'') (\<lambda>dv.
       case dv of
         Some dv \<Rightarrow> bind (GetDouble fw dv) (\<lambda>d. Inr (Double_ToString fw d))
       | None \<Rightarrow>
     bind (TryGetProperty val ''boolValue'') (\<lambda>bv.
       case bv of
         Some bv \<Rightarrow> bind (GetBoolean bv) (\<lambda>b. Inr (Bool_ToString b))
       | None \<Rightarrow> Inr (Json_ToString fw val)))))"

definition kvlist_part :: "Framework \<Rightarrow> json \<Rightarrow> error + string" where
  "kvlist_part fw kv =
     bind (GetStringProperty kv ''key'' [] []) (\<lambda>key.
       bind (GetPropertyOrDefault kv ''value'' (JObject [])) (\<lambda>val.
         bind (GetAnyValueString fw val) (\<lambda>s. Inr (key @ ''='' @ s))))"

definition GetBodyMessage :: "Framework \<Rightarrow> json \<Rightarrow> error + string" where
  "GetBodyMessage fw body =
     (if is_String body then bind (GetString body) (\<lambda>s. Inr (or_default s []))
      else
     bind (TryGetProperty body ''stringValue'') (\<lambda>sv.
       case sv of
         Some sv \<Rightarrow> bind (GetString sv) (\<lambda>s. Inr (or_default s []))
       | None \<Rightarrow>
     bind (TryGetProperty body ''kvlistValue'') (\<lambda>kvlist.
       case kvlist of
         Some kvlist \<Rightarrow>
           bind (TryGetProperty kvlist ''values'') (\<lambda>vals.
             case vals of
               Some vals \<Rightarrow>
                 bind (EnumerateArray vals) (\<lambda>kvs.
                   bind (ToList (map (kvlist_part fw) kvs)) (\<lambda>parts. Inr (Join '', '' parts)))
             | None \<Rightarrow> Inr (Join '', '' []))
       | None \<Rightarrow>
     bind (TryGetProperty body ''arrayValue'') (\<lambda>arrayVal.
       case arrayVal of
         Some arrayVal \<Rightarrow>
           bind (TryGetProperty arrayVal ''values'') (\<lambda>vals.
             case vals of
               Some vals \<Rightarrow>
                 bind (EnumerateArray vals) (\<lambda>vs.
                   bind (ToList (map (GetAnyValueString fw) vs)) (\<lambda>parts. Inr (Join '' '' parts)))
             | None \<Rightarrow> Inr (Join '' '' []))
       | None \<Rightarrow> Inr (Json_ToString fw body)))))"

text \<open>The value that \<^verbatim>\<open>GetAttributesAsObjects\<close> stores for one attribute.\<close>

definition attribute_object :: "Framework \<Rightarrow> json \<Rightarrow> error + obj" where
  "attribute_object fw val =
     bind (GetAnyValueString fw val) (\<lambda>str.
     bind (TryGetProperty val ''intValue'') (\<lambda>iv.
       case iv of
         Some iv \<Rightarrow>
           (if is_String iv
            then bind (GetString iv) (\<lambda>s.
                   case Int64_TryParse s of
                     Some l \<Rightarrow> Inr (OLong l)
                   | None \<Rightarrow> Inr (OString (or_default s [])))
            else bind (GetInt64 iv) (\<lambda>i. Inr (OLong i)))
       | None \<Rightarrow>
     bind (TryGetProperty val ''doubleValue'') (\<lambda>dv.
       case dv of
         Some dv \<Rightarrow> bind (GetDouble fw dv) (\<lambda>d. Inr (ODouble d))
       | None \<Rightarrow>
     bind (TryGetProperty val ''boolValue'') (\<lambda>bv.
       case bv of
         Some bv \<Rightarrow> bind (GetBoolean bv) (\<lambda>b. Inr (OBool b))
       | None \<Rightarrow> Inr (OString str)))))"

fun attributes_objects_loop ::
  "Framework \<Rightarrow> json list \<Rightarrow> (string \<times> obj) list \<Rightarrow> error + (string \<times> obj) list" where
  "attributes_objects_loop fw [] dict = Inr dict"
| "attributes_objects_loop fw (attr # rest) dict =
     bind (TryGetProperty attr ''key'') (\<lambda>keyEl.
       case keyEl of
         None \<Rightarrow> attributes_objects_loop fw rest dict
       | Some keyEl \<Rightarrow>
           bind (GetString keyEl) (\<lambda>k.
             bind (TryGetProperty attr ''value'') (\<lambda>val.
               case val of
                 None \<Rightarrow> attributes_objects_loop fw rest dict
               | Some val \<Rightarrow>
                   bind (attribute_object fw val) (\<lambda>v.
                     attributes_objects_loop fw rest (AList.update (or_default k []) v dict)))))"

definition GetAttributesAsObjects :: "Framework \<Rightarrow> json \<Rightarrow> error + (string \<times> obj) list" where
  "GetAttributesAsObjects fw attributes =
     bind (EnumerateArray attributes) (\<lambda>attrs. attributes_objects_loop fw attrs [])"

definition MapSeverityNumber :: "32 word \<Rightarrow> LogLevel" where
  "MapSeverityNumber severityNumber =
     (if sint severityNumber \<ge> 21 then Fatal
      else if sint severityNumber \<ge> 17 then Error
      else if sint severityNumber \<ge> 13 then Warn
      else if sint severityNumber \<ge> 9 then Info
      else if sint severityNumber \<ge> 5 then Debug
      else if sint severityNumber \<ge> 1 then Debug
      else Info)"

text \<open>
  The two timestamp tests of \<^verbatim>\<open>ParseLogEntry\<close>: a string that \<^verbatim>\<open>ulong.TryParse\<close>
  accepts, else a number read by \<^verbatim>\<open>GetUInt64\<close>, else the value stays 0.
\<close>

definition log_timestamp_nanos :: "json \<Rightarrow> error + 64 word" where
  "log_timestamp_nanos element =
     (case element of
        JString s \<Rightarrow> (case UInt64_TryParse (Some s) of Some ts \<Rightarrow> Inr ts | None \<Rightarrow> Inr 0)
      | JNumber n \<Rightarrow> GetUInt64 element
      | _ \<Rightarrow> Inr 0)"

definition log_severityNumber :: "json \<Rightarrow> error + 32 word" where
  "log_severityNumber logRecord =
     bind (TryGetProperty logRecord ''severityNumber'') (\<lambda>sevNum.
       case sevNum of
         None \<Rightarrow> Inr 0
       | Some sevNum \<Rightarrow>
           (case sevNum of
              JNumber n \<Rightarrow> GetInt32 sevNum
            | JString s \<Rightarrow> (case Int32_TryParse (Some s) of Some sn \<Rightarrow> Inr sn | None \<Rightarrow> Inr 0)
            | _ \<Rightarrow> Inr 0))"

definition ParseLogEntry_try ::
  "Framework \<Rightarrow> DateTime \<Rightarrow> json \<Rightarrow> string \<Rightarrow> string option \<Rightarrow> string option \<Rightarrow> error + LogEntry" where
  "ParseLogEntry_try fw now logRecord serviceName serviceVersion deploymentEnv =
     bind (GetStringProperty logRecord ''traceId'' [] []) (\<lambda>traceIdHex.
     bind (GetStringProperty logRecord ''spanId'' [] []) (\<lambda>spanIdHex.
     bind (GetPropertyOrDefault logRecord ''timeUnixNano'' (JString ''0'')) (\<lambda>timeUnixNano.
     bind (GetPropertyOrDefault logRecord ''observedTimeUnixNano'' (JString ''0'')) (\<lambda>observedTimeUnixNano.
     bind (log_timestamp_nanos timeUnixNano) (\<lambda>ts1.
     bind (if ts1 = 0 then log_timestamp_nanos observedTimeUnixNano else Inr ts1) (\<lambda>timestampNanos.
     bind (log_severityNumber logRecord) (\<lambda>severityNumber.
     bind (GetStringProperty logRecord ''severityText'' [] []) (\<lambda>severityText.
     bind (GetPropertyOrDefault logRecord ''body'' (JObject [])) (\<lambda>body.
     bind (GetBodyMessage fw body) (\<lambda>message.
     bind (GetPropertyOrDefault logRecord ''attributes'' (JArray [])) (\<lambda>attributes.
     bind (GetAttributesAsObjects fw attributes) (\<lambda>attrDict.
       Inr \<lparr> log_Id = 0,
             log_TraceId = traceIdHex,
             log_SpanId = spanIdHex,
             log_Timestamp =
               (if timestampNanos > 0
                then FromUnixTimeMilliseconds (uint timestampNanos div 1000000) else now),
             log_Level = MapSeverityNumber severityNumber,
             log_ServiceName = serviceName,
             log_Message = message,
             log_Attributes =
               (if severityText \<noteq> []
                then AList.update ''severity_text'' (OString severityText) attrDict else attrDict),
             log_Resource = Some \<lparr> res_ServiceName = serviceName,
               res_ServiceVersion = serviceVersion,
               res_DeploymentEnvironment = deploymentEnv \<rparr> \<rparr>))))))))))))"

definition ParseLogEntry ::
  "Framework \<Rightarrow> DateTime \<Rightarrow> json \<Rightarrow> string \<Rightarrow> string option \<Rightarrow> string option \<Rightarrow> LogEntry option" where
  "ParseLogEntry fw now logRecord serviceName serviceVersion deploymentEnv =
     catch_null (ParseLogEntry_try fw now logRecord serviceName serviceVersion deploymentEnv)"

fun attribute_value_loop :: "json list \<Rightarrow> string \<Rightarrow> error + string option" where
  "attribute_value_loop [] key = Inr None"
| "attribute_value_loop (attr # rest) key =
     bind (TryGetProperty attr ''key'') (\<lambda>keyEl.
       case keyEl of
         None \<Rightarrow> attribute_value_loop rest key
       | Some keyEl \<Rightarrow>
           bind (GetString keyEl) (\<lambda>k.
             if k = Some key then
               bind (TryGetProperty attr ''value'') (\<lambda>val.
                 case val of
                   None \<Rightarrow> attribute_value_loop rest key
                 | Some val \<Rightarrow>
                     bind (GetPropertyOrDefault val ''boolValue'' (JString [])) (\<lambda>d4.
                     bind (GetPropertyOrDefault val ''doubleValue'' d4) (\<lambda>d3.
                     bind (GetPropertyOrDefault val ''intValue'' d3) (\<lambda>d2.
                     bind (GetPropertyOrDefault val ''stringValue'' d2) (\<lambda>d1.
                       GetString d1)))))
             else attribute_value_loop rest key))"

definition GetAttributeValue :: "json \<Rightarrow> string \<Rightarrow> error + string option" where
  "GetAttributeValue resource key =
     bind (TryGetProperty resource ''attributes'') (\<lambda>attrs.
       case attrs of
         None \<Rightarrow> Inr None
       | Some attrs \<Rightarrow> bind (EnumerateArray attrs) (\<lambda>items. attribute_value_loop items key))"

text \<open>
  \<^verbatim>\<open>AddLogsJsonAsync\<close> on the parsed request body. An exception leaves the three loops
  (it is logged and thrown again); the entries added before it stay in the store.
\<close>

fun json_logRecords ::
  "Framework \<Rightarrow> DateTime \<Rightarrow> string \<Rightarrow> string option \<Rightarrow> string option \<Rightarrow> json list
     \<Rightarrow> InMemoryStore \<Rightarrow> InMemoryStore" where
  "json_logRecords fw now serviceName serviceVersion deploymentEnv [] s = s"
| "json_logRecords fw now serviceName serviceVersion deploymentEnv (logRecord # rest) s =
     json_logRecords fw now serviceName serviceVersion deploymentEnv rest
       (case ParseLogEntry fw now logRecord serviceName serviceVersion deploymentEnv of
          Some logEntry \<Rightarrow> snd (AddLog s logEntry)
        | None \<Rightarrow> s)"

fun json_scopeLogs ::
  "Framework \<Rightarrow> DateTime \<Rightarrow> string \<Rightarrow> string option \<Rightarrow> string option \<Rightarrow> json list
     \<Rightarrow> InMemoryStore \<Rightarrow> error option \<times> InMemoryStore" where
  "json_scopeLogs fw now serviceName serviceVersion deploymentEnv [] s = (None, s)"
| "json_scopeLogs fw now serviceName serviceVersion deploymentEnv (scopeLog # rest) s =
     (case bind (GetPropertyOrDefault scopeLog ''logRecords'' (JArray [])) EnumerateArray of
        Inl ex \<Rightarrow> (Some ex, s)
      | Inr logRecords \<Rightarrow>
          json_scopeLogs fw now serviceName serviceVersion deploymentEnv rest
            (json_logRecords fw now serviceName serviceVersion deploymentEnv logRecords s))"

definition resourceLog_header ::
  "json \<Rightarrow> error + (string \<times> string option \<times> string option \<times> json list)" where
  "resourceLog_header resourceLog =
     bind (GetPropertyOrDefault resourceLog ''resource'' (JObject [(''attributes'', JArray [])]))
       (\<lambda>resource.
     bind (GetPropertyOrDefault resourceLog ''scopeLogs''
             (JArray [JObject [(''logRecords'', JArray [])]])) (\<lambda>scopeLogs.
     bind (GetAttributeValue resource ''service.name'') (\<lambda>serviceName.
     bind (GetAttributeValue resource ''service.version'') (\<lambda>serviceVersion.
     bind (GetAttributeValue resource ''deployment.environment'') (\<lambda>deploymentEnv.
     bind (EnumerateArray scopeLogs) (\<lambda>items.
       Inr (or_default serviceName ''unknown'', serviceVersion, deploymentEnv, items)))))))"

fun json_resourceLogs ::
  "Framework \<Rightarrow> DateTime \<Rightarrow> json list \<Rightarrow> InMemoryStore \<Rightarrow> error option \<times> InMemoryStore" where
  "json_resourceLogs fw now [] s = (None, s)"
| "json_resourceLogs fw now (resourceLog # rest) s =
     (case resourceLog_header resourceLog of
        Inl ex \<Rightarrow> (Some ex, s)
      | Inr (serviceName, serviceVersion, deploymentEnv, scopeLogs) \<Rightarrow>
          (case json_scopeLogs fw now serviceName serviceVersion deploymentEnv scopeLogs s of
             (Some ex, s') \<Rightarrow> (Some ex, s')
           | (None, s') \<Rightarrow> json_resourceLogs fw now rest s'))"

definition AddLogsJsonAsync ::
  "Framework \<Rightarrow> DateTime \<Rightarrow> InMemoryStore \<Rightarrow> json \<Rightarrow> error option \<times> InMemoryStore" where
  "AddLogsJsonAsync fw now s root =
     (case bind (TryGetProperty root ''resourceLogs'') (\<lambda>rl.
             EnumerateArray (case rl of Some x \<Rightarrow> x | None \<Rightarrow> root)) of
        Inl ex \<Rightarrow> (Some ex, s)
      | Inr resourceLogs \<Rightarrow> json_resourceLogs fw now resourceLogs s)"

text \<open>
  The handler of \<^verbatim>\<open>POST /v1/logs\<close> on a body that is a JSON document: the
  \<^verbatim>\<open>partialSuccess\<close> member of the response (the status is 200 in both branches) and
  the store.
\<close>

definition PostLogs ::
  "Framework \<Rightarrow> DateTime \<Rightarrow> InMemoryStore \<Rightarrow> json \<Rightarrow> PartialSuccess option \<times> InMemoryStore" where
  "PostLogs fw now s body =
     (case AddLogsJsonAsync fw now s body of
        (None, s') \<Rightarrow> (None, s')
      | (Some ex, s') \<Rightarrow> (Some \<lparr> Rejected = 1, ErrorMessage = Exception_Message fw ex \<rparr>, s'))"

subsection \<open>Spans and metrics from JSON\<close>

record SpanEvent =
  ev_Name :: string
  ev_Timestamp :: DateTime
  ev_Attributes :: "(string \<times> string) list"

record SpanLink =
  link_TraceId :: string
  link_SpanId :: string

record TraceSpan =
  span_TraceId :: string
  span_SpanId :: string
  span_ParentSpanId :: "string option"
  span_Name :: string
  span_StartTime :: DateTime
  span_EndTime :: DateTime
  span_DurationMs :: double
  span_StatusCode :: "32 word"
  span_StatusMessage :: "string option"
  span_Kind :: "32 word"
  span_ServiceName :: string
  span_Attributes :: "(string \<times> string) list"
  span_Events :: "SpanEvent list"
  span_Links :: "SpanLink list"

definition GetUInt64FromJsonElement :: "json \<Rightarrow> error + 64 word" where
  "GetUInt64FromJsonElement element =
     (if is_Number element then GetUInt64 element
      else if is_String element then
        bind (GetString element) (\<lambda>str.
          case UInt64_TryParse str of Some result \<Rightarrow> Inr result | None \<Rightarrow> Inr 0)
      else Inr 0)"

text \<open>The string that \<^verbatim>\<open>GetAttributesDict\<close> stores for one attribute, \<open>None\<close> for none.\<close>

definition attribute_string :: "Framework \<Rightarrow> json \<Rightarrow> error + string option" where
  "attribute_string fw val =
     bind (TryGetProperty val ''stringValue'') (\<lambda>sv.
       case sv of
         Some sv \<Rightarrow> GetString sv
       | None \<Rightarrow>
     bind (TryGetProperty val ''intValue'') (\<lambda>iv.
       case iv of
         Some iv \<Rightarrow> bind (GetInt64 iv) (\<lambda>i. Inr (Some (Int_ToString (sint i))))
       | None \<Rightarrow>
     bind (TryGetProperty val ''doubleValue'') (\<lambda>dv.
       case dv of
         Some dv \<Rightarrow> bind (GetDouble fw dv) (\<lambda>d. Inr (Some (Double_ToString fw d)))
       | None \<Rightarrow>
     bind (TryGetProperty val ''boolValue'') (\<lambda>bv.
       case bv of
         Some bv \<Rightarrow> bind (GetBoolean bv) (\<lambda>b. Inr (Some (Bool_ToString b)))
       | None \<Rightarrow> Inr None))))"

fun attributes_dict_loop ::
  "Framework \<Rightarrow> json list \<Rightarrow> (string \<times> string) list \<Rightarrow> error + (string \<times> string) list" where
  "attributes_dict_loop fw [] dict = Inr dict"
| "attributes_dict_loop fw (attr # rest) dict =
     bind (TryGetProperty attr ''key'') (\<lambda>keyEl.
       case keyEl of
         None \<Rightarrow> attributes_dict_loop fw rest dict
       | Some keyEl \<Rightarrow>
           bind (GetString keyEl) (\<lambda>k.
             bind (TryGetProperty attr ''value'') (\<lambda>val.
               case val of
                 None \<Rightarrow> attributes_dict_loop fw rest dict
               | Some val \<Rightarrow>
                   bind (attribute_string fw val) (\<lambda>v.
                     case v of
                       Some str \<Rightarrow>
                         attributes_dict_loop fw rest (AList.update (or_default k []) str dict)
                     | None \<Rightarrow> attributes_dict_loop fw rest dict))))"

definition GetAttributesDict :: "Framework \<Rightarrow> json \<Rightarrow> error + (string \<times> string) list" where
  "GetAttributesDict fw attributes =
     bind (EnumerateArray attributes) (\<lambda>attrs. attributes_dict_loop fw attrs [])"

definition nanos_or :: "64 word \<Rightarrow> DateTime \<Rightarrow> DateTime" where
  "nanos_or nanos d =
     (if nanos > 0 then FromUnixTimeMilliseconds (uint nanos div 1000000) else d)"

definition parse_event :: "Framework \<Rightarrow> DateTime \<Rightarrow> json \<Rightarrow> error + SpanEvent" where
  "parse_event fw startTime e =
     bind (TryGetProperty e ''timeUnixNano'') (\<lambda>ts.
     bind (case ts of Some ts \<Rightarrow> GetUInt64FromJsonElement ts | None \<Rightarrow> Inr 0) (\<lambda>tsNano.
     bind (GetStringProperty e ''name'' [] []) (\<lambda>name.
     bind (GetPropertyOrDefault e ''attributes'' (JArray [])) (\<lambda>attributes.
     bind (GetAttributesDict fw attributes) (\<lambda>attrs.
       Inr \<lparr> ev_Name = name, ev_Timestamp = nanos_or tsNano startTime,
             ev_Attributes = attrs \<rparr>)))))"

definition parse_link :: "json \<Rightarrow> error + SpanLink" where
  "parse_link l =
     bind (GetStringProperty l ''traceId'' [] []) (\<lambda>traceId.
     bind (GetStringProperty l ''spanId'' [] []) (\<lambda>spanId.
       Inr \<lparr> link_TraceId = traceId, link_SpanId = spanId \<rparr>))"

definition ParseTraceSpan_try ::
  "Framework \<Rightarrow> DateTime \<Rightarrow> json \<Rightarrow> string \<Rightarrow> error + TraceSpan" where
  "ParseTraceSpan_try fw now span serviceName =
     bind (GetStringProperty span ''traceId'' [] []) (\<lambda>traceIdHex.
     bind (GetStringProperty span ''spanId'' [] []) (\<lambda>spanIdHex.
     bind (GetStringProperty span ''parentSpanId'' [] []) (\<lambda>parentSpanIdHex.
     bind (GetStringProperty span ''name'' ''unknown'' ''unknown'') (\<lambda>name.
     bind (GetPropertyOrDefault span ''kind'' (JNumber (JInt 0))) (\<lambda>kindEl.
     bind (GetInt32 kindEl) (\<lambda>kind.
     bind (GetPropertyOrDefault span ''startTimeUnixNano'' (JNumber (JInt 0))) (\<lambda>startEl.
     bind (GetUInt64FromJsonElement startEl) (\<lambda>startTimeUnixNano.
     bind (GetPropertyOrDefault span ''endTimeUnixNano'' (JNumber (JInt 0))) (\<lambda>endEl.
     bind (GetUInt64FromJsonElement endEl) (\<lambda>endTimeUnixNano.
     let startTime = nanos_or startTimeUnixNano now;
         endTime = nanos_or endTimeUnixNano now
     in
     bind (GetPropertyOrDefault span ''attributes'' (JArray [])) (\<lambda>attributes.
     bind (GetPropertyOrDefault span ''status'' (JObject [(''code'', JNumber (JInt 0))])) (\<lambda>status.
     bind (GetPropertyOrDefault status ''code'' (JNumber (JInt 0))) (\<lambda>codeEl.
     bind (GetInt32 codeEl) (\<lambda>statusCode.
     bind (GetPropertyOrDefault status ''message'' (JString [])) (\<lambda>messageEl.
     bind (GetString messageEl) (\<lambda>statusMessage.
     bind (GetAttributesDict fw attributes) (\<lambda>attrs.
     bind (GetPropertyOrDefault span ''events'' (JArray [])) (\<lambda>eventsEl.
     bind (EnumerateArray eventsEl) (\<lambda>eventItems.
     bind (ToList (map (parse_event fw startTime) eventItems)) (\<lambda>events.
     bind (GetPropertyOrDefault span ''links'' (JArray [])) (\<lambda>linksEl.
     bind (EnumerateArray linksEl) (\<lambda>linkItems.
     bind (ToList (map parse_link linkItems)) (\<lambda>links.
       Inr \<lparr> span_TraceId = traceIdHex,
             span_SpanId = spanIdHex,
             span_ParentSpanId = (if parentSpanIdHex = [] then None else Some parentSpanIdHex),
             span_Name = name,
             span_StartTime = startTime,
             span_EndTime = endTime,
             span_DurationMs = Ticks_TotalMilliseconds fw (endTime - startTime),
             span_StatusCode = statusCode,
             span_StatusMessage = statusMessage,
             span_Kind = kind,
             span_ServiceName = serviceName,
             span_Attributes = attrs,
             span_Events = events,
             span_Links = links \<rparr>)))))))))))))))))))))))"

definition ParseTraceSpan :: "Framework \<Rightarrow> DateTime \<Rightarrow> json \<Rightarrow> string \<Rightarrow> TraceSpan option" where
  "ParseTraceSpan fw now span serviceName = catch_null (ParseTraceSpan_try fw now span serviceName)"

definition GetDataPointValue :: "Framework \<Rightarrow> json \<Rightarrow> error + double" where
  "GetDataPointValue fw dp =
     bind (TryGetProperty dp ''asNumber'') (\<lambda>asNumber.
       case asNumber of
         Some asNumber \<Rightarrow> GetDouble fw asNumber
       | None \<Rightarrow>
     bind (TryGetProperty dp ''value'') (\<lambda>val.
       case val of
         Some val \<Rightarrow> GetDouble fw val
       | None \<Rightarrow>
     bind (TryGetProperty dp ''explicitBucket'') (\<lambda>bucket.
       case bucket of
         None \<Rightarrow> Inr 0
       | Some bucket \<Rightarrow>
           bind (TryGetProperty bucket ''values'') (\<lambda>vals.
             case vals of
               None \<Rightarrow> Inr 0
             | Some vals \<Rightarrow>
                 bind (EnumerateArray vals) (\<lambda>vs.
                   if length vs > 0
                   then bind (ToList (map (GetDouble fw) vs)) (\<lambda>ds.
                          Inr (foldl (Double_Add fw) 0 ds))
                   else Inr 0)))))"

definition ParseMetricEntry_try ::
  "Framework \<Rightarrow> DateTime \<Rightarrow> json \<Rightarrow> string \<Rightarrow> error + MetricEntry" where
  "ParseMetricEntry_try fw now metric serviceName =
     bind (GetStringProperty metric ''name'' ''unknown'' ''unknown'') (\<lambda>name.
     bind (GetStringProperty metric ''description'' [] []) (\<lambda>description.
     bind (GetStringProperty metric ''unit'' [] []) (\<lambda>unit.
     bind (GetPropertyOrDefault metric ''dataPoints'' (JArray [])) (\<lambda>dataPoints.
     bind (EnumerateArray dataPoints) (\<lambda>dps.
       case dps of
         dp # rest \<Rightarrow>
           bind (GetDataPointValue fw dp) (\<lambda>v.
           bind (GetPropertyOrDefault dp ''startTimeUnixNano'' (JNumber (JInt 0))) (\<lambda>startEl.
           bind (GetUInt64 startEl) (\<lambda>startTimeUnixMs.
           bind (GetPropertyOrDefault dp ''timeUnixNano'' (JNumber (JInt 0))) (\<lambda>timeEl.
           bind (GetUInt64 timeEl) (\<lambda>timeUnixMs.
             Inr \<lparr> metric_Id = 0, metric_Name = name, metric_Description = Some description,
                   metric_Unit = Some unit, metric_Value = v, metric_Type = Counter,
                   metric_Timestamp = nanos_or timeUnixMs (nanos_or startTimeUnixMs now),
                   metric_ServiceName = serviceName, metric_Attributes = [] \<rparr>)))))
       | [] \<Rightarrow>
           Inr \<lparr> metric_Id = 0, metric_Name = name, metric_Description = Some description,
                 metric_Unit = Some unit, metric_Value = 0, metric_Type = Counter,
                 metric_Timestamp = now,
                 metric_ServiceName = serviceName, metric_Attributes = [] \<rparr>)))))"

definition ParseMetricEntry :: "Framework \<Rightarrow> DateTime \<Rightarrow> json \<Rightarrow> string \<Rightarrow> MetricEntry option" where
  "ParseMetricEntry fw now metric serviceName =
     catch_null (ParseMetricEntry_try fw now metric serviceName)"

fun json_metrics ::
  "Framework \<Rightarrow> DateTime \<Rightarrow> string \<Rightarrow> json list \<Rightarrow> InMemoryStore \<Rightarrow> InMemoryStore" where
  "json_metrics fw now serviceName [] s = s"
| "json_metrics fw now serviceName (metric # rest) s =
     json_metrics fw now serviceName rest
       (case ParseMetricEntry fw now metric serviceName of
          Some metricEntry \<Rightarrow> snd (AddMetric s metricEntry)
        | None \<Rightarrow> s)"

fun json_scopeMetrics ::
  "Framework \<Rightarrow> DateTime \<Rightarrow> string \<Rightarrow> json list \<Rightarrow> InMemoryStore
     \<Rightarrow> error option \<times> InMemoryStore" where
  "json_scopeMetrics fw now serviceName [] s = (None, s)"
| "json_scopeMetrics fw now serviceName (scopeMetric # rest) s =
     (case bind (GetPropertyOrDefault scopeMetric ''metrics'' (JArray [])) EnumerateArray of
        Inl ex \<Rightarrow> (Some ex, s)
      | Inr ms \<Rightarrow>
          json_scopeMetrics fw now serviceName rest (json_metrics fw now serviceName ms s))"

definition resourceMetric_header :: "json \<Rightarrow> error + (string \<times> json list)" where
  "resourceMetric_header resourceMetric =
     bind (GetPropertyOrDefault resourceMetric ''resource'' (JObject [(''attributes'', JArray [])]))
       (\<lambda>resource.
     bind (GetPropertyOrDefault resourceMetric ''scopeMetrics''
             (JArray [JObject [(''metrics'', JArray [])]])) (\<lambda>scopeMetrics.
     bind (GetAttributeValue resource ''service.name'') (\<lambda>serviceName.
     bind (EnumerateArray scopeMetrics) (\<lambda>items.
       Inr (or_default serviceName ''unknown'', items)))))"

fun json_resourceMetrics ::
  "Framework \<Rightarrow> DateTime \<Rightarrow> json list \<Rightarrow> InMemoryStore \<Rightarrow> error option \<times> InMemoryStore" where
  "json_resourceMetrics fw now [] s = (None, s)"
| "json_resourceMetrics fw now (resourceMetric # rest) s =
     (case resourceMetric_header resourceMetric of
        Inl ex \<Rightarrow> (Some ex, s)
      | Inr (serviceName, scopeMetrics) \<Rightarrow>
          (case json_scopeMetrics fw now serviceName scopeMetrics s of
             (Some ex, s') \<Rightarrow> (Some ex, s')
           | (None, s') \<Rightarrow> json_resourceMetrics fw now rest s'))"

definition AddMetricsJsonAsync ::
  "Framework \<Rightarrow> DateTime \<Rightarrow> InMemoryStore \<Rightarrow> json \<Rightarrow> error option \<times> InMemoryStore" where
  "AddMetricsJsonAsync fw now s root =
     (case bind (TryGetProperty root ''resourceMetrics'') (\<lambda>rm.
             EnumerateArray (case rm of Some x \<Rightarrow> x | None \<Rightarrow> root)) of
        Inl ex \<Rightarrow> (Some ex, s)
      | Inr resourceMetrics \<Rightarrow> json_resourceMetrics fw now resourceMetrics s)"

text \<open>
  A sample of the runtime's functions for the concrete instances; which functions are
  taken makes no difference to what the instances show.
\<close>

definition fw0 :: Framework where
  "fw0 = \<lparr> Double_ToString = (\<lambda>d. ''0.5''), Double_ToString_F2 = (\<lambda>d. ''0.50''),
     Double_Add = (\<lambda>a b. a + b), Int_ToDouble = (\<lambda>i. word_of_int i),
     Ticks_TotalMilliseconds = (\<lambda>t. word_of_int t),
     ToBase64String = (\<lambda>bs. ''AA==''), Json_ToString = (\<lambda>j. ''{}''),
     Exception_Message = (\<lambda>e. ''error'') \<rparr>"

section \<open>OtlpTraceGrpcService: ConvertSpan\<close>

text \<open>
  The protobuf classes are generated from files that are not part of the sources. The
  span kind is the enum by its member names, with one more case for a number outside the
  enum; the status code is the enum's \<^verbatim>\<open>int\<close> value, with \<^verbatim>\<open>Unset\<close> taken as 0.
\<close>

datatype ProtoSpanKind =
  ProtoUnspecified | ProtoInternal | ProtoServer | ProtoClient | ProtoProducer | ProtoConsumer
  | ProtoOtherKind "32 word"

record ProtoStatus =
  status_Code :: "32 word"
  status_Message :: string

record ProtoEvent =
  pe_Name :: string
  pe_TimeUnixNano :: "64 word"
  pe_Attributes :: "KeyValue list"

record ProtoLink =
  pl_TraceId :: "8 word list"
  pl_SpanId :: "8 word list"

record Span =
  sp_TraceId :: "8 word list"
  sp_SpanId :: "8 word list"
  sp_ParentSpanId :: "8 word list"
  sp_Name :: string
  sp_Kind :: ProtoSpanKind
  sp_StartTimeUnixNano :: "64 word"
  sp_EndTimeUnixNano :: "64 word"
  sp_Attributes :: "KeyValue list"
  sp_Status :: "ProtoStatus option"
  sp_Events :: "ProtoEvent list"
  sp_Links :: "ProtoLink list"

text \<open>\<^verbatim>\<open>(int)OtlpHelpers.MapSpanKind(kind)\<close>\<close>

definition MapSpanKind :: "ProtoSpanKind \<Rightarrow> 32 word" where
  "MapSpanKind kind =
     (case kind of
        ProtoServer \<Rightarrow> 1
      | ProtoClient \<Rightarrow> 2
      | ProtoProducer \<Rightarrow> 3
      | ProtoConsumer \<Rightarrow> 4
      | ProtoInternal \<Rightarrow> 0
      | _ \<Rightarrow> 0)"

definition convert_event :: "Framework \<Rightarrow> DateTime \<Rightarrow> ProtoEvent \<Rightarrow> error + SpanEvent" where
  "convert_event fw now e =
     bind (ToStringAttributesDict fw (pe_Attributes e)) (\<lambda>attrs.
       Inr \<lparr> ev_Name = pe_Name e, ev_Timestamp = NanosToDateTime now (pe_TimeUnixNano e),
             ev_Attributes = attrs \<rparr>)"

definition convert_link :: "ProtoLink \<Rightarrow> SpanLink" where
  "convert_link l = \<lparr> link_TraceId = BytesToHex (Some (pl_TraceId l)),
     link_SpanId = BytesToHex (Some (pl_SpanId l)) \<rparr>"

definition ConvertSpan ::
  "Framework \<Rightarrow> DateTime \<Rightarrow> Span \<Rightarrow> string \<Rightarrow> string \<Rightarrow> string \<Rightarrow> error + TraceSpan" where
  "ConvertSpan fw now otlpSpan serviceName scopeName scopeVersion =
     (let startTime = NanosToDateTime now (sp_StartTimeUnixNano otlpSpan);
          endTime = NanosToDateTime now (sp_EndTimeUnixNano otlpSpan)
      in bind (ToStringAttributesDict fw (sp_Attributes otlpSpan)) (\<lambda>attributes0.
           let attributes1 =
                 (if scopeName \<noteq> [] then AList.update ''otel.scope.name'' scopeName attributes0
                  else attributes0);
               attributes2 =
                 (if scopeVersion \<noteq> []
                  then AList.update ''otel.scope.version'' scopeVersion attributes1
                  else attributes1)
           in bind (ToList (map (convert_event fw now) (sp_Events otlpSpan))) (\<lambda>events.
                Inr \<lparr> span_TraceId = BytesToHex (Some (sp_TraceId otlpSpan)),
                      span_SpanId = BytesToHex (Some (sp_SpanId otlpSpan)),
                      span_ParentSpanId =
                        (if sp_ParentSpanId otlpSpan = [] then None
                         else Some (BytesToHex (Some (sp_ParentSpanId otlpSpan)))),
                      span_Name = sp_Name otlpSpan,
                      span_StartTime = startTime,
                      span_EndTime = endTime,
                      span_DurationMs = Ticks_TotalMilliseconds fw (endTime - startTime),
                      span_StatusCode =
                        (case sp_Status otlpSpan of None \<Rightarrow> 0 | Some st \<Rightarrow> status_Code st),
                      span_StatusMessage =
                        (case sp_Status otlpSpan of None \<Rightarrow> None | Some st \<Rightarrow> Some (status_Message st)),
                      span_Kind = MapSpanKind (sp_Kind otlpSpan),
                      span_ServiceName = serviceName,
                      span_Attributes = attributes2,
                      span_Events = events,
                      span_Links = map convert_link (sp_Links otlpSpan) \<rparr>)))"

section \<open>OtlpMetricsGrpcService: ConvertMetric\<close>

datatype NumberValue = AsDouble double | AsInt long | NoNumber

record NumberDataPoint =
  ndp_Value :: NumberValue
  ndp_TimeUnixNano :: "64 word"
  ndp_StartTimeUnixNano :: "64 word"
  ndp_Attributes :: "KeyValue list"

text \<open>\<^verbatim>\<open>HasSum\<close>, \<^verbatim>\<open>HasMin\<close> and \<^verbatim>\<open>HasMax\<close> are the optional fields being present.\<close>

record HistogramDataPoint =
  hdp_TimeUnixNano :: "64 word"
  hdp_Count :: "64 word"
  hdp_Sum :: "double option"
  hdp_Min :: "double option"
  hdp_Max :: "double option"
  hdp_Attributes :: "KeyValue list"

record ExponentialHistogramDataPoint =
  edp_TimeUnixNano :: "64 word"
  edp_Count :: "64 word"
  edp_Sum :: "double option"
  edp_Attributes :: "KeyValue list"

record ValueAtQuantile =
  Quantile :: double
  QuantileValue :: double

record SummaryDataPoint =
  sdp_TimeUnixNano :: "64 word"
  sdp_Count :: "64 word"
  sdp_Sum :: double
  sdp_QuantileValues :: "ValueAtQuantile list"
  sdp_Attributes :: "KeyValue list"

datatype MetricData =
  GaugeData "NumberDataPoint list"
  | SumData bool "NumberDataPoint list"
  | HistogramData "HistogramDataPoint list"
  | ExponentialHistogramData "ExponentialHistogramDataPoint list"
  | SummaryData "SummaryDataPoint list"
  | NoData

record Metric =
  m_Name :: string
  m_Description :: string
  m_Unit :: string
  m_Data :: MetricData

type_synonym DataPointTuple = "double \<times> DateTime \<times> (string \<times> string) list"

text \<open>
  An iterator method (\<^verbatim>\<open>yield return\<close>) over the data points: the elements it yields
  before it throws, and the exception, if any. In each of the four methods the only call
  that can throw, \<^verbatim>\<open>ToStringAttributesDict\<close>, comes before the first \<^verbatim>\<open>yield\<close> of a
  data point.
\<close>

fun iterate :: "('dp \<Rightarrow> error + 'a list) \<Rightarrow> 'dp list \<Rightarrow> 'a list \<times> error option" where
  "iterate f [] = ([], None)"
| "iterate f (dp # dps) =
     (case f dp of
        Inl ex \<Rightarrow> ([], Some ex)
      | Inr items \<Rightarrow> (items @ fst (iterate f dps), snd (iterate f dps)))"

definition number_point :: "Framework \<Rightarrow> DateTime \<Rightarrow> NumberDataPoint \<Rightarrow> error + DataPointTuple list" where
  "number_point fw now dp =
     (let v = (case ndp_Value dp of
                 AsDouble d \<Rightarrow> d
               | AsInt i \<Rightarrow> Int_ToDouble fw (sint i)
               | NoNumber \<Rightarrow> 0);
          timestamp =
            (if ndp_TimeUnixNano dp > 0 then NanosToDateTime now (ndp_TimeUnixNano dp)
             else if ndp_StartTimeUnixNano dp > 0 then NanosToDateTime now (ndp_StartTimeUnixNano dp)
             else now)
      in bind (ToStringAttributesDict fw (ndp_Attributes dp)) (\<lambda>attributes.
           Inr [(v, timestamp, attributes)]))"

definition ConvertNumberDataPoints ::
  "Framework \<Rightarrow> DateTime \<Rightarrow> NumberDataPoint list \<Rightarrow> DataPointTuple list \<times> error option" where
  "ConvertNumberDataPoints fw now dataPoints = iterate (number_point fw now) dataPoints"

definition histogram_point ::
  "Framework \<Rightarrow> DateTime \<Rightarrow> HistogramDataPoint \<Rightarrow> error + DataPointTuple list" where
  "histogram_point fw now dp =
     (let timestamp =
            (if hdp_TimeUnixNano dp > 0 then NanosToDateTime now (hdp_TimeUnixNano dp) else now)
      in bind (ToStringAttributesDict fw (hdp_Attributes dp)) (\<lambda>attributes0.
           let attributes1 = AList.update ''aggregate'' ''count'' attributes0;
               attributes2 = (if hdp_Sum dp \<noteq> None
                              then AList.update ''aggregate'' ''sum'' attributes1 else attributes1);
               attributes3 = (if hdp_Min dp \<noteq> None
                              then AList.update ''aggregate'' ''min'' attributes2 else attributes2);
               attributes4 = (if hdp_Max dp \<noteq> None
                              then AList.update ''aggregate'' ''max'' attributes3 else attributes3)
           in Inr ([(Int_ToDouble fw (uint (hdp_Count dp)), timestamp, attributes1)]
                   @ (case hdp_Sum dp of Some v \<Rightarrow> [(v, timestamp, attributes2)] | None \<Rightarrow> [])
                   @ (case hdp_Min dp of Some v \<Rightarrow> [(v, timestamp, attributes3)] | None \<Rightarrow> [])
                   @ (case hdp_Max dp of Some v \<Rightarrow> [(v, timestamp, attributes4)] | None \<Rightarrow> []))))"

definition ConvertHistogramDataPoints ::
  "Framework \<Rightarrow> DateTime \<Rightarrow> HistogramDataPoint list \<Rightarrow> DataPointTuple list \<times> error option" where
  "ConvertHistogramDataPoints fw now dataPoints = iterate (histogram_point fw now) dataPoints"

definition exp_histogram_point ::
  "Framework \<Rightarrow> DateTime \<Rightarrow> ExponentialHistogramDataPoint \<Rightarrow> error + DataPointTuple list" where
  "exp_histogram_point fw now dp =
     (let timestamp =
            (if edp_TimeUnixNano dp > 0 then NanosToDateTime now (edp_TimeUnixNano dp) else now)
      in bind (ToStringAttributesDict fw (edp_Attributes dp)) (\<lambda>attributes0.
           let attributes1 = AList.update ''aggregate'' ''count'' attributes0;
               attributes2 = AList.update ''aggregate'' ''sum'' attributes1
           in Inr ([(Int_ToDouble fw (uint (edp_Count dp)), timestamp, attributes1)]
                   @ (case edp_Sum dp of Some v \<Rightarrow> [(v, timestamp, attributes2)] | None \<Rightarrow> []))))"

definition ConvertExpHistogramDataPoints ::
  "Framework \<Rightarrow> DateTime \<Rightarrow> ExponentialHistogramDataPoint list
     \<Rightarrow> DataPointTuple list \<times> error option" where
  "ConvertExpHistogramDataPoints fw now dataPoints = iterate (exp_histogram_point fw now) dataPoints"

definition summary_point ::
  "Framework \<Rightarrow> DateTime \<Rightarrow> SummaryDataPoint \<Rightarrow> error + DataPointTuple list" where
  "summary_point fw now dp =
     (let timestamp =
            (if sdp_TimeUnixNano dp > 0 then NanosToDateTime now (sdp_TimeUnixNano dp) else now)
      in bind (ToStringAttributesDict fw (sdp_Attributes dp)) (\<lambda>attributes0.
           let attributes1 = AList.update ''aggregate'' ''count'' attributes0;
               attributes2 = AList.update ''aggregate'' ''sum'' attributes1
           in Inr ([(Int_ToDouble fw (uint (sdp_Count dp)), timestamp, attributes1),
                    (sdp_Sum dp, timestamp, attributes2)]
                   @ map (\<lambda>q. (QuantileValue q, timestamp,
                                AList.update ''quantile'' (Double_ToString_F2 fw (Quantile q))
                                  (AList.update ''aggregate'' ''quantile'' attributes2)))
                       (sdp_QuantileValues dp))))"

definition ConvertSummaryDataPoints ::
  "Framework \<Rightarrow> DateTime \<Rightarrow> SummaryDataPoint list \<Rightarrow> DataPointTuple list \<times> error option" where
  "ConvertSummaryDataPoints fw now dataPoints = iterate (summary_point fw now) dataPoints"

definition GetMetricType :: "Metric \<Rightarrow> MetricType" where
  "GetMetricType metric =
     (case m_Data metric of
        GaugeData dps \<Rightarrow> Gauge
      | SumData isMonotonic dps \<Rightarrow> if isMonotonic then Counter else Sum
      | HistogramData dps \<Rightarrow> Histogram
      | ExponentialHistogramData dps \<Rightarrow> Histogram
      | SummaryData dps \<Rightarrow> Gauge
      | NoData \<Rightarrow> Gauge)"

definition ConvertMetric ::
  "Framework \<Rightarrow> DateTime \<Rightarrow> Metric \<Rightarrow> string \<Rightarrow> string \<Rightarrow> string
     \<Rightarrow> MetricEntry list \<times> error option" where
  "ConvertMetric fw now metric serviceName scopeName scopeVersion =
     (let dataPoints =
            (case m_Data metric of
               GaugeData dps \<Rightarrow> ConvertNumberDataPoints fw now dps
             | SumData isMonotonic dps \<Rightarrow> ConvertNumberDataPoints fw now dps
             | HistogramData dps \<Rightarrow> ConvertHistogramDataPoints fw now dps
             | ExponentialHistogramData dps \<Rightarrow> ConvertExpHistogramDataPoints fw now dps
             | SummaryData dps \<Rightarrow> ConvertSummaryDataPoints fw now dps
             | NoData \<Rightarrow> ([], None))
      in (map (\<lambda>(v, timestamp, attributes0).
                 let attributes1 =
                       (if scopeName \<noteq> []
                        then AList.update ''otel.scope.name'' scopeName attributes0
                        else attributes0);
                     attributes2 =
                       (if scopeVersion \<noteq> []
                        then AList.update ''otel.scope.version'' scopeVersion attributes1
                        else attributes1)
                 in \<lparr> metric_Id = 0, metric_Name = m_Name metric,
                      metric_Description = Some (m_Description metric),
                      metric_Unit = Some (m_Unit metric), metric_Value = v,
                      metric_Type = GetMetricType metric, metric_Timestamp = timestamp,
                      metric_ServiceName = serviceName, metric_Attributes = attributes2 \<rparr>)
            (fst dataPoints),
          snd dataPoints))"

section \<open>WebSocketStreamService\<close>

text \<open>
  The outgoing queue of a connection is a \<^verbatim>\<open>Channel\<close> of the runtime, created with
  \<^verbatim>\<open>BoundedChannelOptions(1000)\<close> and \<^verbatim>\<open>FullMode = BoundedChannelFullMode.DropOldest\<close>:
  \<^verbatim>\<open>TryWrite\<close> returns at once; on a channel that holds fewer items than its capacity it
  appends the item, on a full one it removes the oldest item and appends the new one; it
  returns \<^verbatim>\<open>true\<close> in both cases. The reader takes the oldest item. A queue is a list,
  oldest item first.
\<close>

definition queueCapacity :: nat where
  "queueCapacity = 1000"

definition TryWrite :: "'m list \<Rightarrow> 'm \<Rightarrow> bool \<times> 'm list" where
  "TryWrite queue item =
     (if length queue < queueCapacity then (True, queue @ [item])
      else (True, tl queue @ [item]))"

definition TryRead :: "'m list \<Rightarrow> 'm option \<times> 'm list" where
  "TryRead queue = (case queue of [] \<Rightarrow> (None, []) | item # rest \<Rightarrow> (Some item, rest))"

record 'p WebSocketMessage =
  msg_Type :: string
  msg_Channel :: string
  msg_Payload :: 'p
  msg_Timestamp :: string

record 'm ConnectionState =
  conn_SocketOpen :: bool
  conn_MessageQueue :: "'m list"
  conn_Subscriptions :: "string set"

text \<open>
  \<^verbatim>\<open>BroadcastAsync\<close>; \<open>timestamp\<close> is \<^verbatim>\<open>DateTime.UtcNow.ToString("o")\<close> at the call.
\<close>

definition BroadcastAsync ::
  "(string \<rightharpoonup> 'p WebSocketMessage ConnectionState) \<Rightarrow> string \<Rightarrow> 'p \<Rightarrow> string
     \<Rightarrow> (string \<rightharpoonup> 'p WebSocketMessage ConnectionState)" where
  "BroadcastAsync connections channel payload timestamp =
     (let message = \<lparr> msg_Type = ''data'', msg_Channel = channel, msg_Payload = payload,
                       msg_Timestamp = timestamp \<rparr>
      in (\<lambda>connectionId.
            case connections connectionId of
              None \<Rightarrow> None
            | Some st \<Rightarrow>
                if channel \<in> conn_Subscriptions st \<and> conn_SocketOpen st
                then Some (st\<lparr>conn_MessageQueue := snd (TryWrite (conn_MessageQueue st) message)\<rparr>)
                else Some st))"

text \<open>
  The life of one queue: the broadcaster writes, the connection's sender task reads (a
  read on an empty queue waits, and changes nothing). The state is the queue and the
  messages delivered so far.
\<close>

datatype 'm QueueEvent = Enqueue 'm | Dequeue

fun queue_step :: "'m list \<times> 'm list \<Rightarrow> 'm QueueEvent \<Rightarrow> 'm list \<times> 'm list" where
  "queue_step (queue, delivered) (Enqueue item) = (snd (TryWrite queue item), delivered)"
| "queue_step (queue, delivered) Dequeue =
     (case fst (TryRead queue) of
        None \<Rightarrow> (queue, delivered)
      | Some item \<Rightarrow> (snd (TryRead queue), delivered @ [item]))"

definition queue_run :: "'m QueueEvent list \<Rightarrow> 'm list \<times> 'm list" where
  "queue_run evs = foldl queue_step ([], []) evs"

fun enqueued :: "'m QueueEvent list \<Rightarrow> 'm list" where
  "enqueued [] = []"
| "enqueued (Enqueue item # evs) = item # enqueued evs"
| "enqueued (Dequeue # evs) = enqueued evs"

text \<open>
  An OTLP log batch with one record of severity number 17 from the service \<open>checkout\<close>,
  as a gRPC request and as the body of a JSON request.
\<close>

definition sev17_record :: LogRecord where
  "sev17_record = \<lparr> lr_TimeUnixNano = 1700000000000000000, lr_ObservedTimeUnixNano = 0,
     lr_SeverityNumber = 17, lr_SeverityText = ''ERROR'',
     lr_Body = Some (StringValue ''payment failed''), lr_Attributes = [],
     lr_TraceId = [], lr_SpanId = [] \<rparr>"

definition checkout_request :: "ResourceLogs list" where
  "checkout_request =
     [\<lparr> rl_Resource = Some [(''service.name'', Some (StringValue ''checkout''))],
         rl_ScopeLogs = [\<lparr> sl_Scope = None, sl_LogRecords = [sev17_record] \<rparr>] \<rparr>]"

definition sev17_json :: json where
  "sev17_json = JObject [(''timeUnixNano'', JString ''1700000000000000000''),
     (''severityNumber'', JNumber (JInt 17)),
     (''body'', JObject [(''stringValue'', JString ''payment failed'')])]"

definition checkout_resource :: json where
  "checkout_resource = JObject [(''attributes'', JArray [JObject [(''key'', JString ''service.name''),
     (''value'', JObject [(''stringValue'', JString ''checkout'')])]])]"

definition checkout_body :: json where
  "checkout_body = JObject [(''resourceLogs'', JArray [JObject [(''resource'', checkout_resource),
     (''scopeLogs'', JArray [JObject [(''logRecords'', JArray [sev17_json])]])]])]"

definition negative_severity_json :: json where
  "negative_severity_json = JObject [(''severityNumber'', JNumber (JInt (- 3))),
     (''body'', JObject [(''stringValue'', JString ''x'')])]"

definition no_severity_json :: json where
  "no_severity_json = JObject [(''body'', JObject [(''stringValue'', JString ''x'')])]"

text \<open>
  A gRPC request and a JSON request of the service \<open>checkout\<close> with one log record: the
  record of the scenario with another severity number, and a given JSON record.
\<close>

definition severity_request :: "32 word \<Rightarrow> ResourceLogs list" where
  "severity_request sev =
     [\<lparr> rl_Resource = Some [(''service.name'', Some (StringValue ''checkout''))],
         rl_ScopeLogs = [\<lparr> sl_Scope = None, sl_LogRecords =
           [sev17_record\<lparr>lr_SeverityNumber := sev\<rparr>] \<rparr>] \<rparr>]"

definition severity_body :: "json \<Rightarrow> json" where
  "severity_body logRecord = JObject [(''resourceLogs'', JArray [JObject
     [(''resource'', checkout_resource),
      (''scopeLogs'', JArray [JObject [(''logRecords'', JArray [logRecord])]])]])]"

text \<open>
  Two Summary data points: one with a count, a sum and the quantile 0.5 (the doubles are
  3 as a count, 30.0, 0.5 and 12.0), and one whose attribute list has a key twice.
\<close>

definition summary_dp :: SummaryDataPoint where
  "summary_dp = \<lparr> sdp_TimeUnixNano = 1700000000000000000, sdp_Count = 3,
     sdp_Sum = 0x403E000000000000,
     sdp_QuantileValues = [\<lparr> Quantile = 0x3FE0000000000000, QuantileValue = 0x4028000000000000 \<rparr>],
     sdp_Attributes = [(''host'', Some (StringValue ''h1''))] \<rparr>"

definition duplicate_key_dp :: SummaryDataPoint where
  "duplicate_key_dp = summary_dp\<lparr>sdp_Attributes :=
     [(''host'', Some (StringValue ''h1'')), (''host'', Some (StringValue ''h2''))]\<rparr>"

definition summary_metric :: Metric where
  "summary_metric = \<lparr> m_Name = ''request.latency'', m_Description = [], m_Unit = ''ms'',
     m_Data = SummaryData [summary_dp] \<rparr>"

text \<open>The metric with a second data point, which has no quantile value.\<close>

definition two_point_metric :: Metric where
  "two_point_metric = summary_metric\<lparr>m_Data := SummaryData
     [summary_dp, summary_dp\<lparr>sdp_QuantileValues := [],
        sdp_Attributes := [(''host'', Some (StringValue ''h2''))]\<rparr>]\<rparr>"

text \<open>
  A character string is canonical lower-case hexadecimal when it consists of the
  characters \<open>0\<close>..\<open>9\<close> and \<open>a\<close>..\<open>f\<close>; such a string is its own lower-case form.
\<close>

definition canonical_hex :: "string \<Rightarrow> bool" where
  "canonical_hex s = (list_all is_lower_hex s \<and> ToLowerInvariant s = s)"

text \<open>A JSON span and a JSON log request whose identifiers are upper-case hexadecimal.\<close>

definition upper_span_json :: json where
  "upper_span_json = JObject [(''traceId'', JString ''4BF92F3577B34DA6A3CE929D0E0E4736''),
     (''spanId'', JString ''00F067AA0BA902B7''), (''name'', JString ''GET /cart'')]"

definition upper_log_body :: json where
  "upper_log_body = JObject [(''resourceLogs'', JArray [JObject [(''scopeLogs'', JArray [JObject
     [(''logRecords'', JArray [JObject [(''traceId'', JString ''4BF92F3577B34DA6A3CE929D0E0E4736''),
        (''spanId'', JString ''00F067AA0BA902B7''),
        (''body'', JObject [(''stringValue'', JString ''hello'')])]])]])]])]"

text \<open>
  One metric with one data point, its time written as a JSON number and as a JSON string
  (the form that OTLP/JSON uses for 64-bit integers), and a request with the latter.
\<close>

definition metric_number_time :: json where
  "metric_number_time = JObject [(''name'', JString ''cpu.usage''),
     (''dataPoints'', JArray [JObject [(''asNumber'', JNumber (JInt 42)),
        (''timeUnixNano'', JNumber (JInt 1700000000123456789))]])]"

definition metric_string_time :: json where
  "metric_string_time = JObject [(''name'', JString ''cpu.usage''),
     (''dataPoints'', JArray [JObject [(''asNumber'', JNumber (JInt 42)),
        (''timeUnixNano'', JString ''1700000000123456789'')]])]"

definition metric_string_time_body :: json where
  "metric_string_time_body = JObject [(''resourceMetrics'', JArray [JObject [(''scopeMetrics'',
     JArray [JObject [(''metrics'', JArray [metric_string_time])]])]])]"

section \<open>The items of a batch\<close>

text \<open>
  The result of \<^verbatim>\<open>ConvertLogRecord\<close> for every log record of a gRPC request, in the order
  of the three nested loops of \<^verbatim>\<open>Export\<close>: \<open>Inr\<close> for a well-formed record, \<open>Inl\<close> for
  a malformed one.
\<close>

definition scope_conversions ::
  "Framework \<Rightarrow> DateTime \<Rightarrow> string \<Rightarrow> string option \<Rightarrow> string option \<Rightarrow> ScopeLogs
     \<Rightarrow> (error + LogEntry) list" where
  "scope_conversions fw now serviceName serviceVersion deploymentEnv scopeLogs =
     map (\<lambda>logRecord. ConvertLogRecord fw now logRecord serviceName serviceVersion deploymentEnv
            (case sl_Scope scopeLogs of None \<Rightarrow> [] | Some sc \<Rightarrow> scope_Name sc)
            (case sl_Scope scopeLogs of None \<Rightarrow> [] | Some sc \<Rightarrow> scope_Version sc))
       (sl_LogRecords scopeLogs)"

definition resource_conversions ::
  "Framework \<Rightarrow> DateTime \<Rightarrow> ResourceLogs \<Rightarrow> (error + LogEntry) list" where
  "resource_conversions fw now resourceLogs =
     concat (map (scope_conversions fw now
                    (GetServiceName fw (rl_Resource resourceLogs))
                    (case rl_Resource resourceLogs of
                       None \<Rightarrow> None | Some attrs \<Rightarrow> find_attribute fw attrs ''service.version'')
                    (case rl_Resource resourceLogs of
                       None \<Rightarrow> None
                     | Some attrs \<Rightarrow> find_attribute fw attrs ''deployment.environment''))
               (rl_ScopeLogs resourceLogs))"

definition request_conversions ::
  "Framework \<Rightarrow> DateTime \<Rightarrow> ResourceLogs list \<Rightarrow> (error + LogEntry) list" where
  "request_conversions fw now request = concat (map (resource_conversions fw now) request)"

definition accepted :: "(error + 'a) list \<Rightarrow> 'a list" where
  "accepted results = List.map_filter (\<lambda>r. case r of Inr x \<Rightarrow> Some x | Inl ex \<Rightarrow> None) results"

definition rejected :: "(error + 'a) list \<Rightarrow> error list" where
  "rejected results = List.map_filter (\<lambda>r. case r of Inl ex \<Rightarrow> Some ex | Inr x \<Rightarrow> None) results"

text \<open>One round of the innermost loop of \<^verbatim>\<open>Export\<close>, by the result of the conversion.\<close>

fun count_result :: "ExportState \<Rightarrow> error + LogEntry \<Rightarrow> ExportState" where
  "count_result st (Inr logEntry) =
     st\<lparr>es_store := snd (AddLog (es_store st) logEntry), es_logCount := es_logCount st + 1\<rparr>"
| "count_result st (Inl ex) = st\<lparr>es_rejectedLogs := es_rejectedLogs st + 1\<rparr>"

text \<open>
  A gRPC request and a JSON request with the same three log records; the second record is
  malformed (its attribute list has a key twice; its \<open>traceId\<close> is not a string).
\<close>

definition mixed_request :: "ResourceLogs list" where
  "mixed_request =
     [\<lparr> rl_Resource = Some [(''service.name'', Some (StringValue ''checkout''))],
         rl_ScopeLogs = [\<lparr> sl_Scope = None, sl_LogRecords =
           [sev17_record\<lparr>lr_Body := Some (StringValue ''first'')\<rparr>,
            sev17_record\<lparr>lr_Attributes := [(''k'', None), (''k'', None)]\<rparr>,
            sev17_record\<lparr>lr_Body := Some (StringValue ''second'')\<rparr>] \<rparr>] \<rparr>]"

definition mixed_records :: "json list" where
  "mixed_records =
     [JObject [(''body'', JObject [(''stringValue'', JString ''first'')])],
      JObject [(''traceId'', JNumber (JInt 5))],
      JObject [(''body'', JObject [(''stringValue'', JString ''second'')])]]"

definition mixed_body :: json where
  "mixed_body = JObject [(''resourceLogs'', JArray [JObject [(''resource'', checkout_resource),
     (''scopeLogs'', JArray [JObject [(''logRecords'', JArray mixed_records)]])]])]"

definition no_resource_request :: "ResourceLogs list" where
  "no_resource_request = [(hd mixed_request)\<lparr>rl_Resource := None\<rparr>]"

chapter \<open>Properties\<close>

section \<open>Capacity and FIFO eviction\<close>

lemma TrimLogsIfNeeded_eq:
  "TrimLogsIfNeeded s = s\<lparr>logs := drop (length (logs s) - maxLogs) (logs s)\<rparr>"
proof (induction s rule: TrimLogsIfNeeded.induct)
  case (1 s)
  show ?case
  proof (cases "length (logs s) > maxLogs")
    case False
    then show ?thesis by (simp add: TrimLogsIfNeeded.simps [of s])
  next
    case True
    then obtain x rest where xs: "logs s = x # rest" by (cases "logs s") auto
    have "TrimLogsIfNeeded s = TrimLogsIfNeeded (s\<lparr>logs := rest\<rparr>)"
      using True xs by (simp add: TrimLogsIfNeeded.simps [of s])
    also have "\<dots> = s\<lparr>logs := rest\<rparr>\<lparr>logs := drop (length rest - maxLogs) rest\<rparr>"
      using "1.IH" [OF True xs] by simp
    also have "\<dots> = s\<lparr>logs := drop (length (logs s) - maxLogs) (logs s)\<rparr>"
      using True xs by (simp add: Suc_diff_le drop_Cons')
    finally show ?thesis .
  qed
qed

lemma TrimMetricsIfNeeded_eq:
  "TrimMetricsIfNeeded s = s\<lparr>metrics := drop (length (metrics s) - maxMetrics) (metrics s)\<rparr>"
proof (induction s rule: TrimMetricsIfNeeded.induct)
  case (1 s)
  show ?case
  proof (cases "length (metrics s) > maxMetrics")
    case False
    then show ?thesis by (simp add: TrimMetricsIfNeeded.simps [of s])
  next
    case True
    then obtain x rest where xs: "metrics s = x # rest" by (cases "metrics s") auto
    have "TrimMetricsIfNeeded s = TrimMetricsIfNeeded (s\<lparr>metrics := rest\<rparr>)"
      using True xs by (simp add: TrimMetricsIfNeeded.simps [of s])
    also have "\<dots> = s\<lparr>metrics := rest\<rparr>\<lparr>metrics := drop (length rest - maxMetrics) rest\<rparr>"
      using "1.IH" [OF True xs] by simp
    also have "\<dots> = s\<lparr>metrics := drop (length (metrics s) - maxMetrics) (metrics s)\<rparr>"
      using True xs by (simp add: Suc_diff_le drop_Cons')
    finally show ?thesis .
  qed
qed

lemma logs_AddLog:
  "logs (snd (AddLog s x)) =
     drop (length (logs s) + 1 - maxLogs) (logs s @ [x\<lparr>log_Id := logIdCounter s + 1\<rparr>])"
  by (simp add: AddLog_def Let_def TrimLogsIfNeeded_eq)

lemma logIdCounter_AddLog: "logIdCounter (snd (AddLog s x)) = logIdCounter s + 1"
  by (simp add: AddLog_def Let_def TrimLogsIfNeeded_eq)

lemma metrics_AddMetric:
  "metrics (snd (AddMetric s x)) =
     drop (length (metrics s) + 1 - maxMetrics)
       (metrics s @ [x\<lparr>metric_Id := metricIdCounter s + 1\<rparr>])"
  by (simp add: AddMetric_def Let_def TrimMetricsIfNeeded_eq)

lemma metricIdCounter_AddMetric: "metricIdCounter (snd (AddMetric s x)) = metricIdCounter s + 1"
  by (simp add: AddMetric_def Let_def TrimMetricsIfNeeded_eq)

lemma AddLog_metrics [simp]:
  "metrics (snd (AddLog s x)) = metrics s"
  "metricIdCounter (snd (AddLog s x)) = metricIdCounter s"
  by (simp_all add: AddLog_def Let_def TrimLogsIfNeeded_eq)

lemma AddMetric_logs [simp]:
  "logs (snd (AddMetric s x)) = logs s"
  "logIdCounter (snd (AddMetric s x)) = logIdCounter s"
  by (simp_all add: AddMetric_def Let_def TrimMetricsIfNeeded_eq)

lemma length_stamp_logs [simp]: "length (stamp_logs c xs) = length xs"
  by (induction xs arbitrary: c) auto

lemma length_stamp_metrics [simp]: "length (stamp_metrics c xs) = length xs"
  by (induction xs arbitrary: c) auto

lemma logs_run_ops:
  "length (logs s) \<le> maxLogs \<Longrightarrow>
   logs (run_ops s ops) =
     drop (length (logs s) + length (added_logs ops) - maxLogs)
       (logs s @ stamp_logs (logIdCounter s) (added_logs ops))"
proof (induction ops arbitrary: s)
  case Nil
  then show ?case by (simp add: run_ops_def)
next
  case (Cons a ops)
  show ?case
  proof (cases a)
    case (OpAddMetric m)
    then show ?thesis using Cons.IH [of "snd (AddMetric s m)"] Cons.prems
      by (simp add: run_ops_def)
  next
    case (OpAddLog x)
    let ?s' = "snd (AddLog s x)"
    have len: "length (logs ?s') \<le> maxLogs"
      using Cons.prems by (simp add: logs_AddLog)
    have "logs (run_ops s (a # ops)) = logs (run_ops ?s' ops)"
      by (simp add: run_ops_def OpAddLog)
    also have "\<dots> = drop (length (logs ?s') + length (added_logs ops) - maxLogs)
                       (logs ?s' @ stamp_logs (logIdCounter ?s') (added_logs ops))"
      by (rule Cons.IH [OF len])
    also have "\<dots> = drop (length (logs s) + length (added_logs (a # ops)) - maxLogs)
                       (logs s @ stamp_logs (logIdCounter s) (added_logs (a # ops)))"
    proof (cases "length (logs s) < maxLogs")
      case True
      then show ?thesis by (simp add: logs_AddLog logIdCounter_AddLog OpAddLog)
    next
      case False
      with Cons.prems have eq: "length (logs s) = maxLogs" by simp
      have m: "0 < maxLogs" by (simp add: maxLogs_def)
      obtain y ys where ys: "logs s = y # ys" using eq m by (cases "logs s") auto
      show ?thesis using eq ys
        by (simp add: logs_AddLog logIdCounter_AddLog OpAddLog)
    qed
    finally show ?thesis .
  qed
qed

lemma metrics_run_ops:
  "length (metrics s) \<le> maxMetrics \<Longrightarrow>
   metrics (run_ops s ops) =
     drop (length (metrics s) + length (added_metrics ops) - maxMetrics)
       (metrics s @ stamp_metrics (metricIdCounter s) (added_metrics ops))"
proof (induction ops arbitrary: s)
  case Nil
  then show ?case by (simp add: run_ops_def)
next
  case (Cons a ops)
  show ?case
  proof (cases a)
    case (OpAddLog x)
    then show ?thesis using Cons.IH [of "snd (AddLog s x)"] Cons.prems
      by (simp add: run_ops_def)
  next
    case (OpAddMetric x)
    let ?s' = "snd (AddMetric s x)"
    have len: "length (metrics ?s') \<le> maxMetrics"
      using Cons.prems by (simp add: metrics_AddMetric)
    have "metrics (run_ops s (a # ops)) = metrics (run_ops ?s' ops)"
      by (simp add: run_ops_def OpAddMetric)
    also have "\<dots> = drop (length (metrics ?s') + length (added_metrics ops) - maxMetrics)
                       (metrics ?s' @ stamp_metrics (metricIdCounter ?s') (added_metrics ops))"
      by (rule Cons.IH [OF len])
    also have "\<dots> = drop (length (metrics s) + length (added_metrics (a # ops)) - maxMetrics)
                       (metrics s @ stamp_metrics (metricIdCounter s) (added_metrics (a # ops)))"
    proof (cases "length (metrics s) < maxMetrics")
      case True
      then show ?thesis by (simp add: metrics_AddMetric metricIdCounter_AddMetric OpAddMetric)
    next
      case False
      with Cons.prems have eq: "length (metrics s) = maxMetrics" by simp
      have m: "0 < maxMetrics" by (simp add: maxMetrics_def)
      obtain y ys where ys: "metrics s = y # ys" using eq m by (cases "metrics s") auto
      show ?thesis using eq ys
        by (simp add: metrics_AddMetric metricIdCounter_AddMetric OpAddMetric)
    qed
    finally show ?thesis .
  qed
qed

lemma logs_reachable:
  "logs (run_ops new_store ops) =
     drop (length (added_logs ops) - maxLogs) (stamp_logs 0 (added_logs ops))"
  using logs_run_ops [of new_store ops] by (simp add: new_store_def)

lemma metrics_reachable:
  "metrics (run_ops new_store ops) =
     drop (length (added_metrics ops) - maxMetrics) (stamp_metrics 0 (added_metrics ops))"
  using metrics_run_ops [of new_store ops] by (simp add: new_store_def)

lemma drop_one_full: "length q = n \<Longrightarrow> 0 < n \<Longrightarrow> drop (Suc n - n) (q @ [x]) = tl q @ [x]"
  by (cases q) auto

lemma added_logs_replicate [simp]: "added_logs (replicate n (OpAddLog x)) = replicate n x"
  by (induction n) auto

lemma added_metrics_replicate [simp]: "added_metrics (replicate n (OpAddLog x)) = []"
  by (induction n) auto

text \<open>
  Claim C1. Let \<open>s\<close> be the store after any sequence of \<^verbatim>\<open>AddLog\<close> and
  \<^verbatim>\<open>AddMetric\<close> calls on a new store. Then \<open>s\<close> holds at most 100000 logs and at most
  100000 metrics; one more \<^verbatim>\<open>AddLog\<close> (\<^verbatim>\<open>AddMetric\<close>) appends the new entry and,
  exactly when the collection was full, removes exactly one element, the oldest; and the
  retained entries are the last 100000 inserted, in insertion order.
\<close>

theorem store_capacity_fifo:
  fixes ops :: "StoreOp list" and x :: LogEntry and m :: MetricEntry
  defines "s \<equiv> run_ops new_store ops"
  shows
    "length (logs s) \<le> 100000 \<and> length (metrics s) \<le> 100000
     \<and> logs (snd (AddLog s x)) =
         (if length (logs s) < 100000 then logs s else tl (logs s))
           @ [x\<lparr>log_Id := logIdCounter s + 1\<rparr>]
     \<and> metrics (snd (AddMetric s m)) =
         (if length (metrics s) < 100000 then metrics s else tl (metrics s))
           @ [m\<lparr>metric_Id := metricIdCounter s + 1\<rparr>]
     \<and> logs s = drop (length (added_logs ops) - 100000) (stamp_logs 0 (added_logs ops))
     \<and> metrics s =
         drop (length (added_metrics ops) - 100000) (stamp_metrics 0 (added_metrics ops))"
proof -
  have l: "length (logs s) \<le> maxLogs" and m: "length (metrics s) \<le> maxMetrics"
    unfolding s_def by (simp_all add: logs_reachable metrics_reachable)
  have a: "logs (snd (AddLog s x)) =
         (if length (logs s) < maxLogs then logs s else tl (logs s))
           @ [x\<lparr>log_Id := logIdCounter s + 1\<rparr>]"
  proof (cases "length (logs s) < maxLogs")
    case True
    then show ?thesis by (simp add: logs_AddLog)
  next
    case False
    with l have "length (logs s) = maxLogs" by simp
    then show ?thesis using drop_one_full [of "logs s" maxLogs]
      by (simp add: logs_AddLog maxLogs_def)
  qed
  have b: "metrics (snd (AddMetric s m)) =
         (if length (metrics s) < maxMetrics then metrics s else tl (metrics s))
           @ [m\<lparr>metric_Id := metricIdCounter s + 1\<rparr>]"
  proof (cases "length (metrics s) < maxMetrics")
    case True
    then show ?thesis by (simp add: metrics_AddMetric)
  next
    case False
    with m have "length (metrics s) = maxMetrics" by simp
    then show ?thesis using drop_one_full [of "metrics s" maxMetrics]
      by (simp add: metrics_AddMetric maxMetrics_def)
  qed
  have c: "logs s = drop (length (added_logs ops) - maxLogs) (stamp_logs 0 (added_logs ops))"
    unfolding s_def by (rule logs_reachable)
  have d: "metrics s =
      drop (length (added_metrics ops) - maxMetrics) (stamp_metrics 0 (added_metrics ops))"
    unfolding s_def by (rule metrics_reachable)
  show ?thesis using l m a b c d unfolding maxLogs_def maxMetrics_def by simp
qed

text \<open>
  The theorem at a full store: after 100000 calls of \<^verbatim>\<open>AddLog\<close> the collection holds
  100000 entries, and the next call drops the head and appends the new entry.
\<close>

theorem store_capacity_fifo_witness:
  "length (logs (run_ops new_store (replicate 100000 (OpAddLog (sample_log ''a'' [] 1))))) = 100000
   \<and> logs (snd (AddLog (run_ops new_store (replicate 100000 (OpAddLog (sample_log ''a'' [] 1))))
                  (sample_log ''b'' [] 2))) =
       tl (logs (run_ops new_store (replicate 100000 (OpAddLog (sample_log ''a'' [] 1)))))
         @ [(sample_log ''b'' [] 2)\<lparr>log_Id :=
              logIdCounter (run_ops new_store (replicate 100000 (OpAddLog (sample_log ''a'' [] 1)))) + 1\<rparr>]"
proof -
  let ?s = "run_ops new_store (replicate 100000 (OpAddLog (sample_log ''a'' [] 1)))"
  note t = store_capacity_fifo [of "replicate 100000 (OpAddLog (sample_log ''a'' [] 1))"
      "sample_log ''b'' [] 2" "sample_metric ''n'' 1"]
  from t have "logs ?s = stamp_logs 0 (replicate 100000 (sample_log ''a'' [] 1))" by simp
  then have len: "length (logs ?s) = 100000" by simp
  with t show ?thesis by simp
qed

section \<open>What the indexes hold\<close>

lemma stamp_logs_append:
  "stamp_logs c (xs @ ys) = stamp_logs c xs @ stamp_logs (c + of_nat (length xs)) ys"
  by (induction xs arbitrary: c) (auto simp: algebra_simps)

lemma stamp_metrics_append:
  "stamp_metrics c (xs @ ys) = stamp_metrics c xs @ stamp_metrics (c + of_nat (length xs)) ys"
  by (induction xs arbitrary: c) (auto simp: algebra_simps)

lemma run_ops_snoc: "run_ops s (ops @ [a]) = apply_op (run_ops s ops) a"
  by (simp add: run_ops_def)

lemma added_logs_append: "added_logs (xs @ ys) = added_logs xs @ added_logs ys"
  by (induction xs rule: added_logs.induct) auto

lemma added_metrics_append: "added_metrics (xs @ ys) = added_metrics xs @ added_metrics ys"
  by (induction xs rule: added_metrics.induct) auto

lemma logIdCounter_reachable:
  "logIdCounter (run_ops new_store ops) = of_nat (length (added_logs ops))"
proof (induction ops rule: rev_induct)
  case Nil
  show ?case by (simp add: run_ops_def new_store_def)
next
  case (snoc a ops)
  then show ?case
    by (cases a) (simp_all add: run_ops_snoc added_logs_append logIdCounter_AddLog)
qed

lemma metricIdCounter_reachable:
  "metricIdCounter (run_ops new_store ops) = of_nat (length (added_metrics ops))"
proof (induction ops rule: rev_induct)
  case Nil
  show ?case by (simp add: run_ops_def new_store_def)
next
  case (snoc a ops)
  then show ?case
    by (cases a) (simp_all add: run_ops_snoc added_metrics_append metricIdCounter_AddMetric)
qed

lemma index_of_Nil [simp]: "index_of key [] = Map.empty"
  by (rule ext) (simp add: index_of_def)

lemma index_of_snoc:
  "GetOrAddQueue_Enqueue (index_of key xs) (key x) x = index_of key (xs @ [x])"
  by (rule ext) (simp add: GetOrAddQueue_Enqueue_def index_of_def)

lemma index_of_snoc_id:
  "key x' = key x \<Longrightarrow> GetOrAddQueue_Enqueue (index_of key xs) (key x) x' = index_of key (xs @ [x'])"
  using index_of_snoc [of key xs x'] by simp

lemma AddLog_indexes:
  "logsByService (snd (AddLog s x)) =
     GetOrAddQueue_Enqueue (logsByService s) (log_ServiceName x) (x\<lparr>log_Id := logIdCounter s + 1\<rparr>)"
  "logsByTraceId (snd (AddLog s x)) =
     (if log_TraceId x \<noteq> [] then
        GetOrAddQueue_Enqueue (logsByTraceId s) (log_TraceId x) (x\<lparr>log_Id := logIdCounter s + 1\<rparr>)
      else logsByTraceId s)"
  "metricsByName (snd (AddLog s x)) = metricsByName s"
  "metricsByService (snd (AddLog s x)) = metricsByService s"
  by (simp_all add: AddLog_def Let_def TrimLogsIfNeeded_eq)

lemma AddMetric_indexes:
  "metricsByName (snd (AddMetric s x)) =
     GetOrAddQueue_Enqueue (metricsByName s) (metric_Name x) (x\<lparr>metric_Id := metricIdCounter s + 1\<rparr>)"
  "metricsByService (snd (AddMetric s x)) =
     GetOrAddQueue_Enqueue (metricsByService s) (metric_ServiceName x)
       (x\<lparr>metric_Id := metricIdCounter s + 1\<rparr>)"
  "logsByService (snd (AddMetric s x)) = logsByService s"
  "logsByTraceId (snd (AddMetric s x)) = logsByTraceId s"
  by (simp_all add: AddMetric_def Let_def TrimMetricsIfNeeded_eq)

lemma logsByService_reachable:
  "logsByService (run_ops new_store ops) =
     index_of log_ServiceName (stamp_logs 0 (added_logs ops))"
proof (induction ops rule: rev_induct)
  case Nil
  show ?case by (simp add: run_ops_def new_store_def)
next
  case (snoc a ops)
  show ?case
  proof (cases a)
    case (OpAddMetric m)
    then show ?thesis using snoc by (simp add: run_ops_snoc added_logs_append AddMetric_indexes)
  next
    case (OpAddLog x)
    then show ?thesis using snoc
      by (simp add: run_ops_snoc added_logs_append AddLog_indexes stamp_logs_append
          logIdCounter_reachable index_of_snoc_id)
  qed
qed

lemma metricsByName_reachable:
  "metricsByName (run_ops new_store ops) =
     index_of metric_Name (stamp_metrics 0 (added_metrics ops))"
proof (induction ops rule: rev_induct)
  case Nil
  show ?case by (simp add: run_ops_def new_store_def)
next
  case (snoc a ops)
  show ?case
  proof (cases a)
    case (OpAddLog m)
    then show ?thesis using snoc by (simp add: run_ops_snoc added_metrics_append AddLog_indexes)
  next
    case (OpAddMetric x)
    then show ?thesis using snoc
      by (simp add: run_ops_snoc added_metrics_append AddMetric_indexes stamp_metrics_append
          metricIdCounter_reachable index_of_snoc_id)
  qed
qed

lemma logsByTraceId_reachable:
  "logsByTraceId (run_ops new_store ops) =
     index_of log_TraceId (filter (\<lambda>e. log_TraceId e \<noteq> []) (stamp_logs 0 (added_logs ops)))"
proof (induction ops rule: rev_induct)
  case Nil
  show ?case by (simp add: run_ops_def new_store_def)
next
  case (snoc a ops)
  show ?case
  proof (cases a)
    case (OpAddMetric m)
    then show ?thesis using snoc by (simp add: run_ops_snoc added_logs_append AddMetric_indexes)
  next
    case (OpAddLog x)
    then show ?thesis using snoc
      by (simp add: run_ops_snoc added_logs_append AddLog_indexes stamp_logs_append
          logIdCounter_reachable index_of_snoc_id)
  qed
qed


section \<open>Queries answered from an index\<close>

lemma stamp_logs_fields:
  "map log_ServiceName (stamp_logs c xs) = map log_ServiceName xs"
  "map log_TraceId (stamp_logs c xs) = map log_TraceId xs"
  by (induction xs arbitrary: c) auto

lemma stamp_logs_ServiceName:
  "e \<in> set (stamp_logs c xs) \<Longrightarrow> log_ServiceName e \<in> log_ServiceName ` set xs"
  using stamp_logs_fields(1) [of c xs] by (metis image_eqI list.set_map)

lemma stamp_logs_TraceId:
  "e \<in> set (stamp_logs c xs) \<Longrightarrow> log_TraceId e \<in> log_TraceId ` set xs"
  using stamp_logs_fields(2) [of c xs] by (metis image_eqI list.set_map)

lemma OrderByDescending_single [simp]: "OrderByDescending f [x] = [x]"
  by (simp add: OrderByDescending_def)

text \<open>
  Claim C2 says that no query returns an entry that capacity eviction removed. The trim
  loop only dequeues from the primary queue and \<^verbatim>\<open>QueryLogs\<close> returns the index queue
  as it is. After one log of service \<open>a\<close> with trace id \<open>0af7\<close> and 100000 logs of
  service \<open>b\<close>, the first entry is no longer in the primary collection, and both the query
  by service name and the query by trace id return it.
\<close>

theorem QueryLogs_returns_evicted:
  "(sample_log ''a'' ''0af7'' 1)\<lparr>log_Id := 1\<rparr> \<notin> set (logs (run_ops new_store evicting_ops))
   \<and> QueryLogs (run_ops new_store evicting_ops) (Some ''a'') None None None None 100 =
       [(sample_log ''a'' ''0af7'' 1)\<lparr>log_Id := 1\<rparr>]
   \<and> QueryLogs (run_ops new_store evicting_ops) None None None None (Some ''0af7'') 100 =
       [(sample_log ''a'' ''0af7'' 1)\<lparr>log_Id := 1\<rparr>]"
proof -
  let ?a = "sample_log ''a'' ''0af7'' 1" and ?b = "sample_log ''b'' [] 2"
  let ?s = "run_ops new_store evicting_ops"
  let ?rest = "stamp_logs 1 (replicate 100000 ?b)"
  have added: "added_logs evicting_ops = ?a # replicate 100000 ?b"
    by (simp add: evicting_ops_def)
  have restS: "log_ServiceName e = ''b''" and restT: "log_TraceId e = []" if "e \<in> set ?rest" for e
    using stamp_logs_ServiceName [OF that] stamp_logs_TraceId [OF that]
    by (auto simp: sample_log_def)
  have logs: "logs ?s = ?rest"
    by (simp add: logs_reachable added maxLogs_def)
  have 1: "?a\<lparr>log_Id := 1\<rparr> \<notin> set (logs ?s)"
  proof
    assume "?a\<lparr>log_Id := 1\<rparr> \<in> set (logs ?s)"
    then have "log_ServiceName (?a\<lparr>log_Id := 1\<rparr>) = ''b''"
      unfolding logs by (rule restS)
    then show False by (simp add: sample_log_def)
  qed
  have fS: "filter (\<lambda>e. log_ServiceName e = ''a'') ?rest = []"
    using restS by (auto simp: filter_empty_conv)
  have fT: "filter (\<lambda>e. log_TraceId e \<noteq> []) ?rest = []"
    using restT by (auto simp: filter_empty_conv)
  have iS: "logsByService ?s ''a'' = Some [?a\<lparr>log_Id := 1\<rparr>]"
    by (simp add: logsByService_reachable added index_of_def fS) (simp add: sample_log_def)
  have iT: "logsByTraceId ?s ''0af7'' = Some [?a\<lparr>log_Id := 1\<rparr>]"
    by (simp add: logsByTraceId_reachable added index_of_def fT) (simp add: sample_log_def)
  have 2: "QueryLogs ?s (Some ''a'') None None None None 100 = [?a\<lparr>log_Id := 1\<rparr>]"
    by (simp add: QueryLogs_def index_lookup_def where_opt_def iS Take_def)
  have 3: "QueryLogs ?s None None None None (Some ''0af7'') 100 = [?a\<lparr>log_Id := 1\<rparr>]"
    by (simp add: QueryLogs_def index_lookup_def where_opt_def iT Take_def)
  from 1 2 3 show ?thesis by simp
qed


lemma stamp_metrics_Name: "map metric_Name (stamp_metrics c xs) = map metric_Name xs"
  by (induction xs arbitrary: c) auto

lemma OrderByDescending_sorted:
  "sorted_wrt (\<lambda>a b. f a \<ge> f b) (OrderByDescending f xs)"
proof -
  have "sorted (map (\<lambda>x. - f x) (sort_key (\<lambda>x. - f x) xs))" by (rule sorted_sort_key)
  then show ?thesis by (simp add: OrderByDescending_def sorted_map)
qed

lemma set_OrderByDescending [simp]: "set (OrderByDescending f xs) = set xs"
  by (simp add: OrderByDescending_def)

lemma set_where_opt: "set (where_opt f p xs) \<subseteq> set xs"
  by (cases f) (auto simp: where_opt_def)

lemma Take_props:
  "set (Take n xs) \<subseteq> set xs" "int (length (Take n xs)) \<le> max 0 n"
  "sorted_wrt R xs \<Longrightarrow> sorted_wrt R (Take n xs)"
  by (auto simp: Take_def dest: in_set_takeD intro: sorted_wrt_take)

text \<open>
  Claim C9 says that \<^verbatim>\<open>QueryMetrics\<close> with the name filter set to a name of the store
  uses the metric-name index and returns only samples of that name. The test in front of
  the index lookup is \<^verbatim>\<open>!string.IsNullOrEmpty(name)\<close>: in a store with one sample under
  the empty name and one under \<open>cpu\<close>, the index has a queue for the empty name, and
  \<^verbatim>\<open>QueryMetrics(name: "")\<close> scans the full collection and returns both samples.
\<close>

theorem QueryMetrics_empty_name_counterexample:
  "metrics (run_ops new_store empty_name_ops) =
     [(sample_metric [] 1)\<lparr>metric_Id := 1\<rparr>, (sample_metric ''cpu'' 2)\<lparr>metric_Id := 2\<rparr>]
   \<and> metricsByName (run_ops new_store empty_name_ops) [] =
       Some [(sample_metric [] 1)\<lparr>metric_Id := 1\<rparr>]
   \<and> QueryMetrics (run_ops new_store empty_name_ops) (Some []) None None None 100 =
       [(sample_metric ''cpu'' 2)\<lparr>metric_Id := 2\<rparr>, (sample_metric [] 1)\<lparr>metric_Id := 1\<rparr>]
   \<and> metric_Name ((sample_metric ''cpu'' 2)\<lparr>metric_Id := 2\<rparr>) = ''cpu''"
proof -
  let ?s = "run_ops new_store empty_name_ops"
  have ms: "metrics ?s =
     [(sample_metric [] 1)\<lparr>metric_Id := 1\<rparr>, (sample_metric ''cpu'' 2)\<lparr>metric_Id := 2\<rparr>]"
    by (simp add: metrics_reachable empty_name_ops_def maxMetrics_def)
  have idx: "metricsByName ?s [] = Some [(sample_metric [] 1)\<lparr>metric_Id := 1\<rparr>]"
    by (simp add: metricsByName_reachable empty_name_ops_def index_of_def sample_metric_def)
  have q: "QueryMetrics ?s (Some []) None None None 100 =
       [(sample_metric ''cpu'' 2)\<lparr>metric_Id := 2\<rparr>, (sample_metric [] 1)\<lparr>metric_Id := 1\<rparr>]"
    by (simp add: QueryMetrics_def index_lookup_def ms where_opt_def Take_def
        OrderByDescending_def sample_metric_def)
  from ms idx q show ?thesis by (simp add: sample_metric_def)
qed

text \<open>
  Claim C9, amended. In a store reached by any sequence of calls, for a name that is not
  the empty string and under which the store holds a sample, \<^verbatim>\<open>QueryMetrics\<close> with that
  name is computed from the queue of the metric-name index (the primary collection and the
  service name play no part), returns only samples of that name, newest first, and no more
  than the limit. With the empty string as name the query is the query without a name
  filter.
\<close>

theorem QueryMetrics_by_name:
  fixes ops :: "StoreOp list"
  defines "s \<equiv> run_ops new_store ops"
  assumes name: "name \<noteq> []" and m: "m \<in> set (metrics s)" "metric_Name m = name"
  shows "\<exists>nameQueue. metricsByName s name = Some nameQueue
     \<and> QueryMetrics s (Some name) serviceName startTime endTime limit =
         Take limit (OrderByDescending metric_Timestamp
           (where_opt endTime (\<lambda>v m. metric_Timestamp m \<le> v)
             (where_opt startTime (\<lambda>v m. metric_Timestamp m \<ge> v) nameQueue)))
     \<and> (\<forall>r \<in> set (QueryMetrics s (Some name) serviceName startTime endTime limit).
           metric_Name r = name)
     \<and> sorted_wrt (\<lambda>a b. metric_Timestamp a \<ge> metric_Timestamp b)
           (QueryMetrics s (Some name) serviceName startTime endTime limit)
     \<and> int (length (QueryMetrics s (Some name) serviceName startTime endTime limit)) \<le> max 0 limit
     \<and> QueryMetrics s (Some []) serviceName startTime endTime limit =
         QueryMetrics s None serviceName startTime endTime limit"
proof -
  let ?all = "stamp_metrics 0 (added_metrics ops)"
  let ?q = "filter (\<lambda>e. metric_Name e = name) ?all"
  let ?r = "QueryMetrics s (Some name) serviceName startTime endTime limit"
  have "m \<in> set ?all"
    using m(1) unfolding s_def metrics_reachable by (rule in_set_dropD)
  with m(2) have ne: "?q \<noteq> []" by (auto simp: filter_empty_conv)
  then have idx: "metricsByName s name = Some ?q"
    unfolding s_def by (simp add: metricsByName_reachable index_of_def)
  have r: "?r = Take limit (OrderByDescending metric_Timestamp
           (where_opt endTime (\<lambda>v m. metric_Timestamp m \<le> v)
             (where_opt startTime (\<lambda>v m. metric_Timestamp m \<ge> v) ?q)))"
    using name idx by (simp add: QueryMetrics_def index_lookup_def)
  have "set ?r \<subseteq> set ?q"
    unfolding r using Take_props(1) set_where_opt set_OrderByDescending
    by (metis (no_types, lifting) subset_trans)
  then have names: "\<forall>r \<in> set ?r. metric_Name r = name" by auto
  have sorted: "sorted_wrt (\<lambda>a b. metric_Timestamp a \<ge> metric_Timestamp b) ?r"
    unfolding r by (intro Take_props(3) OrderByDescending_sorted)
  have len: "int (length ?r) \<le> max 0 limit"
    unfolding r by (rule Take_props(2))
  have empty: "QueryMetrics s (Some []) serviceName startTime endTime limit =
         QueryMetrics s None serviceName startTime endTime limit"
    by (simp add: QueryMetrics_def index_lookup_def)
  from idx r names sorted len empty show ?thesis by blast
qed

text \<open>The theorem on a store with samples named \<open>cpu\<close> and \<open>mem\<close>.\<close>

theorem QueryMetrics_by_name_witness:
  "QueryMetrics (run_ops new_store two_names_ops) (Some ''cpu'') None None None 100 =
     [(sample_metric ''cpu'' 3)\<lparr>metric_Id := 3\<rparr>, (sample_metric ''cpu'' 1)\<lparr>metric_Id := 1\<rparr>]
   \<and> sorted_wrt (\<lambda>a b. metric_Timestamp a \<ge> metric_Timestamp b)
        (QueryMetrics (run_ops new_store two_names_ops) (Some ''cpu'') None None None 100)"
proof -
  let ?s = "run_ops new_store two_names_ops"
  have ms: "metrics ?s = [(sample_metric ''cpu'' 1)\<lparr>metric_Id := 1\<rparr>,
      (sample_metric ''mem'' 5)\<lparr>metric_Id := 2\<rparr>, (sample_metric ''cpu'' 3)\<lparr>metric_Id := 3\<rparr>]"
    by (simp add: metrics_reachable two_names_ops_def maxMetrics_def)
  have idx: "metricsByName ?s ''cpu'' = Some [(sample_metric ''cpu'' 1)\<lparr>metric_Id := 1\<rparr>,
      (sample_metric ''cpu'' 3)\<lparr>metric_Id := 3\<rparr>]"
    by (simp add: metricsByName_reachable two_names_ops_def index_of_def sample_metric_def)
  have q: "QueryMetrics ?s (Some ''cpu'') None None None 100 =
     [(sample_metric ''cpu'' 3)\<lparr>metric_Id := 3\<rparr>, (sample_metric ''cpu'' 1)\<lparr>metric_Id := 1\<rparr>]"
    by (simp add: QueryMetrics_def index_lookup_def idx where_opt_def Take_def
        OrderByDescending_def sample_metric_def)
  have h1: "''cpu'' \<noteq> []" by simp
  have h2: "(sample_metric ''cpu'' 1)\<lparr>metric_Id := 1\<rparr> \<in> set (metrics ?s)"
    unfolding ms by simp
  have h3: "metric_Name ((sample_metric ''cpu'' 1)\<lparr>metric_Id := 1\<rparr>) = ''cpu''"
    by (simp add: sample_metric_def)
  from QueryMetrics_by_name [OF h1 h2 h3, of None None None 100] q show ?thesis by blast
qed

section \<open>The outgoing queue of a connection\<close>

lemma TryWrite_length: "length q \<le> queueCapacity \<Longrightarrow> length (snd (TryWrite q m)) \<le> queueCapacity"
  by (cases q) (auto simp: TryWrite_def queueCapacity_def)

lemma queue_run_snoc: "queue_run (evs @ [e]) = queue_step (queue_run evs) e"
  by (simp add: queue_run_def)

lemma enqueued_append: "enqueued (xs @ ys) = enqueued xs @ enqueued ys"
  by (induction xs rule: enqueued.induct) auto

lemma subseq_tl_snoc: "subseq (d @ q) w \<Longrightarrow> subseq (d @ tl q @ [m]) (w @ [m])"
proof -
  assume a: "subseq (d @ q) w"
  have "subseq (tl q) q" by (cases q) auto
  then have "subseq (d @ tl q) (d @ q)" by (simp add: subseq_append')
  then have "subseq (d @ tl q) w" using a subseq_order.order_trans by blast
  then have "subseq ((d @ tl q) @ [m]) (w @ [m])"
    by (intro list_emb_append_mono) simp_all
  then show ?thesis by simp
qed

lemma queue_run_invariant:
  "length (fst (queue_run evs)) \<le> queueCapacity
   \<and> subseq (snd (queue_run evs) @ fst (queue_run evs)) (enqueued evs)"
proof (induction evs rule: rev_induct)
  case Nil
  show ?case by (simp add: queue_run_def)
next
  case (snoc e evs)
  obtain q d where qd: "queue_run evs = (q, d)" by (cases "queue_run evs")
  with snoc have len: "length q \<le> queueCapacity" and sub: "subseq (d @ q) (enqueued evs)"
    by simp_all
  show ?case
  proof (cases e)
    case (Enqueue m)
    have 1: "length (snd (TryWrite q m)) \<le> queueCapacity" using len by (rule TryWrite_length)
    have 2: "subseq (d @ snd (TryWrite q m)) (enqueued evs @ [m])"
    proof (cases "length q < queueCapacity")
      case True
      then have "snd (TryWrite q m) = q @ [m]" by (simp add: TryWrite_def)
      moreover have "subseq ((d @ q) @ [m]) (enqueued evs @ [m])"
        using sub by (intro list_emb_append_mono) simp_all
      ultimately show ?thesis by simp
    next
      case False
      then have "snd (TryWrite q m) = tl q @ [m]" by (simp add: TryWrite_def)
      then show ?thesis using subseq_tl_snoc [OF sub] by simp
    qed
    from 1 2 show ?thesis by (simp add: queue_run_snoc qd Enqueue enqueued_append)
  next
    case Dequeue
    show ?thesis
    proof (cases q)
      case Nil
      then show ?thesis using len sub
        by (simp add: queue_run_snoc qd Dequeue enqueued_append TryRead_def)
    next
      case (Cons m r)
      then show ?thesis using len sub
        by (simp add: queue_run_snoc qd Dequeue enqueued_append TryRead_def)
    qed
  qed
qed


lemma queue_run_no_loss:
  "length (enqueued evs) \<le> queueCapacity \<Longrightarrow>
   snd (queue_run evs) @ fst (queue_run evs) = enqueued evs"
proof (induction evs rule: rev_induct)
  case Nil
  show ?case by (simp add: queue_run_def)
next
  case (snoc e evs)
  obtain q d where qd: "queue_run evs = (q, d)" by (cases "queue_run evs")
  from snoc.prems have "length (enqueued evs) \<le> queueCapacity"
    by (simp add: enqueued_append)
  with snoc.IH qd have eq: "d @ q = enqueued evs" by simp
  show ?case
  proof (cases e)
    case (Enqueue m)
    from snoc.prems have "length (enqueued evs) < queueCapacity"
      by (simp add: enqueued_append Enqueue)
    with eq have "length q < queueCapacity"
      by (metis length_append trans_less_add2 add.commute not_less le_add1 le_trans)
    then have "snd (TryWrite q m) = q @ [m]" by (simp add: TryWrite_def)
    then show ?thesis using eq
      by (simp add: queue_run_snoc qd Enqueue enqueued_append)
  next
    case Dequeue
    show ?thesis using eq
      by (cases q) (simp_all add: queue_run_snoc qd Dequeue enqueued_append TryRead_def)
  qed
qed

text \<open>
  Claim C5. A write to a connection's queue always succeeds at once (\<^verbatim>\<open>TryWrite\<close>
  returns \<^verbatim>\<open>true\<close>, it never waits). Under the capacity of 1000 it appends the
  message and nothing is lost; on a full queue the oldest message is dropped and the new one
  is the last of the queue. In every interleaving of writes and reads the queue holds at
  most 1000 messages, the messages delivered and still queued are a subsequence of the
  messages written, in their order, and all of them when no more than 1000 were written.
  \<^verbatim>\<open>BroadcastAsync\<close> does such a write on the queue of every open connection that is
  subscribed to the channel, and changes no other connection.
\<close>

theorem bounded_queue_drop_oldest:
  "fst (TryWrite q m) = True
   \<and> snd (TryWrite q m) = (if length q < 1000 then q else tl q) @ [m]
   \<and> length (fst (queue_run evs)) \<le> 1000
   \<and> subseq (snd (queue_run evs) @ fst (queue_run evs)) (enqueued evs)
   \<and> (length (enqueued evs) \<le> 1000 \<longrightarrow>
        snd (queue_run evs) @ fst (queue_run evs) = enqueued evs)
   \<and> BroadcastAsync connections channel payload timestamp connectionId =
       map_option
         (\<lambda>st. if channel \<in> conn_Subscriptions st \<and> conn_SocketOpen st
               then st\<lparr>conn_MessageQueue :=
                      (if length (conn_MessageQueue st) < 1000 then conn_MessageQueue st
                       else tl (conn_MessageQueue st))
                      @ [\<lparr> msg_Type = ''data'', msg_Channel = channel, msg_Payload = payload,
                            msg_Timestamp = timestamp \<rparr>]\<rparr>
               else st)
         (connections connectionId)"
proof -
  have 1: "fst (TryWrite q m) = True" by (simp add: TryWrite_def)
  have 2: "snd (TryWrite q m) = (if length q < 1000 then q else tl q) @ [m]"
    by (simp add: TryWrite_def queueCapacity_def)
  have 3: "length (fst (queue_run evs)) \<le> 1000"
    and 4: "subseq (snd (queue_run evs) @ fst (queue_run evs)) (enqueued evs)"
    using queue_run_invariant [of evs] by (simp_all add: queueCapacity_def)
  have 5: "length (enqueued evs) \<le> 1000 \<longrightarrow>
        snd (queue_run evs) @ fst (queue_run evs) = enqueued evs"
    using queue_run_no_loss [of evs] by (simp add: queueCapacity_def)
  have 6: "BroadcastAsync connections channel payload timestamp connectionId =
       map_option
         (\<lambda>st. if channel \<in> conn_Subscriptions st \<and> conn_SocketOpen st
               then st\<lparr>conn_MessageQueue :=
                      (if length (conn_MessageQueue st) < 1000 then conn_MessageQueue st
                       else tl (conn_MessageQueue st))
                      @ [\<lparr> msg_Type = ''data'', msg_Channel = channel, msg_Payload = payload,
                            msg_Timestamp = timestamp \<rparr>]\<rparr>
               else st)
         (connections connectionId)"
    by (cases "connections connectionId") (simp_all add: BroadcastAsync_def Let_def TryWrite_def queueCapacity_def)
  from 1 2 3 4 5 6 show ?thesis by blast
qed

text \<open>The theorem on a full queue, and on a run of three writes and a read.\<close>

theorem bounded_queue_drop_oldest_witness:
  "snd (TryWrite (replicate 1000 (0::nat)) 7) = tl (replicate 1000 0) @ [7]
   \<and> snd (queue_run [Enqueue (1::nat), Enqueue 2, Dequeue, Enqueue 3])
       @ fst (queue_run [Enqueue (1::nat), Enqueue 2, Dequeue, Enqueue 3]) = [1, 2, 3]"
proof -
  note t = bounded_queue_drop_oldest [of "replicate 1000 (0::nat)" 7
        "[Enqueue (1::nat), Enqueue 2, Dequeue, Enqueue 3]" Map.empty "[]" "0::nat" "[]" "[]"]
  from t have a: "snd (TryWrite (replicate 1000 (0::nat)) 7) =
      (if length (replicate 1000 (0::nat)) < 1000 then replicate 1000 0 else tl (replicate 1000 0)) @ [7]"
    by blast
  from t have b: "length (enqueued [Enqueue (1::nat), Enqueue 2, Dequeue, Enqueue 3]) \<le> 1000 \<longrightarrow>
      snd (queue_run [Enqueue (1::nat), Enqueue 2, Dequeue, Enqueue 3])
       @ fst (queue_run [Enqueue (1::nat), Enqueue 2, Dequeue, Enqueue 3])
      = enqueued [Enqueue (1::nat), Enqueue 2, Dequeue, Enqueue 3]"
    by blast
  have a': "snd (TryWrite (replicate 1000 (0::nat)) 7) = tl (replicate 1000 0) @ [7]"
    using a by (simp del: tl_replicate)
  from b have b': "snd (queue_run [Enqueue (1::nat), Enqueue 2, Dequeue, Enqueue 3])
       @ fst (queue_run [Enqueue (1::nat), Enqueue 2, Dequeue, Enqueue 3]) = [1, 2, 3]"
    by simp
  from a' b' show ?thesis by (rule conjI)
qed

section \<open>Exceptions, parsing and evaluation lemmas\<close>

lemma bind_Inr_iff [simp]: "bind m f = Inr y \<longleftrightarrow> (\<exists>x. m = Inr x \<and> f x = Inr y)"
  by (cases m) (simp_all add: bind_def)

lemma bind_Inr [simp]: "bind (Inr x) f = f x"
  by (simp add: bind_def)

lemma bind_Inl [simp]: "bind (Inl e) f = Inl e"
  by (simp add: bind_def)

lemma catch_null_Some [simp]: "catch_null m = Some x \<longleftrightarrow> m = Inr x"
  by (cases m) (simp_all add: catch_null_def)

lemma catch_null_None [simp]: "catch_null m = None \<longleftrightarrow> (\<exists>e. m = Inl e)"
  by (cases m) (simp_all add: catch_null_def)

section \<open>Severity mapping\<close>

lemma MapSeverity_buckets:
  "MapSeverity sev =
     (if sint sev \<le> 0 then Info else if sint sev \<le> 8 then Debug else if sint sev \<le> 12 then Info
      else if sint sev \<le> 16 then Warn else if sint sev \<le> 20 then Error else Fatal)"
  by (simp add: MapSeverity_def Let_def)

lemma MapSeverityNumber_eq: "MapSeverityNumber sev = MapSeverity sev"
  by (simp add: MapSeverityNumber_def MapSeverity_def Let_def)

lemma ConvertLogRecord_fields:
  assumes "ConvertLogRecord fw now r svc ver env sn sv = Inr e"
  shows "log_Level e = MapSeverity (lr_SeverityNumber r)" "log_ServiceName e = svc"
    "log_TraceId e = BytesToHex (Some (lr_TraceId r))" "log_SpanId e = BytesToHex (Some (lr_SpanId r))"
    "log_Id e = 0"
  using assms by (auto simp: ConvertLogRecord_def Let_def)

lemma ParseLogEntry_fields:
  assumes "ParseLogEntry fw now j svc ver env = Some e"
  shows "\<exists>w. log_severityNumber j = Inr w \<and> log_Level e = MapSeverityNumber w"
    "log_ServiceName e = svc"
    "GetStringProperty j ''traceId'' [] [] = Inr (log_TraceId e)"
    "GetStringProperty j ''spanId'' [] [] = Inr (log_SpanId e)"
    "log_Id e = 0"
  using assms by (auto simp: ParseLogEntry_def ParseLogEntry_try_def)


lemma of_char_digit_char: "d < 10 \<Longrightarrow> (of_char (digit_char d) :: nat) = 48 + d"
  by (simp add: digit_char_def)

lemma IsDigit_digit_char: "d < 10 \<Longrightarrow> IsDigit (digit_char d)"
  by (simp add: IsDigit_def of_char_digit_char)

lemma IsDigit_not_other:
  "IsDigit c \<Longrightarrow> \<not> IsWhite c \<and> c \<noteq> CHR ''-'' \<and> c \<noteq> CHR ''+''"
  by (auto simp: IsDigit_def IsWhite_def)

lemma digits_IsDigit: "list_all IsDigit (digits n)"
proof (induction n rule: digits.induct)
  case (1 n)
  show ?case
  proof (cases "n < 10")
    case True
    then show ?thesis by (simp add: digits.simps [of n] IsDigit_digit_char)
  next
    case False
    then show ?thesis using "1.IH" by (simp add: digits.simps [of n] IsDigit_digit_char)
  qed
qed

lemma digits_not_Nil: "digits n \<noteq> []"
  by (simp add: digits.simps [of n])

lemma digits_value_snoc:
  "digits_value (ds @ [c]) = 10 * digits_value ds + ((of_char c :: int) - 48)"
  by (simp add: digits_value_def)

lemma of_char_int_digit_char: "d < 10 \<Longrightarrow> (of_char (digit_char d) :: int) = 48 + int d"
proof -
  assume d: "d < 10"
  have "(of_char (digit_char d) :: int) = int (of_char (digit_char d))"
    by (simp add: of_char_def)
  then show ?thesis using d by (simp add: of_char_digit_char)
qed

lemma digits_value_digits: "digits_value (digits n) = int n"
proof (induction n rule: digits.induct)
  case (1 n)
  show ?case
  proof (cases "n < 10")
    case True
    then show ?thesis
      using digits_value_snoc [of "[]" "digit_char n"]
      by (simp add: digits.simps [of n] of_char_int_digit_char digits_value_def)
  next
    case False
    then have "digits_value (digits n) = 10 * int (n div 10) + int (n mod 10)"
      using "1.IH" by (simp add: digits.simps [of n] digits_value_snoc of_char_int_digit_char)
    then show ?thesis by (simp add: zdiv_int zmod_int)
  qed
qed

lemma parse_integer_digits: "parse_integer (digits n) = Some (int n)"
proof -
  let ?ds = "digits n"
  obtain c cs where cs: "?ds = c # cs" using digits_not_Nil [of n] by (cases "?ds") auto
  with digits_IsDigit [of n] have c: "IsDigit c" by simp
  have all: "\<forall>x \<in> set ?ds. IsDigit x" using digits_IsDigit [of n] by (simp add: list_all_iff)
  have tw: "takeWhile IsDigit ?ds = ?ds" "dropWhile IsDigit ?ds = []"
    using all by simp_all
  have w: "dropWhile IsWhite ?ds = ?ds" "hd ?ds \<noteq> CHR ''-''" "hd ?ds \<noteq> CHR ''+''" "?ds \<noteq> []"
    using IsDigit_not_other [OF c] by (simp_all add: cs)
  show ?thesis
    by (simp add: parse_integer_def Let_def w tw digits_value_digits)
qed

lemma Int_ToString_nonneg: "0 \<le> i \<Longrightarrow> Int_ToString i = digits (nat i)"
  by (simp add: Int_ToString_def)

lemma TryParse_digits:
  "int n < 2 ^ 64 \<Longrightarrow> UInt64_TryParse (Some (digits n)) = Some (word_of_int (int n))"
  "int n < 2 ^ 31 \<Longrightarrow> Int32_TryParse (Some (digits n)) = Some (word_of_int (int n))"
  by (simp_all add: UInt64_TryParse_def Int32_TryParse_def parse_integer_digits)

lemma length_filter_stamp_logs:
  "length (filter (\<lambda>x. log_ServiceName x = k) (stamp_logs c xs)) =
   length (filter (\<lambda>x. log_ServiceName x = k) xs)"
  by (induction xs arbitrary: c) auto

lemma AddLog_reachable:
  "snd (AddLog (run_ops new_store ops) e) = run_ops new_store (ops @ [OpAddLog e])"
  by (simp add: run_ops_snoc)

lemma Take_all: "int (length xs) \<le> n \<Longrightarrow> Take n xs = xs"
  by (simp add: Take_def)

lemma length_OrderByDescending [simp]: "length (OrderByDescending f xs) = length xs"
  by (simp add: OrderByDescending_def)

lemma QueryLogs_returns_added:
  fixes ops :: "StoreOp list"
  defines "s \<equiv> run_ops new_store ops"
  assumes svc: "log_ServiceName e = svc" "svc \<noteq> []"
    and limit: "int (length (filter (\<lambda>x. log_ServiceName x = svc) (added_logs ops))) < limit"
  shows "e\<lparr>log_Id := logIdCounter s + 1\<rparr>
           \<in> set (QueryLogs (snd (AddLog s e)) (Some svc) None None None None limit)"
proof -
  let ?e = "e\<lparr>log_Id := logIdCounter s + 1\<rparr>"
  let ?all = "stamp_logs 0 (added_logs ops) @ [?e]"
  let ?q = "filter (\<lambda>x. log_ServiceName x = svc) ?all"
  have all: "stamp_logs 0 (added_logs (ops @ [OpAddLog e])) = ?all"
    by (simp add: added_logs_append stamp_logs_append s_def logIdCounter_reachable)
  have mem: "?e \<in> set ?q" using svc(1) by simp
  then have "?q \<noteq> []" by (metis empty_iff empty_set)
  then have idx: "logsByService (snd (AddLog s e)) svc = Some ?q"
    unfolding s_def AddLog_reachable logsByService_reachable all by (simp add: index_of_def)
  have len: "int (length ?q) \<le> limit"
    using limit svc(1) by (simp add: length_filter_stamp_logs)
  have "QueryLogs (snd (AddLog s e)) (Some svc) None None None None limit =
      OrderByDescending log_Timestamp ?q"
    using svc(2) idx len
    by (simp add: QueryLogs_def index_lookup_def where_opt_def Take_all del: filter_append)
  then show ?thesis using mem by (simp del: filter_append)
qed


lemma sint_word_of_int_small: "- (2 ^ 31) \<le> n \<Longrightarrow> n < 2 ^ 31 \<Longrightarrow> sint (word_of_int n :: 32 word) = n"
  by (simp add: signed_of_int signed_take_bit_int_eq_self)

lemma log_severityNumber_number:
  assumes "TryGetProperty j ''severityNumber'' = Inr (Some (JNumber (JInt n)))"
    and "- (2 ^ 31) \<le> n" "n < 2 ^ 31"
  shows "log_severityNumber j = Inr (word_of_int n)"
  using assms by (simp add: log_severityNumber_def GetInt32_def)

lemma log_severityNumber_string:
  assumes "TryGetProperty j ''severityNumber'' = Inr (Some (JString (Int_ToString n)))"
    and "0 \<le> n" "n < 2 ^ 31"
  shows "log_severityNumber j = Inr (word_of_int n)"
  using assms TryParse_digits(2) [of "nat n"]
  by (simp add: log_severityNumber_def Int_ToString_nonneg)

text \<open>
  Claim C7. For a severity number \<open>n\<close> from 1 to 24, both adapters give the level of its
  range: 1 to 8 \<open>Debug\<close>, 9 to 12 \<open>Info\<close>, 13 to 16 \<open>Warn\<close>, 17 to 20 \<open>Error\<close>,
  21 to 24 \<open>Fatal\<close>; this holds for \<^verbatim>\<open>MapSeverity\<close> and \<^verbatim>\<open>MapSeverityNumber\<close>, for every
  entry that \<^verbatim>\<open>ConvertLogRecord\<close> returns, and for every entry that \<^verbatim>\<open>ParseLogEntry\<close>
  returns when the number is written as a JSON number or as its decimal string. An entry
  added to a store reached by any sequence of calls is returned by \<^verbatim>\<open>QueryLogs\<close>
  filtered by its (non-empty) service name, when the limit is above the number of earlier
  logs of that service.
\<close>

theorem severity_bucketing:
  fixes n :: int and ops :: "StoreOp list"
  assumes n: "1 \<le> n" "n \<le> 24"
  defines "level \<equiv> (if n \<le> 8 then Debug else if n \<le> 12 then Info else if n \<le> 16 then Warn
                     else if n \<le> 20 then Error else Fatal)"
  shows "(sint sev = n \<longrightarrow> MapSeverity sev = level \<and> MapSeverityNumber sev = level)
    \<and> (ConvertLogRecord fw now r svc ver env sn sv = Inr e \<and> sint (lr_SeverityNumber r) = n
         \<longrightarrow> log_Level e = level \<and> log_ServiceName e = svc)
    \<and> (ParseLogEntry fw now j svc ver env = Some e'
         \<and> (TryGetProperty j ''severityNumber'' = Inr (Some (JNumber (JInt n)))
             \<or> TryGetProperty j ''severityNumber'' = Inr (Some (JString (Int_ToString n))))
         \<longrightarrow> log_Level e' = level \<and> log_ServiceName e' = svc)
    \<and> (log_ServiceName x = svc \<and> svc \<noteq> []
         \<and> int (length (filter (\<lambda>y. log_ServiceName y = svc) (added_logs ops))) < limit
         \<longrightarrow> x\<lparr>log_Id := logIdCounter (run_ops new_store ops) + 1\<rparr>
               \<in> set (QueryLogs (snd (AddLog (run_ops new_store ops) x))
                       (Some svc) None None None None limit))"
proof -
  have map: "MapSeverity s' = level" if "sint s' = n" for s'
    using that n by (simp add: MapSeverity_buckets level_def)
  have 1: "sint sev = n \<longrightarrow> MapSeverity sev = level \<and> MapSeverityNumber sev = level"
    using map by (simp add: MapSeverityNumber_eq)
  have 2: "ConvertLogRecord fw now r svc ver env sn sv = Inr e \<and> sint (lr_SeverityNumber r) = n
         \<longrightarrow> log_Level e = level \<and> log_ServiceName e = svc"
    using map ConvertLogRecord_fields(1,2) by metis
  have 3: "log_Level e' = level \<and> log_ServiceName e' = svc"
    if p: "ParseLogEntry fw now j svc ver env = Some e'"
      and s: "TryGetProperty j ''severityNumber'' = Inr (Some (JNumber (JInt n)))
             \<or> TryGetProperty j ''severityNumber'' = Inr (Some (JString (Int_ToString n)))"
  proof -
    have "log_severityNumber j = Inr (word_of_int n)"
      using s n log_severityNumber_number [of j n] log_severityNumber_string [of j n] by auto
    moreover obtain w where "log_severityNumber j = Inr w" "log_Level e' = MapSeverityNumber w"
      using ParseLogEntry_fields(1) [OF p] by blast
    ultimately have "log_Level e' = MapSeverity (word_of_int n)"
      by (simp add: MapSeverityNumber_eq)
    moreover have "sint (word_of_int n :: 32 word) = n"
      using n by (intro sint_word_of_int_small) simp_all
    ultimately show ?thesis using map ParseLogEntry_fields(2) [OF p] by simp
  qed
  have 4: "log_ServiceName x = svc \<and> svc \<noteq> []
         \<and> int (length (filter (\<lambda>y. log_ServiceName y = svc) (added_logs ops))) < limit
         \<longrightarrow> x\<lparr>log_Id := logIdCounter (run_ops new_store ops) + 1\<rparr>
               \<in> set (QueryLogs (snd (AddLog (run_ops new_store ops) x))
                       (Some svc) None None None None limit)"
    using QueryLogs_returns_added by blast
  from 1 2 3 4 show ?thesis by blast
qed

lemmas eval_grpc = OtlpLogsGrpcService_Export_def GetServiceName_def GetResourceAttribute_def
  GetAnyValueAsString_def or_default_def ConvertLogRecord_def ToAttributesDict_def ToDictionary_def
  NanosToDateTime_def FromUnixTimeMilliseconds_def GetLogMessage_def BytesToHex_def Let_def

lemma checkout_grpc_store:
  "OtlpLogsGrpcService_Export fw0 5 new_store checkout_request =
     (None, snd (AddLog new_store
       \<lparr> log_Id = 0, log_TraceId = [], log_SpanId = [], log_Timestamp = 17000000000000000,
         log_Level = MapSeverity 17, log_ServiceName = ''checkout'', log_Message = ''payment failed'',
         log_Attributes = [(''severity_text'', OString ''ERROR'')],
         log_Resource = Some \<lparr> res_ServiceName = ''checkout'', res_ServiceVersion = None,
           res_DeploymentEnvironment = None \<rparr> \<rparr>))"
  by (simp add: eval_grpc checkout_request_def sev17_record_def)


lemmas eval_json = TryGetProperty_def EnumerateArray_def GetPropertyOrDefault_def GetString_def
  GetStringProperty_def GetInt32_def GetInt64_def GetUInt64_def GetDouble_def GetBoolean_def
  is_String_def is_Number_def or_default_def catch_null_def
  UInt64_TryParse_def Int32_TryParse_def Int64_TryParse_def parse_integer_def
  IsWhite_def IsDigit_def digits_value_def FromUnixTimeMilliseconds_def Let_def

lemmas eval_json_logs = PostLogs_def AddLogsJsonAsync_def resourceLog_header_def
  GetAttributeValue_def ParseLogEntry_def ParseLogEntry_try_def log_timestamp_nanos_def
  log_severityNumber_def GetBodyMessage_def GetAttributesAsObjects_def

lemma checkout_json_store:
  "PostLogs fw0 5 new_store checkout_body =
     (None, snd (AddLog new_store
       \<lparr> log_Id = 0, log_TraceId = [], log_SpanId = [], log_Timestamp = 17000000000000000,
         log_Level = MapSeverityNumber 17, log_ServiceName = ''checkout'',
         log_Message = ''payment failed'', log_Attributes = [],
         log_Resource = Some \<lparr> res_ServiceName = ''checkout'', res_ServiceVersion = None,
           res_DeploymentEnvironment = None \<rparr> \<rparr>))"
  by (simp add: eval_json_logs eval_json checkout_body_def checkout_resource_def sev17_json_def)

lemmas eval_store = AddLog_def AddMetric_def TrimLogsIfNeeded_eq TrimMetricsIfNeeded_eq
  maxLogs_def maxMetrics_def GetOrAddQueue_Enqueue_def new_store_def QueryLogs_def
  QueryMetrics_def index_lookup_def where_opt_def Take_def OrderByDescending_def Let_def

text \<open>
  The scenario of the claim, through both ingestion paths: a batch with one log of severity
  number 17 and service name \<open>checkout\<close> on a new store, then the query by service name
  with the default limit.
\<close>

theorem severity_bucketing_witness:
  "map (\<lambda>e. (log_Level e, log_ServiceName e))
     (QueryLogs (snd (OtlpLogsGrpcService_Export fw0 5 new_store checkout_request))
        (Some ''checkout'') None None None None 100) = [(Error, ''checkout'')]
   \<and> map (\<lambda>e. (log_Level e, log_ServiceName e))
       (QueryLogs (snd (PostLogs fw0 5 new_store checkout_body))
          (Some ''checkout'') None None None None 100) = [(Error, ''checkout'')]"
proof -
  have "(1::int) \<le> 17" "(17::int) \<le> 24" "sint (17 :: 32 word) = 17" by simp_all
  from severity_bucketing [OF this(1,2), of 17] this(3)
  have lv: "MapSeverity 17 = Error" "MapSeverityNumber 17 = Error" by simp_all
  show ?thesis
    unfolding checkout_grpc_store checkout_json_store lv
    by (simp add: eval_store)
qed


lemma log_severityNumber_absent:
  "TryGetProperty j ''severityNumber'' = Inr None \<Longrightarrow> log_severityNumber j = Inr 0"
  by (simp add: log_severityNumber_def)

section \<open>Expansion of a Summary data point\<close>

lemma map_of_update [simp]: "map_of (AList.update k v al) = (map_of al)(k \<mapsto> v)"
  by (rule update_conv')

lemmas eval_grpc_attrs = ToStringAttributesDict_def ToAttributesDict_def ToDictionary_def
  GetAnyValueAsString_def GetAnyValueAsObject_def or_default_def

text \<open>
  Claim C8 says that a quantile sample carries the attribute \<open>aggregate\<close> with the value
  \<open>quantile:<q>\<close>. \<^verbatim>\<open>ConvertSummaryDataPoints\<close> writes \<open>aggregate = quantile\<close> and the
  quantile under a key of its own, \<open>quantile\<close>. And a data point whose attribute list has
  a key twice yields no sample: \<^verbatim>\<open>ToDictionary\<close> throws, which also ends the
  conversion of the data points that follow it in the metric.
\<close>

theorem summary_aggregate_counterexample:
  "map (\<lambda>(v, t, attrs). map_of attrs ''aggregate'') (fst (ConvertSummaryDataPoints fw0 5 [summary_dp]))
     = [Some ''count'', Some ''sum'', Some ''quantile'']
   \<and> map (\<lambda>(v, t, attrs). map_of attrs ''quantile'') (fst (ConvertSummaryDataPoints fw0 5 [summary_dp]))
     = [None, None, Some (Double_ToString_F2 fw0 0x3FE0000000000000)]
   \<and> Some ''quantile'' \<noteq> Some (''quantile:'' @ Double_ToString_F2 fw0 0x3FE0000000000000)
   \<and> ConvertSummaryDataPoints fw0 5 [duplicate_key_dp] = ([], Some ArgumentException)
   \<and> ConvertMetric fw0 5 (summary_metric\<lparr>m_Data := SummaryData [duplicate_key_dp, summary_dp]\<rparr>)
         ''svc'' [] [] = ([], Some ArgumentException)"
  by (simp add: ConvertMetric_def ConvertSummaryDataPoints_def summary_point_def summary_dp_def
      duplicate_key_dp_def summary_metric_def eval_grpc_attrs Let_def fw0_def)

lemma Dictionary_AddAll_values:
  "Dictionary_AddAll dict (map (\<lambda>a. (k a, Inr (f a))) xs) =
     (if distinct (map k xs) \<and> set (map k xs) \<inter> fst ` set dict = {}
      then Inr (dict @ map (\<lambda>a. (k a, f a)) xs) else Inl ArgumentException)"
proof (induction xs arbitrary: dict)
  case Nil
  show ?case by simp
next
  case (Cons a xs)
  show ?case by (auto simp: Cons.IH image_Un)
qed

lemma ToStringAttributesDict_distinct:
  "ToStringAttributesDict fw kvs =
     (if distinct (map fst kvs)
      then Inr (map (\<lambda>a. (fst a, or_default (GetAnyValueAsString fw (snd a)) [])) kvs)
      else Inl ArgumentException)"
  using Dictionary_AddAll_values [of "[]" fst "\<lambda>a. or_default (GetAnyValueAsString fw (snd a)) []" kvs]
  by (simp add: ToStringAttributesDict_def ToDictionary_def)

lemma iterate_all_Inr:
  "\<forall>dp \<in> set dps. f dp = Inr (g dp) \<Longrightarrow> iterate f dps = (concat (map g dps), None)"
  by (induction dps) simp_all

lemma concat_map_cong:
  "(\<And>x. x \<in> set xs \<Longrightarrow> f x = g x) \<Longrightarrow> concat (map f xs) = concat (map g xs)"
  by (induction xs) simp_all

text \<open>
  Claim C8, amended. A Summary metric all of whose data points have distinct attribute
  keys is converted without an exception, and every data point is expanded, in the order
  of the data points, into one sample for the count, one for the sum and one for each
  quantile value. Their \<open>aggregate\<close> attributes are \<open>count\<close>, \<open>sum\<close> and \<open>quantile\<close>; a
  quantile sample has the attribute \<open>quantile\<close> with the quantile formatted by
  \<^verbatim>\<open>ToString("F2")\<close>, the other two samples have what the data point has under that key.
  Under every key apart from these two and the two scope keys, every sample has what its
  data point has; every sample has the time of its data point, the metric's name, the
  service name and the type \<open>Gauge\<close>.
\<close>

theorem summary_expansion:
  fixes fw :: Framework
  defines "samples \<equiv> (\<lambda>fw now metric svc scopeName scopeVersion.
             fst (ConvertMetric fw now metric svc scopeName scopeVersion))"
    and "attribute \<equiv> (\<lambda>fw dp k.
             map_of (map (\<lambda>a. (fst a, or_default (GetAnyValueAsString fw (snd a)) []))
                       (sdp_Attributes dp)) k)"
  assumes data: "m_Data metric = SummaryData dps"
    and keys: "\<forall>dp \<in> set dps. distinct (map fst (sdp_Attributes dp))"
  shows "snd (ConvertMetric fw now metric svc scopeName scopeVersion) = None
     \<and> map metric_Value (samples fw now metric svc scopeName scopeVersion) =
         concat (map (\<lambda>dp. Int_ToDouble fw (uint (sdp_Count dp)) # sdp_Sum dp
                        # map QuantileValue (sdp_QuantileValues dp)) dps)
     \<and> map (\<lambda>x. map_of (metric_Attributes x) ''aggregate'')
           (samples fw now metric svc scopeName scopeVersion) =
         concat (map (\<lambda>dp. Some ''count'' # Some ''sum''
                        # map (\<lambda>q. Some ''quantile'') (sdp_QuantileValues dp)) dps)
     \<and> map (\<lambda>x. map_of (metric_Attributes x) ''quantile'')
           (samples fw now metric svc scopeName scopeVersion) =
         concat (map (\<lambda>dp. attribute fw dp ''quantile'' # attribute fw dp ''quantile''
                        # map (\<lambda>q. Some (Double_ToString_F2 fw (Quantile q)))
                            (sdp_QuantileValues dp)) dps)
     \<and> (\<forall>k. k \<notin> {''aggregate'', ''quantile'', ''otel.scope.name'', ''otel.scope.version''}
           \<longrightarrow> map (\<lambda>x. map_of (metric_Attributes x) k)
                 (samples fw now metric svc scopeName scopeVersion) =
               concat (map (\<lambda>dp. replicate (2 + length (sdp_QuantileValues dp))
                                   (attribute fw dp k)) dps))
     \<and> map metric_Timestamp (samples fw now metric svc scopeName scopeVersion) =
         concat (map (\<lambda>dp. replicate (2 + length (sdp_QuantileValues dp))
                             (if sdp_TimeUnixNano dp > 0
                              then NanosToDateTime now (sdp_TimeUnixNano dp) else now)) dps)
     \<and> (\<forall>x \<in> set (samples fw now metric svc scopeName scopeVersion).
           metric_Name x = m_Name metric \<and> metric_ServiceName x = svc \<and> metric_Type x = Gauge)"
proof -
  let ?h = "\<lambda>(v, timestamp, attributes0).
                 let attributes1 =
                       (if scopeName \<noteq> []
                        then AList.update ''otel.scope.name'' scopeName attributes0
                        else attributes0);
                     attributes2 =
                       (if scopeVersion \<noteq> []
                        then AList.update ''otel.scope.version'' scopeVersion attributes1
                        else attributes1)
                 in \<lparr> metric_Id = 0, metric_Name = m_Name metric,
                      metric_Description = Some (m_Description metric),
                      metric_Unit = Some (m_Unit metric), metric_Value = v,
                      metric_Type = Gauge, metric_Timestamp = timestamp,
                      metric_ServiceName = svc, metric_Attributes = attributes2 \<rparr>"
  define expansion where
    "expansion = (\<lambda>dp. case summary_point fw now dp of Inr xs \<Rightarrow> xs | Inl ex \<Rightarrow> [])"
  have ss: "summary_point fw now dp = Inr (expansion dp)"
    "expansion dp =
      (let timestamp = (if sdp_TimeUnixNano dp > 0 then NanosToDateTime now (sdp_TimeUnixNano dp)
                        else now);
           attributes0 = map (\<lambda>a. (fst a, or_default (GetAnyValueAsString fw (snd a)) []))
                           (sdp_Attributes dp);
           attributes1 = AList.update ''aggregate'' ''count'' attributes0;
           attributes2 = AList.update ''aggregate'' ''sum'' attributes1
       in [(Int_ToDouble fw (uint (sdp_Count dp)), timestamp, attributes1),
           (sdp_Sum dp, timestamp, attributes2)]
          @ map (\<lambda>q. (QuantileValue q, timestamp,
                       AList.update ''quantile'' (Double_ToString_F2 fw (Quantile q))
                         (AList.update ''aggregate'' ''quantile'' attributes2)))
              (sdp_QuantileValues dp))" if "dp \<in> set dps" for dp
    using keys that
    by (simp_all add: expansion_def summary_point_def Let_def ToStringAttributesDict_distinct)
  have it: "iterate (summary_point fw now) dps = (concat (map expansion dps), None)"
    by (intro iterate_all_Inr) (simp add: ss(1))
  have cm: "ConvertMetric fw now metric svc scopeName scopeVersion =
      (map ?h (concat (map expansion dps)), None)"
    by (simp add: ConvertMetric_def ConvertSummaryDataPoints_def it data GetMetricType_def)
  have proj: "map p (samples fw now metric svc scopeName scopeVersion) =
      concat (map (\<lambda>dp. map (\<lambda>x. p (?h x)) (expansion dp)) dps)" for p :: "MetricEntry \<Rightarrow> 'b"
    unfolding samples_def cm by (simp add: map_concat comp_def)
  have 1: "snd (ConvertMetric fw now metric svc scopeName scopeVersion) = None"
    by (simp add: cm)
  have 2: "map metric_Value (samples fw now metric svc scopeName scopeVersion) =
         concat (map (\<lambda>dp. Int_ToDouble fw (uint (sdp_Count dp)) # sdp_Sum dp
                        # map QuantileValue (sdp_QuantileValues dp)) dps)"
    unfolding proj by (rule concat_map_cong) (simp add: ss(2) Let_def comp_def)
  have 3: "map (\<lambda>x. map_of (metric_Attributes x) ''aggregate'')
           (samples fw now metric svc scopeName scopeVersion) =
         concat (map (\<lambda>dp. Some ''count'' # Some ''sum''
                        # map (\<lambda>q. Some ''quantile'') (sdp_QuantileValues dp)) dps)"
    unfolding proj by (rule concat_map_cong) (simp add: ss(2) Let_def comp_def)
  have 4: "map (\<lambda>x. map_of (metric_Attributes x) ''quantile'')
           (samples fw now metric svc scopeName scopeVersion) =
         concat (map (\<lambda>dp. attribute fw dp ''quantile'' # attribute fw dp ''quantile''
                        # map (\<lambda>q. Some (Double_ToString_F2 fw (Quantile q)))
                            (sdp_QuantileValues dp)) dps)"
    unfolding proj attribute_def by (rule concat_map_cong) (simp add: ss(2) Let_def comp_def)
  have 5: "map (\<lambda>x. map_of (metric_Attributes x) k)
                 (samples fw now metric svc scopeName scopeVersion) =
               concat (map (\<lambda>dp. replicate (2 + length (sdp_QuantileValues dp))
                                   (attribute fw dp k)) dps)"
    if "k \<notin> {''aggregate'', ''quantile'', ''otel.scope.name'', ''otel.scope.version''}" for k
    unfolding proj attribute_def using that
    by (intro concat_map_cong) (simp add: ss(2) Let_def comp_def map_replicate_const)
  have 6: "map metric_Timestamp (samples fw now metric svc scopeName scopeVersion) =
         concat (map (\<lambda>dp. replicate (2 + length (sdp_QuantileValues dp))
                             (if sdp_TimeUnixNano dp > 0
                              then NanosToDateTime now (sdp_TimeUnixNano dp) else now)) dps)"
    unfolding proj by (rule concat_map_cong) (simp add: ss(2) Let_def comp_def map_replicate_const)
  have 7: "\<forall>x \<in> set (samples fw now metric svc scopeName scopeVersion).
           metric_Name x = m_Name metric \<and> metric_ServiceName x = svc \<and> metric_Type x = Gauge"
    unfolding samples_def cm by (auto simp: Let_def)
  from 1 2 3 4 5 6 7 show ?thesis by blast
qed

text \<open>
  The theorem on a metric with two data points, the first with one quantile and the
  second with none.
\<close>

theorem summary_expansion_witness:
  "snd (ConvertMetric fw0 5 two_point_metric ''svc'' [] []) = None
   \<and> map (\<lambda>x. map_of (metric_Attributes x) ''aggregate'')
       (fst (ConvertMetric fw0 5 two_point_metric ''svc'' [] [])) =
     [Some ''count'', Some ''sum'', Some ''quantile'', Some ''count'', Some ''sum'']
   \<and> map (\<lambda>x. map_of (metric_Attributes x) ''quantile'')
       (fst (ConvertMetric fw0 5 two_point_metric ''svc'' [] [])) =
     [None, None, Some ''0.50'', None, None]
   \<and> map (\<lambda>x. map_of (metric_Attributes x) ''host'')
       (fst (ConvertMetric fw0 5 two_point_metric ''svc'' [] [])) =
     [Some ''h1'', Some ''h1'', Some ''h1'', Some ''h2'', Some ''h2'']"
proof -
  let ?dps = "[summary_dp, summary_dp\<lparr>sdp_QuantileValues := [],
                 sdp_Attributes := [(''host'', Some (StringValue ''h2''))]\<rparr>]"
  have k: "\<forall>dp \<in> set ?dps. distinct (map fst (sdp_Attributes dp))"
    by (simp add: summary_dp_def)
  have d: "m_Data two_point_metric = SummaryData ?dps"
    by (simp add: two_point_metric_def summary_metric_def)
  have h: "''host'' \<notin> {''aggregate'', ''quantile'', ''otel.scope.name'', ''otel.scope.version''}"
    by simp
  note t = summary_expansion [OF d k, of fw0 5 "''svc''" "[]" "[]"]
  from t have 0: "snd (ConvertMetric fw0 5 two_point_metric ''svc'' [] []) = None"
    by (elim conjE)
  from t have "map (\<lambda>x. map_of (metric_Attributes x) ''aggregate'')
       (fst (ConvertMetric fw0 5 two_point_metric ''svc'' [] [])) =
      concat (map (\<lambda>dp. Some ''count'' # Some ''sum''
                     # map (\<lambda>q. Some ''quantile'') (sdp_QuantileValues dp)) ?dps)"
    by (elim conjE)
  then have 1: "map (\<lambda>x. map_of (metric_Attributes x) ''aggregate'')
       (fst (ConvertMetric fw0 5 two_point_metric ''svc'' [] [])) =
     [Some ''count'', Some ''sum'', Some ''quantile'', Some ''count'', Some ''sum'']"
    by (simp add: summary_dp_def)
  have 2: "map (\<lambda>x. map_of (metric_Attributes x) ''quantile'')
       (fst (ConvertMetric fw0 5 two_point_metric ''svc'' [] [])) =
     [None, None, Some ''0.50'', None, None]"
    "map (\<lambda>x. map_of (metric_Attributes x) ''host'')
       (fst (ConvertMetric fw0 5 two_point_metric ''svc'' [] [])) =
     [Some ''h1'', Some ''h1'', Some ''h1'', Some ''h2'', Some ''h2'']"
    by (simp_all add: ConvertMetric_def ConvertSummaryDataPoints_def summary_point_def Let_def
        two_point_metric_def summary_metric_def summary_dp_def eval_grpc_attrs fw0_def)
  from 0 1 2 show ?thesis by simp
qed

section \<open>Trace and span identifiers\<close>

lemma hex_digit_lower:
  assumes "n < 16"
  shows "is_lower_hex (ToLower_char (hex_digit_upper n))"
proof (cases "n < 10")
  case True
  then show ?thesis
    by (simp add: hex_digit_upper_def ToLower_char_def is_lower_hex_def)
next
  case False
  with assms show ?thesis
    by (simp add: hex_digit_upper_def ToLower_char_def is_lower_hex_def)
qed

lemma ToLower_char_lower_hex: "is_lower_hex c \<Longrightarrow> ToLower_char c = c"
  by (auto simp: is_lower_hex_def ToLower_char_def)

lemma ToHexString_lower: "list_all is_lower_hex (ToLowerInvariant (ToHexString bs))"
proof (induction bs)
  case Nil
  show ?case by (simp add: ToHexString_def ToLowerInvariant_def)
next
  case (Cons b bs)
  have "unat b < 2 ^ 8" using unsigned_less [of b, where 'a = nat] by simp
  then have "unat b div 16 < 16" by simp
  moreover have "unat b mod 16 < 16" by simp
  ultimately show ?case using Cons
    by (simp add: ToHexString_def ToLowerInvariant_def hex_digit_lower)
qed

lemma BytesToHex_canonical: "canonical_hex (BytesToHex bytes)"
proof -
  have a: "list_all is_lower_hex (BytesToHex bytes)"
    by (cases bytes) (simp_all add: BytesToHex_def ToHexString_lower)
  then have "ToLowerInvariant (BytesToHex bytes) = BytesToHex bytes"
    unfolding ToLowerInvariant_def
    by (intro map_idI) (simp add: list_all_iff ToLower_char_lower_hex)
  with a show ?thesis by (simp add: canonical_hex_def)
qed

lemma length_BytesToHex: "length (BytesToHex (Some bs)) = 2 * length bs"
proof -
  have "length (ToHexString xs) = 2 * length xs" for xs
    by (induction xs) (simp_all add: ToHexString_def)
  then show ?thesis by (simp add: BytesToHex_def ToLowerInvariant_def)
qed

lemma ConvertSpan_fields:
  assumes "ConvertSpan fw now sp svc sn sv = Inr t"
  shows "span_TraceId t = BytesToHex (Some (sp_TraceId sp))"
    "span_SpanId t = BytesToHex (Some (sp_SpanId sp))"
    "span_ParentSpanId t =
       (if sp_ParentSpanId sp = [] then None else Some (BytesToHex (Some (sp_ParentSpanId sp))))"
    "span_Links t = map convert_link (sp_Links sp)"
  using assms by (auto simp: ConvertSpan_def Let_def)

lemma GetStringProperty_JString:
  "TryGetProperty j name = Inr (Some (JString s)) \<Longrightarrow> GetStringProperty j name d d' = Inr s"
  by (simp add: GetStringProperty_def GetPropertyOrDefault_def GetString_def or_default_def)


lemma ParseTraceSpan_fields:
  "ParseTraceSpan fw now j svc = Some t \<Longrightarrow>
   GetStringProperty j ''traceId'' [] [] = Inr (span_TraceId t)
    \<and> GetStringProperty j ''spanId'' [] [] = Inr (span_SpanId t)
    \<and> (\<exists>p. GetStringProperty j ''parentSpanId'' [] [] = Inr p
         \<and> span_ParentSpanId t = (if p = [] then None else Some p))"
  unfolding ParseTraceSpan_def catch_null_Some ParseTraceSpan_try_def Let_def bind_Inr_iff
  by (elim exE conjE) (erule sum.inject [THEN iffD1, THEN subst], simp)

lemmas eval_json_spans = ParseTraceSpan_def ParseTraceSpan_try_def GetUInt64FromJsonElement_def
  GetAttributesDict_def nanos_or_def

text \<open>
  Claim C3 says that every stored identifier is canonical lower-case hexadecimal, on both
  ingestion paths. \<^verbatim>\<open>ParseTraceSpan\<close> and \<^verbatim>\<open>ParseLogEntry\<close> store the string of the
  JSON document as it is: a span and a log submitted with upper-case identifiers are kept
  with them, and these differ from their lower-case form.
\<close>

theorem json_ids_not_normalized_counterexample:
  "map_option span_TraceId (ParseTraceSpan fw0 5 upper_span_json ''svc'')
     = Some ''4BF92F3577B34DA6A3CE929D0E0E4736''
   \<and> map_option span_SpanId (ParseTraceSpan fw0 5 upper_span_json ''svc'') = Some ''00F067AA0BA902B7''
   \<and> map (\<lambda>e. (log_TraceId e, log_SpanId e)) (logs (snd (PostLogs fw0 5 new_store upper_log_body)))
     = [(''4BF92F3577B34DA6A3CE929D0E0E4736'', ''00F067AA0BA902B7'')]
   \<and> ToLowerInvariant ''4BF92F3577B34DA6A3CE929D0E0E4736'' = ''4bf92f3577b34da6a3ce929d0e0e4736''
   \<and> \<not> canonical_hex ''4BF92F3577B34DA6A3CE929D0E0E4736''
   \<and> \<not> canonical_hex ''00F067AA0BA902B7''"
proof -
  have 1: "map_option span_TraceId (ParseTraceSpan fw0 5 upper_span_json ''svc'')
      = Some ''4BF92F3577B34DA6A3CE929D0E0E4736''"
    "map_option span_SpanId (ParseTraceSpan fw0 5 upper_span_json ''svc'') = Some ''00F067AA0BA902B7''"
    by (simp_all add: eval_json_spans eval_json upper_span_json_def)
  have "PostLogs fw0 5 new_store upper_log_body =
     (None, snd (AddLog new_store
       \<lparr> log_Id = 0, log_TraceId = ''4BF92F3577B34DA6A3CE929D0E0E4736'',
         log_SpanId = ''00F067AA0BA902B7'', log_Timestamp = 5,
         log_Level = MapSeverityNumber 0, log_ServiceName = ''unknown'',
         log_Message = ''hello'', log_Attributes = [],
         log_Resource = Some \<lparr> res_ServiceName = ''unknown'', res_ServiceVersion = None,
           res_DeploymentEnvironment = None \<rparr> \<rparr>))"
    by (simp add: eval_json_logs eval_json upper_log_body_def)
  then have 2: "map (\<lambda>e. (log_TraceId e, log_SpanId e)) (logs (snd (PostLogs fw0 5 new_store upper_log_body)))
     = [(''4BF92F3577B34DA6A3CE929D0E0E4736'', ''00F067AA0BA902B7'')]"
    by (simp add: eval_store)
  have 3: "ToLowerInvariant ''4BF92F3577B34DA6A3CE929D0E0E4736'' = ''4bf92f3577b34da6a3ce929d0e0e4736''"
    by (simp add: ToLowerInvariant_def ToLower_char_def char_of_eq_iff)
  have 4: "\<not> canonical_hex ''4BF92F3577B34DA6A3CE929D0E0E4736''" "\<not> canonical_hex ''00F067AA0BA902B7''"
    by (simp_all add: canonical_hex_def is_lower_hex_def)
  from 1 2 3 4 show ?thesis by simp
qed

text \<open>
  Claim C3, amended. On the gRPC path the trace and span identifiers of a log record and
  of a span, the parent span identifier and the identifiers of the links are
  \<^verbatim>\<open>BytesToHex\<close> of the bytes received, which is canonical lower-case hexadecimal (the
  parent is absent when no bytes were sent). On the JSON path the trace and span identifiers
  of an accepted log record or span are the strings of the document, unchanged. \<^verbatim>\<open>AddLog\<close>
  stores the record with a new \<open>Id\<close> and the same identifiers.
\<close>

theorem stored_ids:
  "(ConvertLogRecord fw now r svc ver env sn sv = Inr e \<longrightarrow>
       log_TraceId e = BytesToHex (Some (lr_TraceId r)) \<and> canonical_hex (log_TraceId e)
     \<and> log_SpanId e = BytesToHex (Some (lr_SpanId r)) \<and> canonical_hex (log_SpanId e))
   \<and> (ConvertSpan fw now sp svc sn sv = Inr t \<longrightarrow>
       span_TraceId t = BytesToHex (Some (sp_TraceId sp)) \<and> canonical_hex (span_TraceId t)
     \<and> span_SpanId t = BytesToHex (Some (sp_SpanId sp)) \<and> canonical_hex (span_SpanId t)
     \<and> (case span_ParentSpanId t of None \<Rightarrow> sp_ParentSpanId sp = []
          | Some p \<Rightarrow> p = BytesToHex (Some (sp_ParentSpanId sp)) \<and> canonical_hex p)
     \<and> list_all (\<lambda>l. canonical_hex (link_TraceId l) \<and> canonical_hex (link_SpanId l)) (span_Links t))
   \<and> (ParseLogEntry fw now j svc ver env = Some e' \<longrightarrow>
       (TryGetProperty j ''traceId'' = Inr (Some (JString tid)) \<longrightarrow> log_TraceId e' = tid)
     \<and> (TryGetProperty j ''spanId'' = Inr (Some (JString sid)) \<longrightarrow> log_SpanId e' = sid))
   \<and> (ParseTraceSpan fw now j' svc = Some t' \<longrightarrow>
       (TryGetProperty j' ''traceId'' = Inr (Some (JString tid')) \<longrightarrow> span_TraceId t' = tid')
     \<and> (TryGetProperty j' ''spanId'' = Inr (Some (JString sid')) \<longrightarrow> span_SpanId t' = sid'))
   \<and> log_TraceId (e''\<lparr>log_Id := i\<rparr>) = log_TraceId e''
   \<and> log_SpanId (e''\<lparr>log_Id := i\<rparr>) = log_SpanId e''"
proof -
  have 1: "log_TraceId e = BytesToHex (Some (lr_TraceId r)) \<and> canonical_hex (log_TraceId e)
     \<and> log_SpanId e = BytesToHex (Some (lr_SpanId r)) \<and> canonical_hex (log_SpanId e)"
    if "ConvertLogRecord fw now r svc ver env sn sv = Inr e"
    using ConvertLogRecord_fields(3,4) [OF that] by (simp add: BytesToHex_canonical)
  have 2: "span_TraceId t = BytesToHex (Some (sp_TraceId sp)) \<and> canonical_hex (span_TraceId t)
     \<and> span_SpanId t = BytesToHex (Some (sp_SpanId sp)) \<and> canonical_hex (span_SpanId t)
     \<and> (case span_ParentSpanId t of None \<Rightarrow> sp_ParentSpanId sp = []
          | Some p \<Rightarrow> p = BytesToHex (Some (sp_ParentSpanId sp)) \<and> canonical_hex p)
     \<and> list_all (\<lambda>l. canonical_hex (link_TraceId l) \<and> canonical_hex (link_SpanId l)) (span_Links t)"
    if "ConvertSpan fw now sp svc sn sv = Inr t"
    using ConvertSpan_fields [OF that]
    by (simp add: BytesToHex_canonical list_all_iff convert_link_def)
  have 3: "(TryGetProperty j ''traceId'' = Inr (Some (JString tid)) \<longrightarrow> log_TraceId e' = tid)
     \<and> (TryGetProperty j ''spanId'' = Inr (Some (JString sid)) \<longrightarrow> log_SpanId e' = sid)"
    if "ParseLogEntry fw now j svc ver env = Some e'"
    using ParseLogEntry_fields(3,4) [OF that]
      GetStringProperty_JString [of j "''traceId''" tid "[]" "[]"]
      GetStringProperty_JString [of j "''spanId''" sid "[]" "[]"] by auto
  have 4: "(TryGetProperty j' ''traceId'' = Inr (Some (JString tid')) \<longrightarrow> span_TraceId t' = tid')
     \<and> (TryGetProperty j' ''spanId'' = Inr (Some (JString sid')) \<longrightarrow> span_SpanId t' = sid')"
    if "ParseTraceSpan fw now j' svc = Some t'"
    using ParseTraceSpan_fields [OF that]
      GetStringProperty_JString [of j' "''traceId''" tid' "[]" "[]"]
      GetStringProperty_JString [of j' "''spanId''" sid' "[]" "[]"] by auto
  have 5: "log_TraceId (e''\<lparr>log_Id := i\<rparr>) = log_TraceId e''"
    "log_SpanId (e''\<lparr>log_Id := i\<rparr>) = log_SpanId e''" by simp_all
  from 1 2 3 4 5 show ?thesis by blast
qed

text \<open>The theorem on a log record with four bytes of trace id, and on the JSON span above.\<close>

theorem stored_ids_witness:
  "map_sum id log_TraceId (ConvertLogRecord fw0 5
       (sev17_record\<lparr>lr_TraceId := [0x4B, 0xF9, 0x2F, 0x35], lr_SpanId := [0x00, 0xF0]\<rparr>)
       ''svc'' None None [] []) = Inr ''4bf92f35''
   \<and> canonical_hex ''4bf92f35''
   \<and> map_option span_TraceId (ParseTraceSpan fw0 5 upper_span_json ''svc'')
       = Some ''4BF92F3577B34DA6A3CE929D0E0E4736''"
proof -
  let ?r = "sev17_record\<lparr>lr_TraceId := [0x4B, 0xF9, 0x2F, 0x35], lr_SpanId := [0x00, 0xF0]\<rparr>"
  obtain e where e: "ConvertLogRecord fw0 5 ?r ''svc'' None None [] [] = Inr e"
    by (simp add: eval_grpc sev17_record_def)
  obtain t where t: "ParseTraceSpan fw0 5 upper_span_json ''svc'' = Some t"
    by (simp add: eval_json_spans eval_json upper_span_json_def)
  have p: "TryGetProperty upper_span_json ''traceId'' = Inr (Some (JString ''4BF92F3577B34DA6A3CE929D0E0E4736''))"
    by (simp add: TryGetProperty_def upper_span_json_def)
  note th = stored_ids [where fw = fw0 and now = 5 and r = ?r and svc = "''svc''" and ver = None
      and env = None and sn = "[]" and sv = "[]" and e = e and j' = upper_span_json and t' = t
      and tid' = "''4BF92F3577B34DA6A3CE929D0E0E4736''"]
  from th e have a: "log_TraceId e = BytesToHex (Some (lr_TraceId ?r))" "canonical_hex (log_TraceId e)"
    by blast+
  have hex: "BytesToHex (Some (lr_TraceId ?r)) = ''4bf92f35''"
    by (simp add: BytesToHex_def ToHexString_def ToLowerInvariant_def ToLower_char_def
        hex_digit_upper_def sev17_record_def char_of_eq_iff)
  from th t p have b: "span_TraceId t = ''4BF92F3577B34DA6A3CE929D0E0E4736''" by blast
  from a hex b e t show ?thesis by simp
qed

section \<open>Timestamps in JSON\<close>

lemmas eval_json_metrics = ParseMetricEntry_def ParseMetricEntry_try_def GetDataPointValue_def
  nanos_or_def AddMetricsJsonAsync_def resourceMetric_header_def GetAttributeValue_def

text \<open>
  \<^verbatim>\<open>GetUInt64FromJsonElement\<close> (spans) and the timestamp tests of \<^verbatim>\<open>ParseLogEntry\<close> read
  a nanosecond value from a JSON number and from its decimal string alike;
  \<^verbatim>\<open>GetUInt64\<close>, which \<^verbatim>\<open>ParseMetricEntry\<close> calls, throws on a string. A value above 0
  is stored cut down to the millisecond.
\<close>

lemma timestamp_number_and_string:
  assumes "0 \<le> n" "n < 2 ^ 64"
  shows "GetUInt64FromJsonElement (JNumber (JInt n)) = Inr (word_of_int n)"
    "GetUInt64FromJsonElement (JString (Int_ToString n)) = Inr (word_of_int n)"
    "log_timestamp_nanos (JNumber (JInt n)) = Inr (word_of_int n)"
    "log_timestamp_nanos (JString (Int_ToString n)) = Inr (word_of_int n)"
    "GetUInt64 (JNumber (JInt n)) = Inr (word_of_int n)"
    "GetUInt64 (JString (Int_ToString n)) = Inl InvalidOperationException"
  using assms TryParse_digits(1) [of "nat n"]
  by (simp_all add: GetUInt64FromJsonElement_def log_timestamp_nanos_def GetUInt64_def
      is_Number_def is_String_def GetString_def Int_ToString_nonneg)

lemma nanos_or_truncates:
  assumes "0 < n" "n < 2 ^ 64"
  shows "nanos_or (word_of_int n) d = (n div 1000000) * 10000"
proof -
  have u: "uint (word_of_int n :: 64 word) = n"
    using assms by (simp add: unsigned_of_int take_bit_int_eq_self)
  then have "(word_of_int n :: 64 word) \<noteq> 0" using assms(1) by force
  then have "(word_of_int n :: 64 word) > 0" by (simp add: word_greater_zero_iff)
  then show ?thesis by (simp add: nanos_or_def FromUnixTimeMilliseconds_def u)
qed

lemma ParseMetricEntry_string_time_rejected:
  assumes "TryGetProperty metric ''dataPoints'' = Inr (Some (JArray (dp # rest)))"
    and "TryGetProperty dp ''timeUnixNano'' = Inr (Some (JString s))"
  shows "ParseMetricEntry fw now metric svc = None"
proof -
  have "GetUInt64 (JString s) = Inl InvalidOperationException" by (simp add: GetUInt64_def)
  then have "ParseMetricEntry_try fw now metric svc \<noteq> Inr x" for x
    using assms
    by (auto simp: ParseMetricEntry_try_def GetPropertyOrDefault_def EnumerateArray_def)
  then show ?thesis by (cases "ParseMetricEntry_try fw now metric svc") (auto simp: ParseMetricEntry_def catch_null_def)
qed

text \<open>
  Claim C6 says that all three JSON paths accept a timestamp written as a numeric string.
  A metric whose data point has \<open>timeUnixNano\<close> as a number is accepted with the time cut
  down to the millisecond; the same metric with the time as a string is rejected by
  \<^verbatim>\<open>ParseMetricEntry\<close>, and a request that carries it leaves the store empty. The log and
  span paths accept the string.
\<close>

theorem metric_string_timestamp_rejected:
  "map_option metric_Timestamp (ParseMetricEntry fw0 5 metric_number_time ''svc'')
     = Some 17000000001230000
   \<and> ParseMetricEntry fw0 5 metric_string_time ''svc'' = None
   \<and> AddMetricsJsonAsync fw0 5 new_store metric_string_time_body = (None, new_store)
   \<and> map_option log_Timestamp
       (ParseLogEntry fw0 5 (JObject [(''timeUnixNano'', JString ''1700000000123456789'')])
          ''svc'' None None) = Some 17000000001230000
   \<and> map_option span_StartTime
       (ParseTraceSpan fw0 5 (JObject [(''startTimeUnixNano'', JString ''1700000000123456789'')])
          ''svc'') = Some 17000000001230000"
proof -
  have 1: "map_option metric_Timestamp (ParseMetricEntry fw0 5 metric_number_time ''svc'')
     = Some 17000000001230000"
    by (simp add: eval_json_metrics eval_json metric_number_time_def)
  have 2: "ParseMetricEntry fw0 5 metric_string_time svc = None" for svc
    by (rule ParseMetricEntry_string_time_rejected
          [where dp = "JObject [(''asNumber'', JNumber (JInt 42)),
                 (''timeUnixNano'', JString ''1700000000123456789'')]"
             and rest = "[]" and s = "''1700000000123456789''"])
      (simp_all add: TryGetProperty_def metric_string_time_def)
  have 3: "AddMetricsJsonAsync fw0 5 new_store metric_string_time_body = (None, new_store)"
    by (simp add: AddMetricsJsonAsync_def resourceMetric_header_def GetAttributeValue_def
        eval_json metric_string_time_body_def 2)
  have 4: "map_option log_Timestamp
       (ParseLogEntry fw0 5 (JObject [(''timeUnixNano'', JString ''1700000000123456789'')])
          ''svc'' None None) = Some 17000000001230000"
    by (simp add: eval_json_logs eval_json)
  have 5: "map_option span_StartTime
       (ParseTraceSpan fw0 5 (JObject [(''startTimeUnixNano'', JString ''1700000000123456789'')])
          ''svc'') = Some 17000000001230000"
    by (simp add: eval_json_spans eval_json)
  from 1 2 3 4 5 show ?thesis by simp
qed

section \<open>Batches with a malformed item\<close>

lemma export_logRecords_foldl:
  "export_logRecords fw now svc ver env sn sv rs st =
     foldl count_result st (map (\<lambda>r. ConvertLogRecord fw now r svc ver env sn sv) rs)"
proof (induction rs arbitrary: st)
  case Nil
  show ?case by simp
next
  case (Cons r rs)
  show ?case
    by (cases "ConvertLogRecord fw now r svc ver env sn sv") (simp_all add: Cons.IH)
qed

lemma export_scopeLogs_foldl:
  "export_scopeLogs fw now svc ver env sls st =
     foldl count_result st (concat (map (scope_conversions fw now svc ver env) sls))"
  by (induction sls arbitrary: st)
    (simp_all add: export_logRecords_foldl scope_conversions_def Let_def)

lemma export_resourceLogs_foldl:
  "list_all (\<lambda>rl. rl_Resource rl \<noteq> None) request \<Longrightarrow>
   export_resourceLogs fw now request st =
     (None, foldl count_result st (request_conversions fw now request))"
proof (induction request arbitrary: st)
  case Nil
  show ?case by (simp add: request_conversions_def)
next
  case (Cons rl request)
  then obtain attrs where a: "rl_Resource rl = Some attrs" by auto
  from Cons show ?case
    by (simp add: a GetResourceAttribute_def export_scopeLogs_foldl request_conversions_def
        resource_conversions_def Let_def)
qed

lemma accepted_simps [simp]:
  "accepted [] = []" "accepted (Inr x # rs) = x # accepted rs" "accepted (Inl e # rs) = accepted rs"
  "rejected [] = []" "rejected (Inr x # rs) = rejected rs" "rejected (Inl e # rs) = e # rejected rs"
  by (simp_all add: accepted_def rejected_def List.map_filter_simps)

lemma AddLogs_Cons [simp]: "AddLogs s (x # xs) = AddLogs (snd (AddLog s x)) xs" "AddLogs s [] = s"
  by (simp_all add: AddLogs_def)

lemma foldl_count_result:
  "es_store (foldl count_result st rs) = AddLogs (es_store st) (accepted rs)
   \<and> es_logCount (foldl count_result st rs) = es_logCount st + int (length (accepted rs))
   \<and> es_rejectedLogs (foldl count_result st rs) = es_rejectedLogs st + int (length (rejected rs))"
proof (induction rs arbitrary: st)
  case Nil
  show ?case by simp
next
  case (Cons r rs)
  show ?case by (cases r) (simp_all add: Cons.IH)
qed

lemma Export_result:
  assumes "list_all (\<lambda>rl. rl_Resource rl \<noteq> None) request"
  shows "OtlpLogsGrpcService_Export fw now s request =
     (if rejected (request_conversions fw now request) \<noteq> []
      then Some \<lparr> Rejected = int (length (rejected (request_conversions fw now request))),
                   ErrorMessage =
                     Int_ToString (int (length (rejected (request_conversions fw now request))))
                     @ '' log records rejected due to processing errors'' \<rparr>
      else None,
      AddLogs s (accepted (request_conversions fw now request)))"
  using foldl_count_result [of "\<lparr> es_store = s, es_logCount = 0, es_rejectedLogs = 0 \<rparr>"
      "request_conversions fw now request"]
  by (simp add: OtlpLogsGrpcService_Export_def export_resourceLogs_foldl [OF assms])

lemma AddLogs_run_ops: "AddLogs s xs = run_ops s (map OpAddLog xs)"
  by (induction xs arbitrary: s) (simp_all add: run_ops_def)

lemma added_logs_map [simp]: "added_logs (map OpAddLog xs) = xs"
  by (induction xs) simp_all

lemma logs_AddLogs_new:
  "length xs \<le> 100000 \<Longrightarrow> logs (AddLogs new_store xs) = stamp_logs 0 xs"
  by (simp add: AddLogs_run_ops logs_reachable maxLogs_def)

lemma stamp_logs_Message: "map log_Message (stamp_logs c xs) = map log_Message xs"
  by (induction xs arbitrary: c) auto

lemma json_logRecords_eq:
  "json_logRecords fw now svc ver env records s =
     AddLogs s (List.map_filter (\<lambda>r. ParseLogEntry fw now r svc ver env) records)"
proof (induction records arbitrary: s)
  case Nil
  show ?case by (simp add: List.map_filter_simps)
next
  case (Cons r records)
  show ?case
    by (cases "ParseLogEntry fw now r svc ver env") (simp_all add: Cons.IH List.map_filter_simps)
qed

lemma PostLogs_result:
  assumes "resourceLog_header resourceLog = Inr (svc, ver, env, [scopeLog])"
    and "bind (GetPropertyOrDefault scopeLog ''logRecords'' (JArray [])) EnumerateArray = Inr records"
  shows "PostLogs fw now s (JObject [(''resourceLogs'', JArray [resourceLog])]) =
     (None, AddLogs s (List.map_filter (\<lambda>r. ParseLogEntry fw now r svc ver env) records))"
  using assms
  by (simp add: PostLogs_def AddLogsJsonAsync_def TryGetProperty_def EnumerateArray_def
      json_logRecords_eq del: bind_Inr_iff)

lemma Int_ToString_1: "Int_ToString 1 = ''1''"
  by (simp add: Int_ToString_def digits.simps [of "Suc 0"] digit_char_def char_of_eq_iff)

lemma accepted_map_sum: "accepted (map (map_sum id f) rs) = map f (accepted rs)"
proof (induction rs)
  case Nil
  show ?case by simp
next
  case (Cons r rs)
  then show ?case by (cases r) simp_all
qed

lemma rejected_map_sum: "rejected (map (map_sum id f) rs) = rejected rs"
proof (induction rs)
  case Nil
  show ?case by simp
next
  case (Cons r rs)
  then show ?case by (cases r) simp_all
qed

text \<open>
  What \<^verbatim>\<open>Export\<close> does with a request in which every \<^verbatim>\<open>ResourceLogs\<close> has a resource
  and exactly one log record is malformed: it adds the well-formed records to the store, in
  order, and returns a partial success with \<open>Rejected = 1\<close> and a message.
\<close>

lemma Export_one_malformed:
  assumes "list_all (\<lambda>rl. rl_Resource rl \<noteq> None) request"
    and "length (rejected (request_conversions fw now request)) = 1"
  shows "OtlpLogsGrpcService_Export fw now s request =
          (Some \<lparr> Rejected = 1,
                   ErrorMessage = ''1 log records rejected due to processing errors'' \<rparr>,
           AddLogs s (accepted (request_conversions fw now request)))"
proof -
  from assms(2) have "rejected (request_conversions fw now request) \<noteq> []" by auto
  then show ?thesis
    using Export_result [OF assms(1), of fw now s] assms(2) by (simp add: Int_ToString_1)
qed

text \<open>
  A \<^verbatim>\<open>ResourceLogs\<close> without a resource after others that have one: the exception
  leaves the loops, and the counters are what the earlier records made them.
\<close>

lemma export_resourceLogs_no_resource:
  assumes "list_all (\<lambda>rl. rl_Resource rl \<noteq> None) request" and "rl_Resource rl = None"
  shows "export_resourceLogs fw now (request @ rl # rest) st =
     (Some NullReferenceException, foldl count_result st (request_conversions fw now request))"
  using assms(1)
proof (induction request arbitrary: st)
  case Nil
  show ?case by (simp add: request_conversions_def GetResourceAttribute_def assms(2))
next
  case (Cons r request)
  then obtain attrs where a: "rl_Resource r = Some attrs" by auto
  from Cons show ?case
    by (simp add: a GetResourceAttribute_def export_scopeLogs_foldl request_conversions_def
        resource_conversions_def Let_def)
qed

lemma Export_no_resource:
  assumes "list_all (\<lambda>rl. rl_Resource rl \<noteq> None) request" and "rl_Resource rl = None"
  shows "OtlpLogsGrpcService_Export fw now s (request @ rl # rest) =
     (Some \<lparr> Rejected = int (length (accepted (request_conversions fw now request)))
                         + int (length (rejected (request_conversions fw now request))),
              ErrorMessage = Exception_Message fw NullReferenceException \<rparr>,
      AddLogs s (accepted (request_conversions fw now request)))"
  using foldl_count_result [of "\<lparr> es_store = s, es_logCount = 0, es_rejectedLogs = 0 \<rparr>"
      "request_conversions fw now request"]
  by (simp add: OtlpLogsGrpcService_Export_def export_resourceLogs_no_resource [OF assms])

lemma mixed_request_conversions:
  "map (map_sum id log_Message) (request_conversions fw0 5 mixed_request) =
     [Inr ''first'', Inl ArgumentException, Inr ''second'']"
  by (simp add: request_conversions_def resource_conversions_def scope_conversions_def
      mixed_request_def sev17_record_def eval_grpc GetAnyValueAsObject_def)

lemma logs_AddLogs_new_Message:
  "length xs \<le> 100000 \<Longrightarrow> map log_Message (logs (AddLogs new_store xs)) = map log_Message xs"
  by (simp add: logs_AddLogs_new stamp_logs_Message)

text \<open>
  Claim C4 says that both the gRPC \<^verbatim>\<open>Export\<close> and the HTTP/JSON endpoints answer a batch
  of N well-formed items and one malformed item with a partial success that reports one
  rejected item and a message, and store the N items. Here the batch has three log records,
  the second malformed, on a new store.

  \<^verbatim>\<open>Export\<close> does what the claim says: it answers \<open>Rejected = 1\<close> with a message and
  stores the two valid records. On the JSON path \<^verbatim>\<open>ParseLogEntry\<close> returns \<^verbatim>\<open>null\<close> for
  the malformed record, \<^verbatim>\<open>AddLogsJsonAsync\<close> skips it, and the handler of
  \<^verbatim>\<open>POST /v1/logs\<close> answers \<^verbatim>\<open>partialSuccess = null\<close>: the two valid records are
  stored, and no rejection is reported.

  In \<^verbatim>\<open>Export\<close> itself, a \<^verbatim>\<open>ResourceLogs\<close> without a resource makes
  \<^verbatim>\<open>GetResourceAttribute\<close> throw outside the inner \<^verbatim>\<open>try\<close> (\<^verbatim>\<open>GetServiceName\<close>, called
  one line before, tests for \<^verbatim>\<open>null\<close>). Its records are not processed, and the answer
  counts the records stored so far as rejected: the same three records followed by such a
  \<^verbatim>\<open>ResourceLogs\<close> give \<open>Rejected = 3\<close> with two records stored.
\<close>

theorem malformed_item_not_reported:
  "map (map_sum id log_Message) (request_conversions fw0 5 mixed_request) =
     [Inr ''first'', Inl ArgumentException, Inr ''second'']
   \<and> fst (OtlpLogsGrpcService_Export fw0 5 new_store mixed_request) =
       Some \<lparr> Rejected = 1, ErrorMessage = ''1 log records rejected due to processing errors'' \<rparr>
   \<and> map log_Message (logs (snd (OtlpLogsGrpcService_Export fw0 5 new_store mixed_request))) =
       [''first'', ''second'']
   \<and> map (\<lambda>r. map_option log_Message (ParseLogEntry fw0 5 r ''checkout'' None None)) mixed_records =
       [Some ''first'', None, Some ''second'']
   \<and> fst (PostLogs fw0 5 new_store mixed_body) = None
   \<and> map log_Message (logs (snd (PostLogs fw0 5 new_store mixed_body))) = [''first'', ''second'']
   \<and> OtlpLogsGrpcService_Export fw0 5 new_store no_resource_request =
       (Some \<lparr> Rejected = 0, ErrorMessage = Exception_Message fw0 NullReferenceException \<rparr>,
        new_store)
   \<and> fst (OtlpLogsGrpcService_Export fw0 5 new_store (mixed_request @ no_resource_request)) =
       Some \<lparr> Rejected = 3, ErrorMessage = Exception_Message fw0 NullReferenceException \<rparr>
   \<and> map log_Message
        (logs (snd (OtlpLogsGrpcService_Export fw0 5 new_store (mixed_request @ no_resource_request)))) =
       [''first'', ''second'']"
proof -
  let ?cs = "request_conversions fw0 5 mixed_request"
  let ?es = "List.map_filter (\<lambda>r. ParseLogEntry fw0 5 r ''checkout'' None None) mixed_records"
  note c = mixed_request_conversions
  have h1: "list_all (\<lambda>rl. rl_Resource rl \<noteq> None) mixed_request" by (simp add: mixed_request_def)
  have h2: "length (rejected ?cs) = 1"
    using arg_cong [OF c, of "\<lambda>x. length (rejected x)"] by (simp add: rejected_map_sum)
  have m: "map log_Message (accepted ?cs) = [''first'', ''second'']"
    using arg_cong [OF c, of accepted] by (simp add: accepted_map_sum)
  have h3: "length (accepted ?cs) = 2"
    using arg_cong [OF m, of length] by simp
  have l: "map log_Message (logs (AddLogs new_store (accepted ?cs))) = [''first'', ''second'']"
    using logs_AddLogs_new_Message [of "accepted ?cs"] h3 m by simp
  have g1: "OtlpLogsGrpcService_Export fw0 5 new_store mixed_request =
     (Some \<lparr> Rejected = 1, ErrorMessage = ''1 log records rejected due to processing errors'' \<rparr>,
      AddLogs new_store (accepted ?cs))"
    using h1 h2 by (rule Export_one_malformed)
  have n: "rl_Resource ((hd mixed_request)\<lparr>rl_Resource := None\<rparr>) = None" by simp
  have g2: "OtlpLogsGrpcService_Export fw0 5 new_store no_resource_request =
       (Some \<lparr> Rejected = 0, ErrorMessage = Exception_Message fw0 NullReferenceException \<rparr>,
        new_store)"
    using Export_no_resource [of "[]" _ fw0 5 new_store "[]", OF _ n]
    by (simp add: no_resource_request_def request_conversions_def)
  have g3: "OtlpLogsGrpcService_Export fw0 5 new_store (mixed_request @ no_resource_request) =
       (Some \<lparr> Rejected = 3, ErrorMessage = Exception_Message fw0 NullReferenceException \<rparr>,
        AddLogs new_store (accepted ?cs))"
    using Export_no_resource [OF h1 n, of fw0 5 new_store "[]"] h2 h3
    by (simp add: no_resource_request_def)
  have h: "resourceLog_header (JObject [(''resource'', checkout_resource),
       (''scopeLogs'', JArray [JObject [(''logRecords'', JArray mixed_records)]])]) =
     Inr (''checkout'', None, None, [JObject [(''logRecords'', JArray mixed_records)]])"
    by (simp add: resourceLog_header_def GetAttributeValue_def eval_json checkout_resource_def)
  have r: "bind (GetPropertyOrDefault (JObject [(''logRecords'', JArray mixed_records)])
                  ''logRecords'' (JArray [])) EnumerateArray = Inr mixed_records"
    by (simp add: eval_json)
  have p: "PostLogs fw0 5 new_store mixed_body = (None, AddLogs new_store ?es)"
    unfolding mixed_body_def by (rule PostLogs_result [OF h r])
  have j: "map (\<lambda>r. map_option log_Message (ParseLogEntry fw0 5 r ''checkout'' None None))
      mixed_records = [Some ''first'', None, Some ''second'']"
    by (simp add: mixed_records_def eval_json_logs eval_json)
  have bad: "ParseLogEntry fw0 5 (JObject [(''traceId'', JNumber (JInt 5))]) ''checkout'' None None
      = None"
    by (simp add: ParseLogEntry_def ParseLogEntry_try_def eval_json)
  have m': "map log_Message ?es = [''first'', ''second'']"
    by (simp add: mixed_records_def List.map_filter_simps bad)
      (simp add: eval_json_logs eval_json)
  have "length ?es = 2"
    using arg_cong [OF m', of length] by simp
  then have l': "map log_Message (logs (AddLogs new_store ?es)) = [''first'', ''second'']"
    using logs_AddLogs_new_Message [of ?es] m' by simp
  from c g1 l j p l' g2 g3 show ?thesis by simp
qed

section \<open>Severity numbers outside the scale\<close>

lemma parse_integer_minus_digits: "parse_integer (CHR ''-'' # digits n) = Some (- int n)"
proof -
  let ?ds = "digits n"
  have all: "\<forall>x \<in> set ?ds. IsDigit x" using digits_IsDigit [of n] by (simp add: list_all_iff)
  have tw: "takeWhile IsDigit ?ds = ?ds" "dropWhile IsDigit ?ds = []"
    using all by simp_all
  have w: "\<not> IsWhite (CHR ''-'')" by (simp add: IsWhite_def)
  show ?thesis
    by (simp add: parse_integer_def Let_def w tw digits_value_digits digits_not_Nil)
qed

lemma Int32_TryParse_Int_ToString:
  assumes "- (2 ^ 31) \<le> n" "n < 2 ^ 31"
  shows "Int32_TryParse (Some (Int_ToString n)) = Some (word_of_int n)"
proof (cases "n < 0")
  case True
  then show ?thesis
    using assms parse_integer_minus_digits [of "nat (- n)"]
    by (simp add: Int32_TryParse_def Int_ToString_def)
next
  case False
  then show ?thesis
    using assms TryParse_digits(2) [of "nat n"] by (simp add: Int_ToString_def)
qed

lemma log_severityNumber_forms:
  assumes "- (2 ^ 31) \<le> n" "n < 2 ^ 31"
    and "TryGetProperty j ''severityNumber'' = Inr (Some (JNumber (JInt n)))
         \<or> TryGetProperty j ''severityNumber'' = Inr (Some (JString (Int_ToString n)))"
  shows "log_severityNumber j = Inr (word_of_int n)"
  using assms Int32_TryParse_Int_ToString [of n]
  by (auto simp: log_severityNumber_def GetInt32_def)

lemma ParseLogEntry_try_severity:
  assumes same: "\<And>k. k \<noteq> ''severityNumber'' \<Longrightarrow> TryGetProperty j k = TryGetProperty j' k"
    and "log_severityNumber j = Inr w" "log_severityNumber j' = Inr w'"
    and "MapSeverityNumber w = MapSeverityNumber w'"
  shows "ParseLogEntry_try fw now j svc ver env = ParseLogEntry_try fw now j' svc ver env"
  using assms(2-)
  by (simp add: ParseLogEntry_try_def GetStringProperty_def GetPropertyOrDefault_def same
      del: bind_Inr_iff)

lemma AddLog_stored: "x\<lparr>log_Id := logIdCounter s + 1\<rparr> \<in> set (logs (snd (AddLog s x)))"
proof -
  have "length (logs s) + 1 - maxLogs \<le> length (logs s)" by (simp add: maxLogs_def)
  then show ?thesis by (simp add: logs_AddLog)
qed

lemma logs_AddLog_new: "logs (snd (AddLog new_store x)) = [x\<lparr>log_Id := 1\<rparr>]"
  by (simp add: logs_AddLog new_store_def maxLogs_def)

text \<open>
  Claim C10. Let \<open>n \<le> 0\<close> be a severity number (zero, which is also the unset value of
  the protobuf field, or negative). \<^verbatim>\<open>MapSeverity\<close> and \<^verbatim>\<open>MapSeverityNumber\<close> give
  \<open>Info\<close>.

  gRPC, for a log record with the severity number \<open>n\<close>: an entry that
  \<^verbatim>\<open>ConvertLogRecord\<close> returns has level \<open>Info\<close>; when the attributes of the record
  convert (\<^verbatim>\<open>ToAttributesDict\<close>, the one call of the conversion that can throw),
  \<^verbatim>\<open>ConvertLogRecord\<close> returns an entry, and \<^verbatim>\<open>Export\<close> of a request with this record
  under a resource, on any store, answers without a partial success, and the store
  afterwards is the store after \<^verbatim>\<open>AddLog\<close> of an entry with level \<open>Info\<close>, which is in
  the log collection under the next id.

  JSON, for a log record whose \<open>severityNumber\<close> is absent, the number \<open>n\<close>, or the
  decimal string of \<open>n\<close>: reading the severity does not throw, and an entry that
  \<^verbatim>\<open>ParseLogEntry\<close> returns has level \<open>Info\<close>; when the record with the severity
  number 9 in place of its own (all other properties the same) is accepted, the record
  is accepted with the same entry, of level \<open>Info\<close>, and \<^verbatim>\<open>POST /v1/logs\<close> of a
  request with this record, on any store, answers \<^verbatim>\<open>partialSuccess = null\<close>, and the
  store afterwards is the store after \<^verbatim>\<open>AddLog\<close> of that entry, which is in the log
  collection under the next id.
\<close>

theorem severity_out_of_range_is_Info:
  fixes n :: int
  assumes n: "n \<le> 0" "- (2 ^ 31) \<le> n"
  shows "(sint sev = n \<longrightarrow> MapSeverity sev = Info \<and> MapSeverityNumber sev = Info)
    \<and> (sint (lr_SeverityNumber r) = n
         \<longrightarrow> (ConvertLogRecord fw now r svc ver env sn sv = Inr e \<longrightarrow> log_Level e = Info)
             \<and> (ToAttributesDict fw (lr_Attributes r) = Inr d
                \<longrightarrow> (\<exists>x. ConvertLogRecord fw now r svc ver env sn sv = Inr x)
                    \<and> (\<exists>x. log_Level x = Info
                          \<and> log_ServiceName x = GetServiceName fw (Some res)
                          \<and> OtlpLogsGrpcService_Export fw now s
                               [\<lparr> rl_Resource = Some res,
                                   rl_ScopeLogs = [\<lparr> sl_Scope = sc, sl_LogRecords = [r] \<rparr>] \<rparr>]
                             = (None, snd (AddLog s x))
                          \<and> x\<lparr>log_Id := logIdCounter s + 1\<rparr> \<in> set (logs (snd (AddLog s x))))))
    \<and> (TryGetProperty j ''severityNumber'' = Inr None
         \<or> TryGetProperty j ''severityNumber'' = Inr (Some (JNumber (JInt n)))
         \<or> TryGetProperty j ''severityNumber'' = Inr (Some (JString (Int_ToString n)))
         \<longrightarrow> (\<exists>w. log_severityNumber j = Inr w \<and> MapSeverityNumber w = Info)
             \<and> (ParseLogEntry fw now j svc ver env = Some e' \<longrightarrow> log_Level e' = Info)
             \<and> (ParseLogEntry fw now jref svc ver env = Some eref
                \<and> TryGetProperty jref ''severityNumber'' = Inr (Some (JNumber (JInt 9)))
                \<and> (\<forall>k. k \<noteq> ''severityNumber'' \<longrightarrow> TryGetProperty j k = TryGetProperty jref k)
                \<longrightarrow> log_Level eref = Info
                    \<and> ParseLogEntry fw now j svc ver env = Some eref
                    \<and> (resourceLog_header resourceLog = Inr (svc, ver, env, [scopeLog])
                       \<and> bind (GetPropertyOrDefault scopeLog ''logRecords'' (JArray []))
                            EnumerateArray = Inr [j]
                       \<longrightarrow> PostLogs fw now s (JObject [(''resourceLogs'', JArray [resourceLog])])
                               = (None, snd (AddLog s eref))
                           \<and> eref\<lparr>log_Id := logIdCounter s + 1\<rparr>
                               \<in> set (logs (snd (AddLog s eref))))))"
proof -
  have map: "MapSeverity s' = Info" if "sint s' = n" for s'
    using that n by (simp add: MapSeverity_buckets)
  have sn: "sint (word_of_int n :: 32 word) = n"
    using n by (intro sint_word_of_int_small) simp_all
  have 1: "sint sev = n \<longrightarrow> MapSeverity sev = Info \<and> MapSeverityNumber sev = Info"
    using map by (simp add: MapSeverityNumber_eq)
  have 2: "(ConvertLogRecord fw now r svc ver env sn sv = Inr e \<longrightarrow> log_Level e = Info)
             \<and> (ToAttributesDict fw (lr_Attributes r) = Inr d
                \<longrightarrow> (\<exists>x. ConvertLogRecord fw now r svc ver env sn sv = Inr x)
                    \<and> (\<exists>x. log_Level x = Info
                          \<and> log_ServiceName x = GetServiceName fw (Some res)
                          \<and> OtlpLogsGrpcService_Export fw now s
                               [\<lparr> rl_Resource = Some res,
                                   rl_ScopeLogs = [\<lparr> sl_Scope = sc, sl_LogRecords = [r] \<rparr>] \<rparr>]
                             = (None, snd (AddLog s x))
                          \<and> x\<lparr>log_Id := logIdCounter s + 1\<rparr> \<in> set (logs (snd (AddLog s x)))))"
    if b: "sint (lr_SeverityNumber r) = n"
  proof -
    have l: "log_Level e = Info" if "ConvertLogRecord fw now r svc ver env sn sv = Inr e"
      using ConvertLogRecord_fields(1) [OF that] map [OF b] by simp
    have acc: "\<exists>x. ConvertLogRecord fw now r svc' ver' env' sn' sv' = Inr x"
      if a: "ToAttributesDict fw (lr_Attributes r) = Inr d" for svc' ver' env' sn' sv'
      using a by (simp add: ConvertLogRecord_def Let_def)
    have x: "\<exists>x. log_Level x = Info
                          \<and> log_ServiceName x = GetServiceName fw (Some res)
                          \<and> OtlpLogsGrpcService_Export fw now s
                               [\<lparr> rl_Resource = Some res,
                                   rl_ScopeLogs = [\<lparr> sl_Scope = sc, sl_LogRecords = [r] \<rparr>] \<rparr>]
                             = (None, snd (AddLog s x))
                          \<and> x\<lparr>log_Id := logIdCounter s + 1\<rparr> \<in> set (logs (snd (AddLog s x)))"
      if a: "ToAttributesDict fw (lr_Attributes r) = Inr d"
    proof -
      obtain x where x: "ConvertLogRecord fw now r (GetServiceName fw (Some res))
          (find_attribute fw res ''service.version'')
          (find_attribute fw res ''deployment.environment'')
          (case sc of None \<Rightarrow> [] | Some c \<Rightarrow> scope_Name c)
          (case sc of None \<Rightarrow> [] | Some c \<Rightarrow> scope_Version c) = Inr x"
        using acc [OF a] by blast
      have "OtlpLogsGrpcService_Export fw now s
               [\<lparr> rl_Resource = Some res,
                   rl_ScopeLogs = [\<lparr> sl_Scope = sc, sl_LogRecords = [r] \<rparr>] \<rparr>]
             = (None, snd (AddLog s x))"
        by (simp add: OtlpLogsGrpcService_Export_def GetResourceAttribute_def x)
      with ConvertLogRecord_fields(1,2) [OF x] map [OF b] AddLog_stored show ?thesis by metis
    qed
    from l x acc show ?thesis by blast
  qed
  have 4: "(\<exists>w. log_severityNumber j = Inr w \<and> MapSeverityNumber w = Info)
             \<and> (ParseLogEntry fw now j svc ver env = Some e' \<longrightarrow> log_Level e' = Info)
             \<and> (ParseLogEntry fw now jref svc ver env = Some eref
                \<and> TryGetProperty jref ''severityNumber'' = Inr (Some (JNumber (JInt 9)))
                \<and> (\<forall>k. k \<noteq> ''severityNumber'' \<longrightarrow> TryGetProperty j k = TryGetProperty jref k)
                \<longrightarrow> log_Level eref = Info
                    \<and> ParseLogEntry fw now j svc ver env = Some eref
                    \<and> (resourceLog_header resourceLog = Inr (svc, ver, env, [scopeLog])
                       \<and> bind (GetPropertyOrDefault scopeLog ''logRecords'' (JArray []))
                            EnumerateArray = Inr [j]
                       \<longrightarrow> PostLogs fw now s (JObject [(''resourceLogs'', JArray [resourceLog])])
                               = (None, snd (AddLog s eref))
                           \<and> eref\<lparr>log_Id := logIdCounter s + 1\<rparr>
                               \<in> set (logs (snd (AddLog s eref)))))"
    if s: "TryGetProperty j ''severityNumber'' = Inr None
         \<or> TryGetProperty j ''severityNumber'' = Inr (Some (JNumber (JInt n)))
         \<or> TryGetProperty j ''severityNumber'' = Inr (Some (JString (Int_ToString n)))"
  proof -
    from s have "log_severityNumber j = Inr 0 \<or> log_severityNumber j = Inr (word_of_int n)"
      using n log_severityNumber_absent [of j] log_severityNumber_forms [of n j] by auto
    moreover have "MapSeverityNumber (0 :: 32 word) = Info"
      by (simp add: MapSeverityNumber_def)
    moreover have "MapSeverityNumber (word_of_int n :: 32 word) = Info"
      using map [OF sn] by (simp add: MapSeverityNumber_eq)
    ultimately obtain w where w: "log_severityNumber j = Inr w" "MapSeverityNumber w = Info"
      by auto
    have b: "log_Level x = Info" if p: "ParseLogEntry fw now j svc ver env = Some x" for x
      using ParseLogEntry_fields(1) [OF p] w by auto
    have c: "log_Level eref = Info
                    \<and> ParseLogEntry fw now j svc ver env = Some eref
                    \<and> (resourceLog_header resourceLog = Inr (svc, ver, env, [scopeLog])
                       \<and> bind (GetPropertyOrDefault scopeLog ''logRecords'' (JArray []))
                            EnumerateArray = Inr [j]
                       \<longrightarrow> PostLogs fw now s (JObject [(''resourceLogs'', JArray [resourceLog])])
                               = (None, snd (AddLog s eref))
                           \<and> eref\<lparr>log_Id := logIdCounter s + 1\<rparr>
                               \<in> set (logs (snd (AddLog s eref))))"
      if pref: "ParseLogEntry fw now jref svc ver env = Some eref"
        and sref: "TryGetProperty jref ''severityNumber'' = Inr (Some (JNumber (JInt 9)))"
        and same: "\<forall>k. k \<noteq> ''severityNumber'' \<longrightarrow> TryGetProperty j k = TryGetProperty jref k"
    proof -
      have wref: "log_severityNumber jref = Inr 9"
        using sref by (simp add: log_severityNumber_def GetInt32_def)
      have mref: "MapSeverityNumber (9 :: 32 word) = Info"
        by (simp add: MapSeverityNumber_def)
      have "ParseLogEntry_try fw now j svc ver env = ParseLogEntry_try fw now jref svc ver env"
      proof (rule ParseLogEntry_try_severity [OF _ w(1) wref])
        show "TryGetProperty j k = TryGetProperty jref k" if "k \<noteq> ''severityNumber''" for k
          using same that by blast
        show "MapSeverityNumber w = MapSeverityNumber 9" using w(2) mref by simp
      qed
      then have p: "ParseLogEntry fw now j svc ver env = Some eref"
        using pref by (simp add: ParseLogEntry_def)
      have "PostLogs fw now s (JObject [(''resourceLogs'', JArray [resourceLog])])
                        = (None, snd (AddLog s eref))"
        if h: "resourceLog_header resourceLog = Inr (svc, ver, env, [scopeLog])"
          and rs: "bind (GetPropertyOrDefault scopeLog ''logRecords'' (JArray [])) EnumerateArray
                    = Inr [j]"
        using h rs
        by (simp add: PostLogs_def AddLogsJsonAsync_def TryGetProperty_def EnumerateArray_def p
            del: bind_Inr_iff)
      with b [OF p] p AddLog_stored show ?thesis by blast
    qed
    from w b c show ?thesis by blast
  qed
  from 1 2 4 show ?thesis by blast
qed

text \<open>
  The theorem on a new store, through both ingestion paths: the gRPC request with the
  severity numbers 0 and -3, the JSON request with the severity number -3 and without a
  severity number. The service names and messages are those of the requests.
\<close>

theorem severity_out_of_range_is_Info_witness:
  "fst (OtlpLogsGrpcService_Export fw0 5 new_store (severity_request 0)) = None
   \<and> map log_Level (logs (snd (OtlpLogsGrpcService_Export fw0 5 new_store (severity_request 0))))
       = [Info]
   \<and> map (\<lambda>e. (log_ServiceName e, log_Message e))
        (logs (snd (OtlpLogsGrpcService_Export fw0 5 new_store (severity_request 0))))
       = [(''checkout'', ''payment failed'')]
   \<and> fst (OtlpLogsGrpcService_Export fw0 5 new_store (severity_request (- 3))) = None
   \<and> map log_Level (logs (snd (OtlpLogsGrpcService_Export fw0 5 new_store (severity_request (- 3)))))
       = [Info]
   \<and> map (\<lambda>e. (log_ServiceName e, log_Message e))
        (logs (snd (OtlpLogsGrpcService_Export fw0 5 new_store (severity_request (- 3)))))
       = [(''checkout'', ''payment failed'')]
   \<and> fst (PostLogs fw0 5 new_store (severity_body negative_severity_json)) = None
   \<and> map log_Level (logs (snd (PostLogs fw0 5 new_store (severity_body negative_severity_json))))
       = [Info]
   \<and> map (\<lambda>e. (log_ServiceName e, log_Message e))
        (logs (snd (PostLogs fw0 5 new_store (severity_body negative_severity_json))))
       = [(''checkout'', ''x'')]
   \<and> fst (PostLogs fw0 5 new_store (severity_body no_severity_json)) = None
   \<and> map log_Level (logs (snd (PostLogs fw0 5 new_store (severity_body no_severity_json))))
       = [Info]
   \<and> map (\<lambda>e. (log_ServiceName e, log_Message e))
        (logs (snd (PostLogs fw0 5 new_store (severity_body no_severity_json))))
       = [(''checkout'', ''x'')]"
proof -
  have h: "(- 3 :: int) \<le> 0" "- (2 ^ 31) \<le> (- 3 :: int)" "(0 :: int) \<le> 0" "- (2 ^ 31) \<le> (0 :: int)"
    by simp_all
  let ?res = "[(''service.name'', Some (StringValue ''checkout''))]"
  have grpc: "fst (OtlpLogsGrpcService_Export fw0 5 new_store (severity_request sev)) = None
      \<and> map log_Level (logs (snd (OtlpLogsGrpcService_Export fw0 5 new_store (severity_request sev))))
          = [Info]"
    if n: "n \<le> 0" "- (2 ^ 31) \<le> n" and sev: "sint sev = n" for sev :: "32 word" and n
  proof -
    let ?r = "sev17_record\<lparr>lr_SeverityNumber := sev\<rparr>"
    have a: "ToAttributesDict fw0 (lr_Attributes ?r) = Inr []"
      by (simp add: sev17_record_def ToAttributesDict_def ToDictionary_def)
    have b: "sint (lr_SeverityNumber ?r) = n" using sev by simp
    note t = severity_out_of_range_is_Info [OF n, where r = ?r and fw = fw0 and d = "[]"
        and now = 5 and s = new_store and res = ?res and sc = None,
        THEN conjunct2, THEN conjunct1, THEN mp, OF b, THEN conjunct2, THEN mp, OF a,
        THEN conjunct2]
    from t obtain x where x: "log_Level x = Info"
      "OtlpLogsGrpcService_Export fw0 5 new_store (severity_request sev) = (None, snd (AddLog new_store x))"
      unfolding severity_request_def by blast
    show ?thesis unfolding x(2) by (simp add: logs_AddLog_new x(1))
  qed
  have grpc_run: "map (\<lambda>e. (log_ServiceName e, log_Message e))
        (logs (snd (OtlpLogsGrpcService_Export fw0 5 new_store (severity_request sev))))
       = [(''checkout'', ''payment failed'')]" for sev
  proof -
    have "OtlpLogsGrpcService_Export fw0 5 new_store (severity_request sev) =
       (None, snd (AddLog new_store
         \<lparr> log_Id = 0, log_TraceId = [], log_SpanId = [], log_Timestamp = 17000000000000000,
           log_Level = MapSeverity sev, log_ServiceName = ''checkout'',
           log_Message = ''payment failed'',
           log_Attributes = [(''severity_text'', OString ''ERROR'')],
           log_Resource = Some \<lparr> res_ServiceName = ''checkout'', res_ServiceVersion = None,
             res_DeploymentEnvironment = None \<rparr> \<rparr>))"
      by (simp add: eval_grpc severity_request_def sev17_record_def)
    then show ?thesis by (simp add: logs_AddLog_new)
  qed
  have g0: "sint (0 :: 32 word) = 0" and g3: "sint (- 3 :: 32 word) = - 3" by simp_all
  have json: "fst (PostLogs fw0 5 new_store (severity_body j)) = None
      \<and> map log_Level (logs (snd (PostLogs fw0 5 new_store (severity_body j)))) = [Info]"
    if n: "n \<le> 0" "- (2 ^ 31) \<le> n"
      and pref: "ParseLogEntry fw0 5 jref ''checkout'' None None = Some eref"
      and sref: "TryGetProperty jref ''severityNumber'' = Inr (Some (JNumber (JInt 9)))"
      and same: "\<forall>k. k \<noteq> ''severityNumber'' \<longrightarrow> TryGetProperty j k = TryGetProperty jref k"
      and sj: "TryGetProperty j ''severityNumber'' = Inr None
         \<or> TryGetProperty j ''severityNumber'' = Inr (Some (JNumber (JInt n)))
         \<or> TryGetProperty j ''severityNumber'' = Inr (Some (JString (Int_ToString n)))"
    for j jref eref n
  proof -
    let ?scope = "JObject [(''logRecords'', JArray [j])]"
    let ?rl = "JObject [(''resource'', checkout_resource), (''scopeLogs'', JArray [?scope])]"
    have hd: "resourceLog_header ?rl = Inr (''checkout'', None, None, [?scope])"
      by (simp add: resourceLog_header_def GetAttributeValue_def eval_json checkout_resource_def)
    have rs: "bind (GetPropertyOrDefault ?scope ''logRecords'' (JArray [])) EnumerateArray = Inr [j]"
      by (simp add: eval_json)
    note t = severity_out_of_range_is_Info [OF n, where j = j and jref = jref and eref = eref
        and fw = fw0 and now = 5 and s = new_store and svc = "''checkout''" and ver = None
        and env = None and resourceLog = ?rl and scopeLog = ?scope,
        THEN conjunct2, THEN conjunct2, THEN mp, OF sj, THEN conjunct2, THEN conjunct2]
    from t pref sref same hd rs
    have "PostLogs fw0 5 new_store (JObject [(''resourceLogs'', JArray [?rl])])
            = (None, snd (AddLog new_store eref))" "log_Level eref = Info"
      by blast+
    then show ?thesis by (simp add: severity_body_def logs_AddLog_new)
  qed
  have json_run: "map (\<lambda>e. (log_ServiceName e, log_Message e))
        (logs (snd (PostLogs fw0 5 new_store (severity_body j)))) = [(''checkout'', ''x'')]"
    if "j = negative_severity_json \<or> j = no_severity_json" for j
  proof -
    have "PostLogs fw0 5 new_store (severity_body j) =
       (None, snd (AddLog new_store
         \<lparr> log_Id = 0, log_TraceId = [], log_SpanId = [], log_Timestamp = 5,
           log_Level = MapSeverityNumber (if j = no_severity_json then 0 else - 3),
           log_ServiceName = ''checkout'', log_Message = ''x'', log_Attributes = [],
           log_Resource = Some \<lparr> res_ServiceName = ''checkout'', res_ServiceVersion = None,
             res_DeploymentEnvironment = None \<rparr> \<rparr>))"
      using that
      by (auto simp: eval_json_logs eval_json severity_body_def checkout_resource_def
          negative_severity_json_def no_severity_json_def)
    then show ?thesis by (simp add: logs_AddLog_new)
  qed
  obtain e1 where e1: "ParseLogEntry fw0 5 (JObject [(''severityNumber'', JNumber (JInt 9)),
       (''body'', JObject [(''stringValue'', JString ''x'')])]) ''checkout'' None None = Some e1"
    by (simp add: eval_json_logs eval_json)
  have j1: "fst (PostLogs fw0 5 new_store (severity_body negative_severity_json)) = None
      \<and> map log_Level (logs (snd (PostLogs fw0 5 new_store (severity_body negative_severity_json))))
          = [Info]"
    by (rule json [OF h(1,2) e1]) (simp_all add: TryGetProperty_def negative_severity_json_def)
  have j2: "fst (PostLogs fw0 5 new_store (severity_body no_severity_json)) = None
      \<and> map log_Level (logs (snd (PostLogs fw0 5 new_store (severity_body no_severity_json))))
          = [Info]"
    by (rule json [OF h(3,4) e1]) (simp_all add: TryGetProperty_def no_severity_json_def)
  from grpc [OF h(3,4) g0] grpc [OF h(1,2) g3] grpc_run [of 0] grpc_run [of "- 3"] j1 j2
    json_run [of negative_severity_json] json_run [of no_severity_json]
  show ?thesis by simp
qed

end
